(* ===== verification/Steering_Prelude.thy ===== *)
theory Steering_Prelude
  imports Complex_Main
begin

text \<open>
  Shared vocabulary of the steering-controller development: the named collections
  that the component theories fill, the type of a controller's step, and the facts
  about real arithmetic and the transcendental functions (\<open>arcsin\<close>, \<open>arctan\<close>,
  \<open>sin\<close>) that several controllers need. The C++ code computes with \<open>double\<close>;
  the model computes with \<open>real\<close> (see the header of \<open>Spec2Isabelle\<close>).
\<close>

named_theorems vec_defs "unfolding rules of the ChVector operations"
named_theorems range_rules "range facts of clamped, normalised and filtered quantities"

text \<open>
  A controller's \<open>Advance(vehicle, step)\<close> returns the steering value and
  updates the controller in place; the model returns both. \<open>'v\<close> is the vehicle
  snapshot, \<open>'s\<close> the controller state.
\<close>

type_synonym ('v, 's) advance_fn = "'v \<Rightarrow> real \<Rightarrow> 's \<Rightarrow> real \<times> 's"

subsection \<open>Real arithmetic\<close>

lemma sq_le_one_imp_abs_le_one [range_rules]:
  fixes x :: real
  assumes "x\<^sup>2 \<le> 1"
  shows "\<bar>x\<bar> \<le> 1"
  using assms abs_le_square_iff [of x 1] by simp

lemma abs_arcsin_le [range_rules]:
  fixes x :: real
  assumes "\<bar>x\<bar> \<le> 1"
  shows "\<bar>arcsin x\<bar> \<le> pi / 2"
proof -
  from assms have "- 1 \<le> x" and "x \<le> 1" by linarith+
  then have "- (pi / 2) \<le> arcsin x \<and> arcsin x \<le> pi / 2"
    by (rule arcsin_bounded)
  then show ?thesis by linarith
qed

lemma abs_arctan_less [range_rules]: "\<bar>arctan (x :: real)\<bar> < pi / 2"
  using arctan_bounded [of x] by linarith

lemma abs_mult_le_one [range_rules]:
  fixes a b :: real
  assumes "\<bar>a\<bar> \<le> 1" and "\<bar>b\<bar> \<le> 1"
  shows "\<bar>a * b\<bar> \<le> 1"
proof -
  have "\<bar>a * b\<bar> = \<bar>a\<bar> * \<bar>b\<bar>" by (rule abs_mult)
  also have "\<dots> \<le> 1 * 1"
    using assms by (intro mult_mono) auto
  finally show ?thesis by simp
qed

text \<open>
  A two-tap recursion \<open>y = b * (u + u') - a * y'\<close> with \<open>0 \<le> b\<close> and
  \<open>2 * b + |a| \<le> 1\<close> keeps its output in \<open>[-1, 1]\<close> when its inputs and its
  previous output are there: the bound behind the first-order filters.
\<close>

lemma two_tap_bounded:
  fixes a b u u' y' :: real
  assumes "0 \<le> b" and "2 * b + \<bar>a\<bar> \<le> 1"
    and "\<bar>u\<bar> \<le> 1" and "\<bar>u'\<bar> \<le> 1" and "\<bar>y'\<bar> \<le> 1"
  shows "\<bar>b * (u + u') - a * y'\<bar> \<le> 1"
proof -
  have "\<bar>b * (u + u')\<bar> \<le> b * 2"
    using assms(1,3,4) by (simp add: abs_mult) (intro mult_left_mono; linarith)
  moreover have "\<bar>a * y'\<bar> \<le> \<bar>a\<bar>"
    using assms(5) by (simp add: abs_mult mult_left_le)
  ultimately show ?thesis
    using assms(2) by linarith
qed

subsection \<open>The sine ramp\<close>

text \<open>
  \<open>s - sin (2 pi s) / (2 pi)\<close> rises from 0 at \<open>s = 0\<close> to 1 at \<open>s = 1\<close> and stays
  in \<open>[0, 1]\<close> in between: it is the shape of \<open>ChSineStep\<close>.
\<close>

lemma sine_ramp_nonneg:
  fixes s :: real
  assumes "0 \<le> s"
  shows "0 \<le> s - sin (2 * pi * s) / (2 * pi)"
proof -
  have "sin (2 * pi * s) \<le> 2 * pi * s"
    using assms by (intro sin_x_le_x) simp
  then show ?thesis
    by (simp add: field_simps)
qed

lemma sine_ramp_le_one:
  fixes s :: real
  assumes "s \<le> 1"
  shows "s - sin (2 * pi * s) / (2 * pi) \<le> 1"
proof -
  define t where "t = 1 - s"
  have t: "0 \<le> t" using assms by (simp add: t_def)
  have "sin (2 * pi * s) = - sin (2 * pi * t)"
  proof -
    have "2 * pi * s = 2 * pi - 2 * pi * t" by (simp add: t_def algebra_simps)
    then show ?thesis by (simp add: sin_diff)
  qed
  moreover have "0 \<le> t - sin (2 * pi * t) / (2 * pi)"
    using t by (rule sine_ramp_nonneg)
  ultimately show ?thesis
    by (simp add: t_def)
qed


subsection \<open>Indexed loops over vectors\<close>

text \<open>
  A C++ loop \<open>for (i = 0; i < k; ++i) v[i] = g(i, v[i]);\<close> is a left fold of list
  updates over \<open>[0..<k]\<close>; it touches each of the first \<open>k\<close> entries once.
\<close>

lemma foldl_update_nth:
  assumes "k \<le> length S"
  shows "length (foldl (\<lambda>S i. S[i := g i (S ! i)]) S [0..<k]) = length S
         \<and> (\<forall>j < length S. foldl (\<lambda>S i. S[i := g i (S ! i)]) S [0..<k] ! j = (if j < k then g j (S ! j) else S ! j))"
  using assms
proof (induction k)
  case 0
  then show ?case by simp
next
  case (Suc k)
  then have "k < length S" by simp
  with Suc show ?case by (auto simp: nth_list_update)
qed

lemma foldl_update_all:
  "length (foldl (\<lambda>S i. S[i := g i (S ! i)]) S [0..<length S]) = length S"
  "j < length S \<Longrightarrow> foldl (\<lambda>S i. S[i := g i (S ! i)]) S [0..<length S] ! j = g j (S ! j)"
  using foldl_update_nth [of "length S" S g] by simp_all

text \<open>An attribute every update keeps is kept by the loop and by a single update.\<close>

lemma foldl_update_map_keep:
  assumes "\<And>i x. h (g i x) = h x"
  shows "map h (foldl (\<lambda>S i. S[i := g i (S ! i)]) S [0..<length S]) = map h S"
  by (rule nth_equalityI) (simp_all add: foldl_update_all assms)

lemma map_update_keep: "h y = h (xs ! i) \<Longrightarrow> map h (xs[i := y]) = map h xs"
  by (cases "i < length xs") (simp_all add: map_update list_update_beyond,
      metis list_update_id map_update nth_map)

text \<open>An accumulation \<open>m += f(x)\<close> over a container is a sum.\<close>

lemma foldl_add_sum:
  fixes f :: "'a \<Rightarrow> 'b::comm_monoid_add"
  shows "foldl (\<lambda>m x. m + f x) a xs = a + sum_list (map f xs)"
  by (induction xs arbitrary: a) (simp_all add: add.assoc)

lemma sum_list_map_concat:
  "sum_list (map f (concat xss)) = sum_list (map (\<lambda>xs. sum_list (map f xs)) xss)"
  by (induction xss) simp_all

end
