(* ===== verification/Ch_Vector.thy ===== *)
theory Ch_Vector
  imports Steering_Prelude
begin

text \<open>
  \<open>ChVector<double>\<close> of Chrono's core math library (not under src/): three
  real coordinates, with the vector space operators \<open>+\<close>, \<open>-\<close> and unary
  minus as an instance of \<open>ab_group_add\<close>, so that the library's algebra
  applies to the vectors of the model. The other vector operations are in
  \<open>Ch_Math\<close>.
\<close>

datatype vec3 = ChVector (vx: real) (vy: real) (vz: real)

instantiation vec3 :: ab_group_add
begin

definition zero_vec3 :: vec3 where
  "0 = ChVector 0 0 0"

definition plus_vec3 :: "vec3 \<Rightarrow> vec3 \<Rightarrow> vec3" where
  "a + b = ChVector (vx a + vx b) (vy a + vy b) (vz a + vz b)"

definition minus_vec3 :: "vec3 \<Rightarrow> vec3 \<Rightarrow> vec3" where
  "a - b = ChVector (vx a - vx b) (vy a - vy b) (vz a - vz b)"

definition uminus_vec3 :: "vec3 \<Rightarrow> vec3" where
  "- a = ChVector (- vx a) (- vy a) (- vz a)"

instance
  by standard (simp_all add: zero_vec3_def plus_vec3_def minus_vec3_def uminus_vec3_def)

end

declare zero_vec3_def [vec_defs] plus_vec3_def [vec_defs] minus_vec3_def [vec_defs] uminus_vec3_def [vec_defs]

end
