(* ===== verification/Ch_Math.thy ===== *)
theory Ch_Math
  imports Ch_Vector
begin

text \<open>
  The parts of Chrono's core math library that the steering controllers call:
  the operations on \<open>ChVector\<close> (the type is in \<open>Ch_Vector\<close>), \<open>ChWorldFrame\<close> in its default ISO
  orientation (Z up, X forward), a rigid frame (\<open>ChFrame\<close>) with its point
  transformation, the axis-angle rotation \<open>ChMatrix33(angle, axis)\<close>, and the
  scalar helpers \<open>ChClamp\<close>, \<open>ChSignum\<close> and \<open>ChSineStep\<close> of
  \<open>ChMathematics.h\<close>. None of these files is part of the repository: the
  vector and frame operations are the model's algebra on triples of reals, and
  the scalar helpers and the rotation follow their documented behaviour, with
  \<open>double\<close> as \<open>real\<close>.
\<close>

section \<open>ChVector operations\<close>

text \<open>\<open>operator*(double)\<close>: scaling by a scalar.\<close>

definition vscale :: "real \<Rightarrow> vec3 \<Rightarrow> vec3" where
  "vscale c a = ChVector (c * vx a) (c * vy a) (c * vz a)"

definition Vdot :: "vec3 \<Rightarrow> vec3 \<Rightarrow> real" where
  "Vdot a b = vx a * vx b + vy a * vy b + vz a * vz b"

definition Vcross :: "vec3 \<Rightarrow> vec3 \<Rightarrow> vec3" where
  "Vcross a b = ChVector (vy a * vz b - vz a * vy b)
                         (vz a * vx b - vx a * vz b)
                         (vx a * vy b - vy a * vx b)"

definition vlength :: "vec3 \<Rightarrow> real" where
  "vlength a = sqrt ((vx a)\<^sup>2 + (vy a)\<^sup>2 + (vz a)\<^sup>2)"

text \<open>
  \<open>Normalize()\<close>: a vector shorter than the smallest normal double
  (\<open>numeric_limits<double>::min()\<close>, \<open>2^-1022\<close>) becomes the X axis; any other is
  scaled by the inverse of its length.
\<close>

definition dbl_min :: real where
  "dbl_min = 1 / 2 ^ 1022"

definition vnormalize :: "vec3 \<Rightarrow> vec3" where
  "vnormalize a = (let l = vlength a in if l < dbl_min then ChVector 1 0 0 else vscale (1 / l) a)"

declare vscale_def [vec_defs] Vdot_def [vec_defs] Vcross_def [vec_defs]

section \<open>ChWorldFrame (ISO)\<close>

definition wf_vertical :: vec3 where
  "wf_vertical = ChVector 0 0 1"

definition wf_forward :: vec3 where
  "wf_forward = ChVector 1 0 0"

definition wf_height :: "vec3 \<Rightarrow> real" where
  "wf_height v = Vdot wf_vertical v"

definition wf_project :: "vec3 \<Rightarrow> vec3" where
  "wf_project v = v - vscale (wf_height v) wf_vertical"

section \<open>ChFrame and ChMatrix33\<close>

text \<open>
  A frame is its origin and the three columns of its rotation matrix
  (\<open>GetRot().GetXaxis()\<close>, \<open>GetYaxis()\<close>, \<open>GetZaxis()\<close>).
\<close>

record chframe =
  fpos :: vec3
  fxaxis :: vec3
  fyaxis :: vec3
  fzaxis :: vec3

definition TransformPointLocalToParent :: "chframe \<Rightarrow> vec3 \<Rightarrow> vec3" where
  "TransformPointLocalToParent f p =
     fpos f + vscale (vx p) (fxaxis f) + vscale (vy p) (fyaxis f) + vscale (vz p) (fzaxis f)"

text \<open>The inverse map, \<open>TransformPointParentToLocal\<close>: coordinates along the axes.\<close>

definition TransformPointParentToLocal :: "chframe \<Rightarrow> vec3 \<Rightarrow> vec3" where
  "TransformPointParentToLocal f p =
     (let d = p - fpos f in ChVector (Vdot d (fxaxis f)) (Vdot d (fyaxis f)) (Vdot d (fzaxis f)))"

text \<open>The identity frame \<open>ChFrame<>()\<close>, and \<open>f.TransformLocalToParent(ChFrame<>(v, QUNIT))\<close>.\<close>

definition ChFrame_identity :: chframe where
  "ChFrame_identity = \<lparr>fpos = 0, fxaxis = ChVector 1 0 0, fyaxis = ChVector 0 1 0, fzaxis = ChVector 0 0 1\<rparr>"

definition frame_child_at :: "chframe \<Rightarrow> vec3 \<Rightarrow> chframe" where
  "frame_child_at f v = f\<lparr>fpos := TransformPointLocalToParent f v\<rparr>"

text \<open>\<open>ChMatrix33(angle, axis) * v\<close>: rotation of \<open>v\<close> about a unit axis (Rodrigues).\<close>

definition rot_axis_angle :: "real \<Rightarrow> vec3 \<Rightarrow> vec3 \<Rightarrow> vec3" where
  "rot_axis_angle theta k v =
     vscale (cos theta) v + vscale (sin theta) (Vcross k v)
     + vscale ((1 - cos theta) * Vdot k v) k"

section \<open>ChMathematics\<close>

definition CH_C_DEG_TO_RAD :: real where
  "CH_C_DEG_TO_RAD = pi / 180"

definition CH_C_2PI :: real where
  "CH_C_2PI = 2 * pi"

definition ChClamp :: "real \<Rightarrow> real \<Rightarrow> real \<Rightarrow> real" where
  "ChClamp v lo hi = (if v < lo then lo else if v > hi then hi else v)"

definition ChSignum :: "real \<Rightarrow> real" where
  "ChSignum x = (if x > 0 then 1 else 0) - (if x < 0 then 1 else 0)"

definition ChSineStep :: "real \<Rightarrow> real \<Rightarrow> real \<Rightarrow> real \<Rightarrow> real \<Rightarrow> real" where
  "ChSineStep x x1 y1 x2 y2 =
     (if x \<le> x1 then y1
      else if x \<ge> x2 then y2
      else (let dx = x2 - x1; dy = y2 - y1
            in y1 + dy * (x - x1) / dx - (dy / CH_C_2PI) * sin (CH_C_2PI * (x - x1) / dx)))"

section \<open>Vector algebra\<close>

lemma vec3_sel_ops [simp]:
  "vx 0 = 0" "vy 0 = 0" "vz 0 = 0"
  "vx (a + b) = vx a + vx b" "vy (a + b) = vy a + vy b" "vz (a + b) = vz a + vz b"
  "vx (a - b) = vx a - vx b" "vy (a - b) = vy a - vy b" "vz (a - b) = vz a - vz b"
  "vx (- a) = - vx a" "vy (- a) = - vy a" "vz (- a) = - vz a"
  "vx (vscale c a) = c * vx a" "vy (vscale c a) = c * vy a" "vz (vscale c a) = c * vz a"
  by (simp_all add: vec_defs)

lemma vec3_eq_iff: "a = b \<longleftrightarrow> vx a = vx b \<and> vy a = vy b \<and> vz a = vz b"
  by (cases a; cases b) simp

lemma vlength_nonneg [simp]: "0 \<le> vlength a"
  by (simp add: vlength_def)

lemma vlength_sq: "(vlength a)\<^sup>2 = (vx a)\<^sup>2 + (vy a)\<^sup>2 + (vz a)\<^sup>2"
  by (simp add: vlength_def)

lemma vlength_scale: "vlength (vscale c a) = \<bar>c\<bar> * vlength a"
proof -
  have "(c * vx a)\<^sup>2 + (c * vy a)\<^sup>2 + (c * vz a)\<^sup>2 = c\<^sup>2 * ((vx a)\<^sup>2 + (vy a)\<^sup>2 + (vz a)\<^sup>2)"
    by (simp add: algebra_simps power_mult_distrib)
  then show ?thesis
    by (simp add: vlength_def real_sqrt_mult)
qed

lemma vlength_uminus [simp]: "vlength (- a) = vlength a"
  by (simp add: vlength_def)

lemma dbl_min_pos: "0 < dbl_min"
  by (simp add: dbl_min_def)

text \<open>Whatever its input, \<open>Normalize()\<close> leaves a vector of length one.\<close>

lemma vlength_vnormalize [simp, range_rules]: "vlength (vnormalize a) = 1"
proof (cases "vlength a < dbl_min")
  case True
  then show ?thesis by (simp add: vnormalize_def vlength_def)
next
  case False
  then have "0 < vlength a" using dbl_min_pos by linarith
  with False show ?thesis by (simp add: vnormalize_def vlength_scale)
qed

lemma vz_vnormalize: "vz a = 0 \<Longrightarrow> vz (vnormalize a) = 0"
  by (simp add: vnormalize_def Let_def)

section \<open>World frame\<close>

lemma wf_height_eq [simp]: "wf_height v = vz v"
  by (simp add: wf_height_def wf_vertical_def Vdot_def)

lemma wf_project_sel [simp]:
  "vx (wf_project v) = vx v" "vy (wf_project v) = vy v" "vz (wf_project v) = 0"
  by (simp_all add: wf_project_def wf_vertical_def)

lemma vz_vnormalize_project [simp]: "vz (vnormalize (wf_project v)) = 0"
  by (simp add: vz_vnormalize)

lemma vcross_vertical_sel [simp]:
  "Vcross a wf_vertical = ChVector (vy a) (- vx a) 0"
  by (simp add: Vcross_def wf_vertical_def)

lemma transform_forward:
  "TransformPointLocalToParent f (vscale d wf_forward) = fpos f + vscale d (fxaxis f)"
  by (simp add: TransformPointLocalToParent_def wf_forward_def vec3_eq_iff)

lemma vscale_sum_list:
  "sum_list (map (\<lambda>x. vscale (f x) c) xs) = vscale (sum_list (map f xs)) c"
  by (induction xs) (simp_all add: vec3_eq_iff algebra_simps)

lemma vscale_inverse: "m \<noteq> 0 \<Longrightarrow> vscale (1 / m) (vscale m c) = c"
  by (simp add: vec3_eq_iff)

text \<open>
  A frame whose axes are orthonormal (every rotation matrix's columns are);
  for it \<open>TransformPointParentToLocal\<close> undoes \<open>TransformPointLocalToParent\<close>.
\<close>

definition frame_orthonormal :: "chframe \<Rightarrow> bool" where
  "frame_orthonormal f =
     (Vdot (fxaxis f) (fxaxis f) = 1 \<and> Vdot (fyaxis f) (fyaxis f) = 1 \<and> Vdot (fzaxis f) (fzaxis f) = 1
      \<and> Vdot (fxaxis f) (fyaxis f) = 0 \<and> Vdot (fxaxis f) (fzaxis f) = 0 \<and> Vdot (fyaxis f) (fzaxis f) = 0)"

lemma Vdot_lin:
  "Vdot (a + b) c = Vdot a c + Vdot b c" "Vdot (vscale k a) c = k * Vdot a c" "Vdot a b = Vdot b a"
  by (simp_all add: Vdot_def algebra_simps)

lemma frame_orthonormal_identity: "frame_orthonormal ChFrame_identity"
  by (simp add: frame_orthonormal_def ChFrame_identity_def Vdot_def)

lemma frame_child_at_orthonormal [simp]: "frame_orthonormal (frame_child_at f v) = frame_orthonormal f"
  by (simp add: frame_orthonormal_def frame_child_at_def)

text \<open>
  The vertical component of a cross product is bounded by the product of the
  lengths (Lagrange's identity in the plane), so for unit vectors it lies in
  \<open>[-1, 1]\<close> and \<open>asin\<close> of it is defined.
\<close>

lemma vcross_height_sq_le:
  "(wf_height (Vcross a b))\<^sup>2 \<le> (vlength a)\<^sup>2 * (vlength b)\<^sup>2"
proof -
  let ?ax = "vx a" and ?ay = "vy a" and ?az = "vz a"
  let ?bx = "vx b" and ?by = "vy b" and ?bz = "vz b"
  have lagrange: "(?ax * ?by - ?ay * ?bx)\<^sup>2 + (?ax * ?bx + ?ay * ?by)\<^sup>2
                  = (?ax\<^sup>2 + ?ay\<^sup>2) * (?bx\<^sup>2 + ?by\<^sup>2)"
    by (simp add: power2_eq_square algebra_simps)
  have "(?ax * ?by - ?ay * ?bx)\<^sup>2 \<le> (?ax\<^sup>2 + ?ay\<^sup>2) * (?bx\<^sup>2 + ?by\<^sup>2)"
    using lagrange by (metis le_add_same_cancel1 zero_le_power2)
  also have "\<dots> \<le> (?ax\<^sup>2 + ?ay\<^sup>2 + ?az\<^sup>2) * (?bx\<^sup>2 + ?by\<^sup>2 + ?bz\<^sup>2)"
    by (intro mult_mono) auto
  finally show ?thesis
    by (simp add: vlength_sq Vcross_def)
qed

lemma unit_cross_height_bounded [range_rules]:
  assumes "vlength a = 1" and "vlength b = 1"
  shows "\<bar>wf_height (Vcross a b)\<bar> \<le> 1"
  using vcross_height_sq_le [of a b] assms by (intro sq_le_one_imp_abs_le_one) simp

text \<open>Hence the heading angle \<open>asin(Height(a \<times> b))\<close> of two unit vectors is defined.\<close>

lemma arcsin_unit_cross_bounded [range_rules]:
  assumes "vlength a = 1" and "vlength b = 1"
  shows "\<bar>arcsin (wf_height (Vcross a b))\<bar> \<le> pi / 2"
  using unit_cross_height_bounded [OF assms] by (rule abs_arcsin_le)

section \<open>Scalar helpers\<close>

lemma ChClamp_bounds [range_rules]:
  "lo \<le> hi \<Longrightarrow> lo \<le> ChClamp v lo hi \<and> ChClamp v lo hi \<le> hi"
  by (simp add: ChClamp_def)

lemma ChClamp_id: "lo \<le> v \<Longrightarrow> v \<le> hi \<Longrightarrow> ChClamp v lo hi = v"
  by (simp add: ChClamp_def)

lemma ChClamp_self_upper: "ChClamp u lo u = max u lo"
  by (simp add: ChClamp_def)

lemma ChSignum_sgn: "ChSignum x = sgn x"
  by (simp add: ChSignum_def sgn_if)

lemma ChSineStep_below: "x \<le> x1 \<Longrightarrow> ChSineStep x x1 y1 x2 y2 = y1"
  by (simp add: ChSineStep_def)

lemma ChSineStep_above: "x1 < x \<Longrightarrow> x2 \<le> x \<Longrightarrow> ChSineStep x x1 y1 x2 y2 = y2"
  by (simp add: ChSineStep_def)

text \<open>Strictly between the two knots the step is the sine ramp, scaled.\<close>

lemma ChSineStep_inside:
  assumes "x1 < x" and "x < x2"
  shows "ChSineStep x x1 y1 x2 y2 =
           y1 + (y2 - y1) * ((x - x1) / (x2 - x1)
                 - sin (2 * pi * ((x - x1) / (x2 - x1))) / (2 * pi))"
  using assms by (simp add: ChSineStep_def CH_C_2PI_def Let_def algebra_simps)

lemma ChSineStep_bounds [range_rules]:
  assumes "x1 < x2" and "y1 \<le> y2"
  shows "y1 \<le> ChSineStep x x1 y1 x2 y2 \<and> ChSineStep x x1 y1 x2 y2 \<le> y2"
proof (cases "x \<le> x1 \<or> x2 \<le> x")
  case True
  with assms show ?thesis
    by (auto simp: ChSineStep_def)
next
  case False
  define s where "s = (x - x1) / (x2 - x1)"
  from False assms have "0 \<le> s" and "s \<le> 1"
    by (auto simp: s_def field_simps)
  have r: "0 \<le> s - sin (2 * pi * s) / (2 * pi)" "s - sin (2 * pi * s) / (2 * pi) \<le> 1"
    using sine_ramp_nonneg [OF \<open>0 \<le> s\<close>] sine_ramp_le_one [OF \<open>s \<le> 1\<close>] by auto
  have eq: "ChSineStep x x1 y1 x2 y2 = y1 + (y2 - y1) * (s - sin (2 * pi * s) / (2 * pi))"
    using False by (simp add: ChSineStep_inside s_def)
  from assms(2) r have "0 \<le> (y2 - y1) * (s - sin (2 * pi * s) / (2 * pi))"
    by simp
  moreover have "(y2 - y1) * (s - sin (2 * pi * s) / (2 * pi)) \<le> y2 - y1"
    using mult_left_le [OF r(2), of "y2 - y1"] assms(2) by simp
  ultimately show ?thesis
    by (simp add: eq)
qed

text \<open>
  For unit vectors the test \<open>|a - b| < 1\<close>, which the XT controller uses twice, is
  the test \<open>a \<cdot> b > 1/2\<close>: the angle between them is below 60 degrees.
\<close>

lemma vlength_diff_sq: "(vlength (a - b))\<^sup>2 = (vlength a)\<^sup>2 + (vlength b)\<^sup>2 - 2 * Vdot a b"
  unfolding vlength_sq by (simp add: Vdot_def power2_eq_square algebra_simps)

lemma unit_dist_lt_one_iff:
  assumes "vlength a = 1" and "vlength b = 1"
  shows "vlength (a - b) < 1 \<longleftrightarrow> 1 / 2 < Vdot a b"
proof -
  have "vlength (a - b) < 1 \<longleftrightarrow> (vlength (a - b))\<^sup>2 < 1"
    by (simp add: abs_square_less_1)
  also have "\<dots> \<longleftrightarrow> 1 / 2 < Vdot a b"
    using assms by (simp add: vlength_diff_sq) (simp add: algebra_simps)
  finally show ?thesis .
qed

end
