(* ===== verification/Steering_Base.thy ===== *)
theory Steering_Base
  imports Ch_Math
begin

text \<open>
  The base class \<open>ChSteeringController\<close> (src/unnamed/part_000, lines 43-154)
  and the interfaces it is written against. The controller's fields are the record
  \<open>steer_base\<close>; the derived controllers extend it (\<open>steer_base + \<dots>\<close>), so
  that the base operations, written over \<open>'a steer_base_scheme\<close>, act on every
  derived controller as the inherited C++ methods do. The virtual
  \<open>CalcTargetLocation()\<close> is the argument \<open>calc_target\<close> of \<open>base_Advance\<close>.

  The vehicle is an opaque snapshot (\<open>ChVehicle\<close> is not under src/): chassis
  reference frame, velocity of the reference point, speed and time. The path
  tracker (\<open>ChBezierCurveTracker\<close>, not under src/) is an interface record of
  three operations over its own state \<open>'t\<close>: reset at a point, closest point,
  closest point with its curve frame and curvature. For concrete runs the theory
  provides \<open>x_axis_tracker\<close>, the exact closest-point map of the straight path
  along the world X axis, and \<open>heading_x_vehicle\<close>, a vehicle parallel to it.
\<close>

section \<open>Interfaces\<close>

record vehicle =
  veh_frame :: chframe
  veh_vel :: vec3
  veh_speed :: real
  veh_time :: real

definition GetPos :: "vehicle \<Rightarrow> vec3" where
  "GetPos v = fpos (veh_frame v)"

record 't curve_tracker =
  trk_reset :: "'t \<Rightarrow> vec3 \<Rightarrow> 't"
  trk_closest :: "'t \<Rightarrow> vec3 \<Rightarrow> vec3 \<times> 't"
  trk_closest_frame :: "'t \<Rightarrow> vec3 \<Rightarrow> chframe \<times> real \<times> 't"

text \<open>One row of the data-collection buffer: time, target, sentinel.\<close>

type_synonym log_row = "real \<times> vec3 \<times> vec3"

section \<open>ChSteeringController\<close>

record steer_base =
  m_dist :: real
  m_sentinel :: vec3
  m_target :: vec3
  m_err :: real
  m_erri :: real
  m_errd :: real
  m_Kp :: real
  m_Ki :: real
  m_Kd :: real
  m_csv :: "log_row list option"
  m_collect :: bool

text \<open>\<open>SetGains(Kp, Ki, Kd)\<close> of the base class (declared inline in its header).\<close>

definition base_SetGains :: "real \<Rightarrow> real \<Rightarrow> real \<Rightarrow> 'a steer_base_scheme \<Rightarrow> 'a steer_base_scheme" where
  "base_SetGains Kp Ki Kd s = s\<lparr>m_Kp := Kp, m_Ki := Ki, m_Kd := Kd\<rparr>"

text \<open>The default constructor: everything zero, no buffer, gains zero.\<close>

definition ChSteeringController :: steer_base where
  "ChSteeringController =
     base_SetGains 0 0 0
       \<lparr>m_dist = 0, m_sentinel = 0, m_target = 0, m_err = 0, m_erri = 0, m_errd = 0,
        m_Kp = 0, m_Ki = 0, m_Kd = 0, m_csv = None, m_collect = False\<rparr>"

text \<open>
  The JSON constructor. \<open>doc\<close> is the parsed file (\<open>None\<close> for a null document),
  with gains \<open>Kp, Ki, Kd\<close> and the look-ahead distance. On a null document the
  constructor returns before it assigns \<open>m_dist\<close> and the gains, which no
  initialiser sets: they keep the indeterminate values \<open>junk\<close>.
\<close>

record steer_json =
  js_Kp :: real
  js_Ki :: real
  js_Kd :: real
  js_dist :: real

definition ChSteeringController_json ::
  "steer_json option \<Rightarrow> real \<times> real \<times> real \<times> real \<Rightarrow> steer_base" where
  "ChSteeringController_json doc junk =
     (let (jd, jp, ji, jk) = junk;
          s0 = \<lparr>m_dist = jd, m_sentinel = 0, m_target = 0, m_err = 0, m_erri = 0, m_errd = 0,
                m_Kp = jp, m_Ki = ji, m_Kd = jk, m_csv = None, m_collect = False\<rparr>
      in case doc of
           None \<Rightarrow> s0
         | Some d \<Rightarrow> s0\<lparr>m_Kp := js_Kp d, m_Ki := js_Ki d, m_Kd := js_Kd d, m_dist := js_dist d\<rparr>)"

text \<open>The sentinel: the look-ahead point \<open>d\<close> ahead of the chassis frame.\<close>

definition sentinel_at :: "real \<Rightarrow> vehicle \<Rightarrow> vec3" where
  "sentinel_at d veh = TransformPointLocalToParent (veh_frame veh) (vscale d wf_forward)"

definition base_Reset :: "vehicle \<Rightarrow> 'a steer_base_scheme \<Rightarrow> 'a steer_base_scheme" where
  "base_Reset veh s =
     s\<lparr>m_sentinel := sentinel_at (m_dist s) veh, m_err := 0, m_erri := 0, m_errd := 0\<rparr>"

text \<open>
  \<open>*m_csv << time << m_target << m_sentinel\<close> when collection is on. The code
  dereferences \<open>m_csv\<close> unguarded; \<open>log_ok\<close> below shows it is never null then.
\<close>

definition log_sample :: "real \<Rightarrow> 'a steer_base_scheme \<Rightarrow> 'a steer_base_scheme" where
  "log_sample time s =
     (if m_collect s
      then s\<lparr>m_csv := map_option (\<lambda>rows. rows @ [(time, m_target s, m_sentinel s)]) (m_csv s)\<rparr>
      else s)"

text \<open>
  The signed lateral error of \<open>Advance\<close> (lines 103-118): the horizontal length of
  \<open>target - sentinel\<close>, signed by the vertical component of the cross product of
  the horizontal sentinel and target vectors seen from the vehicle. XT (lines
  379-394) and Stanley (lines 723-738) repeat these lines verbatim.
\<close>

definition lateral_error :: "vehicle \<Rightarrow> vec3 \<Rightarrow> vec3 \<Rightarrow> real" where
  "lateral_error veh sentinel target =
     (let err_vec = wf_project (target - sentinel);
          sentinel_vec = wf_project (sentinel - GetPos veh);
          target_vec = wf_project (target - GetPos veh);
          temp = Vdot (Vcross sentinel_vec target_vec) wf_vertical
      in ChSignum temp * vlength err_vec)"

definition base_Advance ::
  "('a steer_base_scheme \<Rightarrow> 'a steer_base_scheme) \<Rightarrow> vehicle \<Rightarrow> real
   \<Rightarrow> 'a steer_base_scheme \<Rightarrow> real \<times> 'a steer_base_scheme" where
  "base_Advance calc_target veh step s =
     (let s1 = s\<lparr>m_sentinel := sentinel_at (m_dist s) veh\<rparr>;
          s2 = log_sample (veh_time veh) (calc_target s1);
          err = lateral_error veh (m_sentinel s2) (m_target s2);
          s3 = s2\<lparr>m_errd := (err - m_err s2) / step\<rparr>;
          s4 = s3\<lparr>m_erri := m_erri s3 + (err + m_err s3) * step / 2\<rparr>;
          s5 = s4\<lparr>m_err := err\<rparr>
      in (m_Kp s5 * m_err s5 + m_Ki s5 * m_erri s5 + m_Kd s5 * m_errd s5, s5))"

definition StartDataCollection :: "'a steer_base_scheme \<Rightarrow> 'a steer_base_scheme" where
  "StartDataCollection s =
     (if m_collect s then s
      else (if m_csv s = None then s\<lparr>m_csv := Some []\<rparr> else s)\<lparr>m_collect := True\<rparr>)"

definition StopDataCollection :: "'a steer_base_scheme \<Rightarrow> 'a steer_base_scheme" where
  "StopDataCollection s = s\<lparr>m_collect := False\<rparr>"

text \<open>\<open>WriteOutputFile(filename)\<close>: the file written, if any (name and rows).\<close>

definition WriteOutputFile :: "string \<Rightarrow> 'a steer_base_scheme \<Rightarrow> (string \<times> log_row list) option" where
  "WriteOutputFile filename s = map_option (\<lambda>rows. (filename, rows)) (m_csv s)"

section \<open>A straight path and a vehicle driving along it\<close>

definition x_axis_tracker :: "unit curve_tracker" where
  "x_axis_tracker =
     \<lparr>trk_reset = (\<lambda>t p. ()),
      trk_closest = (\<lambda>t p. (ChVector (vx p) 0 0, ())),
      trk_closest_frame = (\<lambda>t p. (\<lparr>fpos = ChVector (vx p) 0 0, fxaxis = ChVector 1 0 0,
                                     fyaxis = ChVector 0 1 0, fzaxis = ChVector 0 0 1\<rparr>, 0, ()))\<rparr>"

text \<open>A vehicle at \<open>(x, y, 0)\<close> heading along \<open>+X\<close> at speed \<open>u\<close>.\<close>

definition heading_x_vehicle :: "real \<Rightarrow> real \<Rightarrow> real \<Rightarrow> vehicle" where
  "heading_x_vehicle x y u =
     \<lparr>veh_frame = \<lparr>fpos = ChVector x y 0, fxaxis = ChVector 1 0 0,
                   fyaxis = ChVector 0 1 0, fzaxis = ChVector 0 0 1\<rparr>,
      veh_vel = ChVector u 0 0, veh_speed = \<bar>u\<bar>, veh_time = 0\<rparr>"

section \<open>Invariant and contract\<close>

text \<open>
  \<open>log_ok\<close>: whenever collection is on the buffer exists, so the unguarded
  \<open>*m_csv << \<dots>\<close> of every \<open>Advance\<close> never dereferences a null pointer.
\<close>

definition log_ok :: "'a steer_base_scheme \<Rightarrow> bool" where
  "log_ok s \<longleftrightarrow> (m_collect s \<longrightarrow> m_csv s \<noteq> None)"

text \<open>
  The contract of the virtual \<open>CalcTargetLocation()\<close> as the base class uses it:
  it may write the target (and the derived class's own fields) but leaves the
  sentinel, the error state, the gains and the buffer alone.
\<close>

definition target_contract :: "('a steer_base_scheme \<Rightarrow> 'a steer_base_scheme) \<Rightarrow> bool" where
  "target_contract ct \<longleftrightarrow>
     (\<forall>s. m_dist (ct s) = m_dist s \<and> m_sentinel (ct s) = m_sentinel s
          \<and> m_err (ct s) = m_err s \<and> m_erri (ct s) = m_erri s
          \<and> m_Kp (ct s) = m_Kp s \<and> m_Ki (ct s) = m_Ki s \<and> m_Kd (ct s) = m_Kd s
          \<and> m_csv (ct s) = m_csv s \<and> m_collect (ct s) = m_collect s)"

section \<open>Lemmas\<close>

lemma log_sample_fields [simp]:
  "m_dist (log_sample t s) = m_dist s" "m_sentinel (log_sample t s) = m_sentinel s"
  "m_target (log_sample t s) = m_target s" "m_err (log_sample t s) = m_err s"
  "m_erri (log_sample t s) = m_erri s" "m_Kp (log_sample t s) = m_Kp s"
  "m_Ki (log_sample t s) = m_Ki s" "m_Kd (log_sample t s) = m_Kd s"
  "m_collect (log_sample t s) = m_collect s"
  "steer_base.more (log_sample t s) = steer_base.more s"
  by (simp_all add: log_sample_def)

lemma log_ok_log_sample: "log_ok s \<Longrightarrow> log_ok (log_sample t s)"
  by (auto simp: log_ok_def log_sample_def)

text \<open>When collecting, a sample appends exactly one row: time, target, sentinel.\<close>

lemma log_sample_appends:
  assumes "m_collect s" and "m_csv s = Some rows"
  shows "m_csv (log_sample t s) = Some (rows @ [(t, m_target s, m_sentinel s)])"
  using assms by (simp add: log_sample_def)

lemma log_sample_off: "\<not> m_collect s \<Longrightarrow> log_sample t s = s"
  by (simp add: log_sample_def)

lemma log_ok_ChSteeringController: "log_ok ChSteeringController"
  by (simp add: log_ok_def ChSteeringController_def base_SetGains_def)

lemma log_ok_json: "log_ok (ChSteeringController_json doc junk)"
  by (cases doc) (simp_all add: log_ok_def ChSteeringController_json_def Let_def split: prod.splits)

lemma log_ok_Reset: "log_ok s \<Longrightarrow> log_ok (base_Reset veh s)"
  by (simp add: log_ok_def base_Reset_def)

lemma log_ok_SetGains: "log_ok s \<Longrightarrow> log_ok (base_SetGains Kp Ki Kd s)"
  by (simp add: log_ok_def base_SetGains_def)

lemma log_ok_Stop: "log_ok (StopDataCollection s)"
  by (simp add: log_ok_def StopDataCollection_def)

lemma Start_collects: "log_ok s \<Longrightarrow> m_collect (StartDataCollection s) \<and> m_csv (StartDataCollection s) \<noteq> None"
  by (auto simp: log_ok_def StartDataCollection_def)

lemma log_ok_Start:
  assumes "log_ok s"
  shows "log_ok (StartDataCollection s)"
  using Start_collects [OF assms] by (simp add: log_ok_def)

text \<open>Starting again never discards rows already collected.\<close>

lemma Start_keeps_rows: "m_csv s = Some rows \<Longrightarrow> m_csv (StartDataCollection s) = Some rows"
  by (simp add: StartDataCollection_def)

lemma target_contractD:
  assumes "target_contract ct"
  shows "m_dist (ct s) = m_dist s" "m_sentinel (ct s) = m_sentinel s"
    "m_err (ct s) = m_err s" "m_erri (ct s) = m_erri s"
    "m_Kp (ct s) = m_Kp s" "m_Ki (ct s) = m_Ki s" "m_Kd (ct s) = m_Kd s"
    "m_csv (ct s) = m_csv s" "m_collect (ct s) = m_collect s"
  using assms by (simp_all add: target_contract_def)

text \<open>
  \<open>Advance\<close> in closed form: the PID law on the lateral error \<open>e\<close> between the new
  sentinel and the target the derived class computes, with a backward difference
  for the derivative and the trapezoidal rule for the integral.
\<close>

lemma base_Advance_eq:
  fixes s :: "'a steer_base_scheme" and veh :: vehicle
  assumes ct: "target_contract ct"
  defines "s2 \<equiv> ct (s\<lparr>m_sentinel := sentinel_at (m_dist s) veh\<rparr>)"
  defines "e \<equiv> lateral_error veh (sentinel_at (m_dist s) veh) (m_target s2)"
  shows "fst (base_Advance ct veh step s) =
           m_Kp s * e + m_Ki s * (m_erri s + (e + m_err s) * step / 2)
           + m_Kd s * ((e - m_err s) / step)"
    and "m_err (snd (base_Advance ct veh step s)) = e"
    and "m_erri (snd (base_Advance ct veh step s)) = m_erri s + (e + m_err s) * step / 2"
    and "m_sentinel (snd (base_Advance ct veh step s)) = sentinel_at (m_dist s) veh"
    and "m_target (snd (base_Advance ct veh step s)) = m_target s2"
  using target_contractD [OF ct]
  by (simp_all add: base_Advance_def Let_def s2_def e_def)

lemma log_ok_base_Advance:
  assumes "target_contract ct" and "log_ok s"
  shows "log_ok (snd (base_Advance ct veh step s))"
proof -
  let ?s1 = "s\<lparr>m_sentinel := sentinel_at (m_dist s) veh\<rparr>"
  have "log_ok (ct ?s1)"
    using assms target_contractD [OF assms(1), of ?s1] by (simp add: log_ok_def)
  then have "log_ok (log_sample (veh_time veh) (ct ?s1))"
    by (rule log_ok_log_sample)
  then show ?thesis
    by (simp add: base_Advance_def Let_def log_ok_def)
qed

section \<open>The straight path\<close>

lemma sentinel_heading_x:
  "sentinel_at d (heading_x_vehicle x y u) = ChVector (x + d) y 0"
  by (simp add: sentinel_at_def transform_forward heading_x_vehicle_def vec3_eq_iff)

lemma heading_x_vehicle_sel:
  "fxaxis (veh_frame (heading_x_vehicle x y u)) = ChVector 1 0 0"
  "veh_speed (heading_x_vehicle x y u) = \<bar>u\<bar>"
  by (simp_all add: heading_x_vehicle_def)

lemma x_axis_closest: "fst (trk_closest x_axis_tracker t p) = ChVector (vx p) 0 0"
  by (simp add: x_axis_tracker_def)

text \<open>
  On the straight path, with the vehicle parallel to it at lateral offset \<open>y\<close> and
  a positive look-ahead, the lateral error is \<open>-y\<close>: positive when the path lies
  to the left of the vehicle.
\<close>

lemma lateral_error_heading_x:
  assumes "0 < d"
  shows "lateral_error (heading_x_vehicle x y u) (ChVector (x + d) y 0) (ChVector (x + d) 0 0) = - y"
proof -
  have "sgn (- (d * y)) = - sgn y"
    using assms by (simp add: sgn_mult)
  then show ?thesis
    by (simp add: lateral_error_def Let_def GetPos_def heading_x_vehicle_def vlength_def
        ChSignum_sgn wf_project_def wf_vertical_def vec_defs sgn_mult_abs)
qed

lemma lateral_error_on_axis:
  "lateral_error (heading_x_vehicle x 0 u) (ChVector (x + d) 0 0) (ChVector (x + d) 0 0) = 0"
  by (simp add: lateral_error_def Let_def vlength_def wf_project_def wf_vertical_def vec_defs)

end
