(* ===== verification/Path_PID.thy ===== *)
theory Path_PID
  imports Steering_Base
begin

text \<open>
  \<open>ChPathSteeringController\<close> (part_000, lines 156-184): the base controller
  with a path tracker; \<open>CalcTargetLocation()\<close> asks the tracker for the point of
  the path closest to the sentinel, \<open>Reset\<close> also resets the tracker at the new
  sentinel, and \<open>Advance\<close> is the inherited PID law. The tracker is any
  implementation of the \<open>curve_tracker\<close> interface.
\<close>

record 't path_ctl = steer_base +
  pid_tracker :: 't

definition ChPathSteeringController :: "'t \<Rightarrow> 't path_ctl" where
  "ChPathSteeringController t0 = steer_base.extend ChSteeringController (path_ctl.fields t0)"

definition ChPathSteeringController_json ::
  "steer_json option \<Rightarrow> real \<times> real \<times> real \<times> real \<Rightarrow> 't \<Rightarrow> 't path_ctl" where
  "ChPathSteeringController_json doc junk t0 =
     steer_base.extend (ChSteeringController_json doc junk) (path_ctl.fields t0)"

definition pid_CalcTargetLocation :: "'t curve_tracker \<Rightarrow> 't path_ctl \<Rightarrow> 't path_ctl" where
  "pid_CalcTargetLocation ops s =
     (let (p, t') = trk_closest ops (pid_tracker s) (m_sentinel s)
      in s\<lparr>m_target := p, pid_tracker := t'\<rparr>)"

definition pid_Reset :: "'t curve_tracker \<Rightarrow> vehicle \<Rightarrow> 't path_ctl \<Rightarrow> 't path_ctl" where
  "pid_Reset ops veh s =
     (let s' = base_Reset veh s in s'\<lparr>pid_tracker := trk_reset ops (pid_tracker s') (m_sentinel s')\<rparr>)"

definition pid_Advance :: "'t curve_tracker \<Rightarrow> (vehicle, 't path_ctl) advance_fn" where
  "pid_Advance ops = base_Advance (pid_CalcTargetLocation ops)"

section \<open>Lemmas\<close>

lemma pid_target_contract: "target_contract (pid_CalcTargetLocation ops)"
  by (simp add: target_contract_def pid_CalcTargetLocation_def split: prod.splits)

lemma log_ok_pid_Advance: "log_ok s \<Longrightarrow> log_ok (snd (pid_Advance ops veh step s))"
  unfolding pid_Advance_def by (rule log_ok_base_Advance [OF pid_target_contract])

lemma log_ok_pid_Reset: "log_ok s \<Longrightarrow> log_ok (pid_Reset ops veh s)"
  by (simp add: pid_Reset_def Let_def log_ok_def base_Reset_def)

lemma pid_Reset_fields:
  "m_sentinel (pid_Reset ops veh s) = sentinel_at (m_dist s) veh"
  "m_err (pid_Reset ops veh s) = 0" "m_erri (pid_Reset ops veh s) = 0"
  "m_errd (pid_Reset ops veh s) = 0"
  "m_dist (pid_Reset ops veh s) = m_dist s"
  "m_Kp (pid_Reset ops veh s) = m_Kp s" "m_Ki (pid_Reset ops veh s) = m_Ki s"
  "m_Kd (pid_Reset ops veh s) = m_Kd s"
  by (simp_all add: pid_Reset_def base_Reset_def Let_def)

lemma pid_Advance_eq:
  "fst (pid_Advance ops veh step s) =
     (let e = lateral_error veh (sentinel_at (m_dist s) veh)
                (fst (trk_closest ops (pid_tracker s) (sentinel_at (m_dist s) veh)))
      in m_Kp s * e + m_Ki s * (m_erri s + (e + m_err s) * step / 2)
         + m_Kd s * ((e - m_err s) / step))"
  unfolding pid_Advance_def
  by (simp add: base_Advance_eq [OF pid_target_contract] pid_CalcTargetLocation_def Let_def
      split: prod.splits)

section \<open>Properties\<close>

text \<open>
  C8: the path controller is a proportional-integral-derivative law on the signed
  lateral error. On the straight path along X, with the vehicle parallel to it at
  lateral offset \<open>y\<close> and a positive look-ahead distance, the error is \<open>-y\<close> and
  \<open>Advance\<close> returns \<open>Kp (-y) + Ki (erri + (-y + err) h / 2) + Kd (-y - err) / h\<close>.
\<close>

theorem pid_straight_path_law:
  assumes "0 < m_dist s"
  shows "fst (pid_Advance x_axis_tracker (heading_x_vehicle x y u) step s) =
           m_Kp s * (- y) + m_Ki s * (m_erri s + (- y + m_err s) * step / 2)
           + m_Kd s * ((- y - m_err s) / step)"
  using lateral_error_heading_x [OF assms, of x y u]
  by (simp add: pid_Advance_eq sentinel_heading_x x_axis_closest)

theorem pid_straight_path_law_witness:
  "0 < m_dist (base_SetGains 1 0 0 (ChPathSteeringController ())\<lparr>m_dist := 5\<rparr>)
   \<and> fst (pid_Advance x_axis_tracker (heading_x_vehicle 0 (- (3 / 10)) 2) (1 / 100)
         (base_SetGains 1 0 0 (ChPathSteeringController ())\<lparr>m_dist := 5\<rparr>)) = 3 / 10"
  using pid_straight_path_law [of "base_SetGains 1 0 0 (ChPathSteeringController ())\<lparr>m_dist := 5\<rparr>"
      0 "- (3 / 10)" 2 "1 / 100"]
  by (simp add: base_SetGains_def ChPathSteeringController_def ChSteeringController_def
      steer_base.defs path_ctl.defs)

text \<open>
  After \<open>Reset\<close>, a vehicle on the straight path and heading along it gets the
  steering value 0 from \<open>Advance\<close>, whatever the gains and the look-ahead distance.
\<close>

theorem pid_reset_on_path_zero:
  "fst (pid_Advance x_axis_tracker (heading_x_vehicle x 0 u) step
          (pid_Reset x_axis_tracker (heading_x_vehicle x 0 u) s)) = 0"
  using lateral_error_on_axis [of x u "m_dist s"]
  by (simp add: pid_Advance_eq pid_Reset_fields sentinel_heading_x x_axis_closest)

end
