(* ===== verification/Ch_Filters.thy ===== *)
theory Ch_Filters
  imports Steering_Prelude
begin

text \<open>
  The first-order filters of Chrono's \<open>utils/ChFilters\<close> that the XT and Stanley
  controllers use: \<open>ChFilterPT1\<close> (lag \<open>K / (1 + T1 s)\<close>) and \<open>ChFilterPDT1\<close>
  (lead-lag \<open>K (1 + T1 s) / (1 + T2 s)\<close>). The file is not under src/; the
  spec describes them as one-pole IIR filters configured by a step and a time
  constant, and they are modelled as the bilinear (Tustin) discretisation with
  one sample of memory of input and output. \<open>Config\<close> resets the memory.
\<close>

section \<open>ChFilterPT1\<close>

record ChFilterPT1 =
  pt1_step :: real
  pt1_T1 :: real
  pt1_K :: real
  pt1_u_old :: real
  pt1_y_old :: real

definition pt1_Config :: "real \<Rightarrow> real \<Rightarrow> real \<Rightarrow> ChFilterPT1 \<Rightarrow> ChFilterPT1" where
  "pt1_Config step T1 K f =
     f\<lparr>pt1_step := step, pt1_T1 := \<bar>T1\<bar>, pt1_K := K, pt1_u_old := 0, pt1_y_old := 0\<rparr>"

text \<open>\<open>new ChFilterPT1(step, T1)\<close>: the constructor configures, with gain 1.\<close>

definition pt1_new :: "real \<Rightarrow> real \<Rightarrow> ChFilterPT1" where
  "pt1_new step T1 =
     \<lparr>pt1_step = step, pt1_T1 = \<bar>T1\<bar>, pt1_K = 1, pt1_u_old = 0, pt1_y_old = 0\<rparr>"

text \<open>A default-constructed filter, before its first \<open>Config\<close>: unit gain, no memory.\<close>

definition pt1_default :: ChFilterPT1 where
  "pt1_default = \<lparr>pt1_step = 0, pt1_T1 = 0, pt1_K = 1, pt1_u_old = 0, pt1_y_old = 0\<rparr>"

definition pt1_Filter :: "ChFilterPT1 \<Rightarrow> real \<Rightarrow> real \<times> ChFilterPT1" where
  "pt1_Filter f u =
     (let h = pt1_step f; T = pt1_T1 f;
          y = (pt1_K f * h * (u + pt1_u_old f) - (h - 2 * T) * pt1_y_old f) / (h + 2 * T)
      in (y, f\<lparr>pt1_u_old := u, pt1_y_old := y\<rparr>))"

section \<open>ChFilterPDT1\<close>

record ChFilterPDT1 =
  pdt1_step :: real
  pdt1_T1 :: real
  pdt1_T2 :: real
  pdt1_K :: real
  pdt1_u_old :: real
  pdt1_y_old :: real

definition pdt1_Config :: "real \<Rightarrow> real \<Rightarrow> real \<Rightarrow> real \<Rightarrow> ChFilterPDT1 \<Rightarrow> ChFilterPDT1" where
  "pdt1_Config step T1 T2 K f =
     f\<lparr>pdt1_step := step, pdt1_T1 := \<bar>T1\<bar>, pdt1_T2 := \<bar>T2\<bar>, pdt1_K := K,
       pdt1_u_old := 0, pdt1_y_old := 0\<rparr>"

definition pdt1_default :: ChFilterPDT1 where
  "pdt1_default =
     \<lparr>pdt1_step = 0, pdt1_T1 = 0, pdt1_T2 = 0, pdt1_K = 1, pdt1_u_old = 0, pdt1_y_old = 0\<rparr>"

definition pdt1_Filter :: "ChFilterPDT1 \<Rightarrow> real \<Rightarrow> real \<times> ChFilterPDT1" where
  "pdt1_Filter f u =
     (let h = pdt1_step f; T1 = pdt1_T1 f; T2 = pdt1_T2 f;
          y = (pdt1_K f * ((h + 2 * T1) * u + (h - 2 * T1) * pdt1_u_old f)
               - (h - 2 * T2) * pdt1_y_old f) / (h + 2 * T2)
      in (y, f\<lparr>pdt1_u_old := u, pdt1_y_old := y\<rparr>))"

section \<open>Properties\<close>

text \<open>
  A PT1 filter is well configured when its step is positive and at most twice its
  time constant and its gain lies in \<open>[0, 1]\<close>; it is bounded when, in addition,
  its remembered input and output lie in \<open>[-1, 1]\<close>.
\<close>

definition pt1_bounded :: "ChFilterPT1 \<Rightarrow> bool" where
  "pt1_bounded f \<longleftrightarrow>
     0 < pt1_step f \<and> pt1_step f \<le> 2 * pt1_T1 f \<and> 0 \<le> pt1_K f \<and> pt1_K f \<le> 1
     \<and> \<bar>pt1_u_old f\<bar> \<le> 1 \<and> \<bar>pt1_y_old f\<bar> \<le> 1"

lemma pt1_new_bounded:
  "0 < step \<Longrightarrow> step \<le> 2 * \<bar>T1\<bar> \<Longrightarrow> pt1_bounded (pt1_new step T1)"
  by (simp add: pt1_bounded_def pt1_new_def)

lemma pt1_Filter_output:
  "fst (pt1_Filter f u) =
     (pt1_K f * pt1_step f * (u + pt1_u_old f) - (pt1_step f - 2 * pt1_T1 f) * pt1_y_old f)
     / (pt1_step f + 2 * pt1_T1 f)"
  by (simp add: pt1_Filter_def Let_def)

lemma pt1_Filter_state:
  "snd (pt1_Filter f u) = f\<lparr>pt1_u_old := u, pt1_y_old := fst (pt1_Filter f u)\<rparr>"
  by (simp add: pt1_Filter_def Let_def)

text \<open>A bounded filter fed an input in \<open>[-1, 1]\<close> answers in \<open>[-1, 1]\<close>.\<close>

lemma pt1_Filter_bounded [range_rules]:
  assumes f: "pt1_bounded f" and u: "\<bar>u\<bar> \<le> 1"
  shows "\<bar>fst (pt1_Filter f u)\<bar> \<le> 1"
proof -
  let ?h = "pt1_step f" and ?T = "pt1_T1 f" and ?K = "pt1_K f"
  from f have h: "0 < ?h" and hT: "?h \<le> 2 * ?T" and K: "0 \<le> ?K" "?K \<le> 1"
    by (simp_all add: pt1_bounded_def)
  define d where "d = ?h + 2 * ?T"
  have d: "0 < d" using h hT by (simp add: d_def)
  define b where "b = ?K * ?h / d"
  define a where "a = (?h - 2 * ?T) / d"
  have b0: "0 \<le> b" using K h d by (simp add: b_def)
  have "\<bar>a\<bar> = (2 * ?T - ?h) / d"
    using hT d by (simp add: a_def abs_div_pos)
  then have "2 * b + \<bar>a\<bar> = (2 * ?K * ?h + 2 * ?T - ?h) / d"
    by (simp add: b_def add_divide_distrib diff_divide_distrib)
  also have "\<dots> \<le> 1"
    using d h K by (simp add: d_def divide_le_eq_1 mult_left_le_one_le)
  finally have ab: "2 * b + \<bar>a\<bar> \<le> 1" .
  have "fst (pt1_Filter f u) = (?K * ?h * (u + pt1_u_old f) - (?h - 2 * ?T) * pt1_y_old f) / d"
    by (simp add: pt1_Filter_output d_def)
  also have "\<dots> = b * (u + pt1_u_old f) - a * pt1_y_old f"
    by (simp add: b_def a_def diff_divide_distrib [symmetric])
  finally have "fst (pt1_Filter f u) = b * (u + pt1_u_old f) - a * pt1_y_old f" .
  moreover have "\<bar>b * (u + pt1_u_old f) - a * pt1_y_old f\<bar> \<le> 1"
    using b0 ab u f by (intro two_tap_bounded) (simp_all add: pt1_bounded_def)
  ultimately show ?thesis by simp
qed

lemma pt1_Filter_keeps_bounded:
  assumes "pt1_bounded f" and "\<bar>u\<bar> \<le> 1"
  shows "pt1_bounded (snd (pt1_Filter f u))"
  using assms pt1_Filter_bounded [OF assms]
  by (simp add: pt1_Filter_state pt1_bounded_def)

text \<open>
  Steady state: a constant input \<open>u\<close> that the filter already answers with
  \<open>K * u\<close> keeps being answered so (the DC gain of both filters is \<open>K\<close>).
\<close>

lemma pt1_Filter_steady:
  assumes "0 < pt1_step f + 2 * pt1_T1 f"
    and "pt1_u_old f = u" and "pt1_y_old f = pt1_K f * u"
  shows "fst (pt1_Filter f u) = pt1_K f * u"
  using assms by (simp add: pt1_Filter_output field_simps)

lemma pdt1_Filter_steady:
  assumes "0 < pdt1_step f + 2 * pdt1_T2 f"
    and "pdt1_u_old f = u" and "pdt1_y_old f = pdt1_K f * u"
  shows "fst (pdt1_Filter f u) = pdt1_K f * u"
  using assms by (simp add: pdt1_Filter_def Let_def field_simps)

end
