(* ===== verification/Path_XT.thy ===== *)
theory Path_XT
  imports Steering_Base Ch_Filters
begin

text \<open>
  \<open>ChPathSteeringControllerXT\<close> (part_000, lines 186-432). Three input channels,
  each through its own filter, are weighted and summed: the lateral deviation
  (a PDT1 lead-lag filter), the heading error between the direction of motion and
  the path tangent (a PT1 lag), and an Ackermann-angle feedback of the previous
  output (a PT1 lag). The sum is clamped by a counter-steer rule that depends on
  the bend of the path: \<open>[0, 1]\<close> in a left bend, \<open>[-1, 0]\<close> in a right bend,
  \<open>[-1, 1]\<close> on a straight. The filters are configured on the first \<open>Advance\<close>,
  the first time the step size is known (\<open>m_filters_initialized\<close>).

  The class has its own \<open>m_Kp\<close> (the PDT1 gain), shadowing the base's; it is
  \<open>xt_Kp\<close> here, and the other derived-class fields carry the \<open>xt_\<close> prefix.
\<close>

record 't xt_ctl = steer_base +
  xt_tracker :: 't
  xt_R_threshold :: real
  xt_max_wheel_turn_angle :: real
  xt_filters_initialized :: bool
  xt_T1_delay :: real
  xt_Kp :: real
  xt_Wy :: real
  xt_Wh :: real
  xt_Wa :: real
  xt_res :: real
  xt_pcurvature :: real
  xt_ptangent :: vec3
  xt_pnormal :: vec3
  xt_pbinormal :: vec3
  xt_vel :: vec3
  xt_HeadErrDelay :: ChFilterPT1
  xt_AckermannAngleDelay :: ChFilterPT1
  xt_PathErrCtl :: ChFilterPDT1

text \<open>
  The constructor (lines 197-215). The path-frame fields are not initialised by the
  constructor; every \<open>Advance\<close> writes them (\<open>CalcTargetLocation\<close>) before it
  reads them, so their initial value is immaterial and taken as zero.
\<close>

definition ChPathSteeringControllerXT :: "'t \<Rightarrow> real \<Rightarrow> 't xt_ctl" where
  "ChPathSteeringControllerXT t0 max_wheel_turn_angle =
     steer_base.extend ChSteeringController
       (xt_ctl.fields t0 100000 (if max_wheel_turn_angle > 0 then max_wheel_turn_angle
                                 else 25 * CH_C_DEG_TO_RAD)
          False (30 / 1000) (4 / 10) 1 1 1 0 0 0 0 0 0 pt1_default pt1_default pdt1_default)"

record xt_json =
  xj_Kp :: real
  xj_Wy :: real
  xj_Wh :: real
  xj_Wa :: real
  xj_dist :: real

definition ChPathSteeringControllerXT_json :: "xt_json option \<Rightarrow> 't \<Rightarrow> real \<Rightarrow> 't xt_ctl" where
  "ChPathSteeringControllerXT_json doc t0 max_wheel_turn_angle =
     (let s = ChPathSteeringControllerXT t0 max_wheel_turn_angle
      in case doc of
           None \<Rightarrow> s
         | Some d \<Rightarrow> s\<lparr>xt_Kp := xj_Kp d, xt_Wy := xj_Wy d, xt_Wh := xj_Wh d, xt_Wa := xj_Wa d,
                       m_dist := xj_dist d\<rparr>)"

definition xt_CalcTargetLocation :: "'t curve_tracker \<Rightarrow> 't xt_ctl \<Rightarrow> 't xt_ctl" where
  "xt_CalcTargetLocation ops s =
     (let (tnb, curv, t') = trk_closest_frame ops (xt_tracker s) (m_sentinel s)
      in s\<lparr>xt_pcurvature := curv, m_target := fpos tnb, xt_ptangent := fxaxis tnb,
           xt_pnormal := fyaxis tnb, xt_pbinormal := fzaxis tnb, xt_tracker := t'\<rparr>)"

definition xt_Reset :: "'t curve_tracker \<Rightarrow> vehicle \<Rightarrow> 't xt_ctl \<Rightarrow> 't xt_ctl" where
  "xt_Reset ops veh s =
     (let s' = base_Reset veh s in s'\<lparr>xt_tracker := trk_reset ops (xt_tracker s') (m_sentinel s')\<rparr>)"

text \<open>
  \<open>CalcHeadingError(a, b)\<close> (lines 274-310): besides the angle it returns the new
  value of \<open>m_vel\<close>, which it projects and normalises in place.
\<close>

definition xt_CalcHeadingError :: "vec3 \<Rightarrow> vec3 \<Rightarrow> vec3 \<Rightarrow> real \<times> vec3" where
  "xt_CalcHeadingError vel a b =
     (let vel' = vnormalize (wf_project vel);
          speed = vlength vel';
          (a', b') = (if speed < 1 then (vnormalize (wf_project a), vnormalize (wf_project b))
                      else (vel', vnormalize (wf_project b)));
          ltest = vlength (a' - b');
          vpc = (if ltest < 1 then Vcross a' b' else Vcross a' (- b'))
      in (arcsin (wf_height vpc), vel'))"

definition xt_CalcCurvatureCode :: "real \<Rightarrow> real \<Rightarrow> vec3 \<Rightarrow> vec3 \<Rightarrow> int" where
  "xt_CalcCurvatureCode pcurvature R_threshold a b =
     (let a' = vnormalize (wf_project a);
          b' = vnormalize (wf_project b);
          ltest = vlength (a' - b')
      in if pcurvature \<le> 1 / R_threshold then 0
         else if ltest < 1 then 1
         else -1)"

definition xt_CalcAckermannAngle :: "'t xt_ctl \<Rightarrow> real" where
  "xt_CalcAckermannAngle s = sin (xt_res s * xt_max_wheel_turn_angle s)"

text \<open>The counter-steer constraint (lines 419-430).\<close>

definition xt_counter_steer :: "int \<Rightarrow> real \<Rightarrow> real" where
  "xt_counter_steer crvcode res =
     (if crvcode = 1 then ChClamp res 0 1
      else if crvcode = -1 then ChClamp res (-1) 0
      else ChClamp res (-1) 1)"

definition xt_init_filters :: "real \<Rightarrow> 't xt_ctl \<Rightarrow> 't xt_ctl" where
  "xt_init_filters step s =
     (if \<not> xt_filters_initialized s
      then s\<lparr>xt_HeadErrDelay := pt1_Config step (xt_T1_delay s) 1 (xt_HeadErrDelay s),
             xt_AckermannAngleDelay := pt1_Config step (xt_T1_delay s) 1 (xt_AckermannAngleDelay s),
             xt_PathErrCtl := pdt1_Config step (3 / 10) (15 / 100) (xt_Kp s) (xt_PathErrCtl s),
             xt_filters_initialized := True\<rparr>
      else s)"

definition xt_Advance :: "'t curve_tracker \<Rightarrow> (vehicle, 't xt_ctl) advance_fn" where
  "xt_Advance ops veh step s =
     (let fr = veh_frame veh;
          s1 = s\<lparr>m_sentinel := sentinel_at (m_dist s) veh, xt_vel := veh_vel veh\<rparr>;
          s2 = xt_init_filters step s1;
          s3 = log_sample (veh_time veh) (xt_CalcTargetLocation ops s2);
          y_err = lateral_error veh (m_sentinel s3) (m_target s3);
          (y_err_out, pe) = pdt1_Filter (xt_PathErrCtl s3) y_err;
          (h_err, vel') = xt_CalcHeadingError (xt_vel s3) (fxaxis fr) (xt_ptangent s3);
          (h_err_out, hd) = pt1_Filter (xt_HeadErrDelay s3) h_err;
          a_err = xt_CalcAckermannAngle s3;
          (a_err_out, ad) = pt1_Filter (xt_AckermannAngleDelay s3) a_err;
          res = xt_Wy s3 * y_err_out + xt_Wh s3 * h_err_out + xt_Wa s3 * a_err_out;
          crvcode = xt_CalcCurvatureCode (xt_pcurvature s3) (xt_R_threshold s3) (fyaxis fr) (xt_pnormal s3);
          r = xt_counter_steer crvcode res
      in (r, s3\<lparr>xt_PathErrCtl := pe, xt_vel := vel', xt_HeadErrDelay := hd,
                xt_AckermannAngleDelay := ad, xt_res := r\<rparr>))"

text \<open>
  A tracker that answers every query with a left bend of radius 1 through the
  query point, tangent along X and normal along Y: a concrete left-bending path
  for the counter-steer properties.
\<close>

definition left_bend_tracker :: "unit curve_tracker" where
  "left_bend_tracker =
     \<lparr>trk_reset = (\<lambda>t p. ()),
      trk_closest = (\<lambda>t p. (p, ())),
      trk_closest_frame = (\<lambda>t p. (\<lparr>fpos = p, fxaxis = ChVector 1 0 0,
                                     fyaxis = ChVector 0 1 0, fzaxis = ChVector 0 0 1\<rparr>, 1, ()))\<rparr>"

section \<open>Lemmas\<close>

text \<open>
  \<open>m_vel\<close> is normalised before its length is tested, so \<open>speed\<close> is always 1 and
  the standstill branch of \<open>CalcHeadingError\<close> is dead: the angle is always
  measured from the normalised horizontal velocity.
\<close>

lemma xt_CalcHeadingError_eq:
  "xt_CalcHeadingError vel a b =
     (let a' = vnormalize (wf_project vel); b' = vnormalize (wf_project b)
      in (arcsin (wf_height (if vlength (a' - b') < 1 then Vcross a' b' else Vcross a' (- b'))), a'))"
  by (simp add: xt_CalcHeadingError_def Let_def)

lemma xt_CalcHeadingError_bounded [range_rules]:
  "\<bar>fst (xt_CalcHeadingError vel a b)\<bar> \<le> pi / 2"
proof -
  let ?a = "vnormalize (wf_project vel)" and ?b = "vnormalize (wf_project b)"
  have "\<bar>arcsin (wf_height (Vcross ?a ?b))\<bar> \<le> pi / 2"
    and "\<bar>arcsin (wf_height (Vcross ?a (- ?b)))\<bar> \<le> pi / 2"
    by (rule arcsin_unit_cross_bounded; simp)+
  then show ?thesis
    by (simp add: xt_CalcHeadingError_eq Let_def)
qed

lemma xt_CalcCurvatureCode_cases: "xt_CalcCurvatureCode c R a b \<in> {-1, 0, 1}"
  by (simp add: xt_CalcCurvatureCode_def Let_def)

lemma xt_counter_steer_bounded [range_rules]: "\<bar>xt_counter_steer c r\<bar> \<le> 1"
  by (simp add: xt_counter_steer_def ChClamp_def)

lemma xt_counter_steer_left: "0 \<le> xt_counter_steer 1 r"
  by (simp add: xt_counter_steer_def ChClamp_def)

lemma xt_counter_steer_right: "xt_counter_steer (-1) r \<le> 0"
  by (simp add: xt_counter_steer_def ChClamp_def)

lemma xt_init_filters_fields [simp]:
  "m_dist (xt_init_filters h s) = m_dist s" "m_sentinel (xt_init_filters h s) = m_sentinel s"
  "xt_tracker (xt_init_filters h s) = xt_tracker s"
  "xt_R_threshold (xt_init_filters h s) = xt_R_threshold s"
  "xt_filters_initialized (xt_init_filters h s)"
  by (simp_all add: xt_init_filters_def)

lemma xt_init_filters_noop: "xt_filters_initialized s \<Longrightarrow> xt_init_filters h s = s"
  by (simp add: xt_init_filters_def)

lemma xt_CalcTargetLocation_fields [simp]:
  "xt_R_threshold (xt_CalcTargetLocation ops s) = xt_R_threshold s"
  "xt_filters_initialized (xt_CalcTargetLocation ops s) = xt_filters_initialized s"
  "xt_HeadErrDelay (xt_CalcTargetLocation ops s) = xt_HeadErrDelay s"
  "xt_AckermannAngleDelay (xt_CalcTargetLocation ops s) = xt_AckermannAngleDelay s"
  "xt_PathErrCtl (xt_CalcTargetLocation ops s) = xt_PathErrCtl s"
  "xt_pcurvature (xt_CalcTargetLocation ops s) = fst (snd (trk_closest_frame ops (xt_tracker s) (m_sentinel s)))"
  "xt_pnormal (xt_CalcTargetLocation ops s) = fyaxis (fst (trk_closest_frame ops (xt_tracker s) (m_sentinel s)))"
  by (simp_all add: xt_CalcTargetLocation_def split: prod.splits)

lemma xt_log_sample_fields [simp]:
  "xt_R_threshold (log_sample t s) = xt_R_threshold s"
  "xt_filters_initialized (log_sample t s) = xt_filters_initialized s"
  "xt_HeadErrDelay (log_sample t s) = xt_HeadErrDelay s"
  "xt_AckermannAngleDelay (log_sample t s) = xt_AckermannAngleDelay s"
  "xt_PathErrCtl (log_sample t s) = xt_PathErrCtl s"
  "xt_pcurvature (log_sample t s) = xt_pcurvature s"
  "xt_pnormal (log_sample t s) = xt_pnormal s"
  by (simp_all add: log_sample_def)

text \<open>
  The steering value of \<open>Advance\<close> is the counter-steer clamp, for the curvature
  code of the target the tracker returns, of some blended signal.
\<close>

lemma xt_Advance_output:
  fixes ops :: "'t curve_tracker" and s :: "'t xt_ctl" and veh :: vehicle
  defines "T \<equiv> trk_closest_frame ops (xt_tracker s) (sentinel_at (m_dist s) veh)"
  shows "\<exists>res. fst (xt_Advance ops veh step s) =
           xt_counter_steer (xt_CalcCurvatureCode (fst (snd T)) (xt_R_threshold s)
                               (fyaxis (veh_frame veh)) (fyaxis (fst T))) res"
  by (auto simp: xt_Advance_def Let_def T_def case_prod_beta)

lemma xt_Advance_res: "xt_res (snd (xt_Advance ops veh step s)) = fst (xt_Advance ops veh step s)"
  by (simp add: xt_Advance_def Let_def split: prod.splits)

text \<open>The filter configuration after a step, from the one before it.\<close>

lemma xt_Advance_filters:
  "pt1_step (xt_HeadErrDelay (snd (xt_Advance ops veh h s))) = pt1_step (xt_HeadErrDelay (xt_init_filters h s))"
  "pt1_T1 (xt_HeadErrDelay (snd (xt_Advance ops veh h s))) = pt1_T1 (xt_HeadErrDelay (xt_init_filters h s))"
  "pt1_step (xt_AckermannAngleDelay (snd (xt_Advance ops veh h s))) = pt1_step (xt_AckermannAngleDelay (xt_init_filters h s))"
  "pdt1_step (xt_PathErrCtl (snd (xt_Advance ops veh h s))) = pdt1_step (xt_PathErrCtl (xt_init_filters h s))"
  "pdt1_K (xt_PathErrCtl (snd (xt_Advance ops veh h s))) = pdt1_K (xt_PathErrCtl (xt_init_filters h s))"
  by (simp_all add: xt_Advance_def Let_def pt1_Filter_def pdt1_Filter_def xt_init_filters_def
      split: prod.splits)

lemma xt_Advance_initialized: "xt_filters_initialized (snd (xt_Advance ops veh h s))"
  by (simp add: xt_Advance_def Let_def split: prod.splits)

section \<open>Properties\<close>

text \<open>
  C1: the XT controller's steering value always lies in \<open>[-1, 1]\<close>, whatever the
  vehicle state, the step, the path and the controller state.
\<close>

theorem xt_Advance_bounded: "\<bar>fst (xt_Advance ops veh step s)\<bar> \<le> 1"
  using xt_Advance_output [where ops = ops and s = s and veh = veh and step = step]
    xt_counter_steer_bounded by metis

text \<open>
  C10: counter-steer constraint. When the tracker reports a bend sharper than the
  threshold radius and the vehicle's left axis is within 60 degrees of the path
  normal (a left bend), \<open>Advance\<close> never steers right.
\<close>

theorem xt_left_bend_no_right_steer:
  assumes T: "trk_closest_frame ops (xt_tracker s) (sentinel_at (m_dist s) veh) = (tnb, curv, t')"
    and bend: "1 / xt_R_threshold s < curv"
    and left: "vlength (vnormalize (wf_project (fyaxis (veh_frame veh))) - vnormalize (wf_project (fyaxis tnb))) < 1"
  shows "0 \<le> fst (xt_Advance ops veh step s)"
proof -
  obtain res where out: "fst (xt_Advance ops veh step s) =
      xt_counter_steer (xt_CalcCurvatureCode curv (xt_R_threshold s) (fyaxis (veh_frame veh)) (fyaxis tnb)) res"
    using xt_Advance_output [where ops = ops and s = s and veh = veh and step = step] T by auto
  have "xt_CalcCurvatureCode curv (xt_R_threshold s) (fyaxis (veh_frame veh)) (fyaxis tnb) = 1"
    using bend left by (simp add: xt_CalcCurvatureCode_def Let_def)
  then show ?thesis
    using out xt_counter_steer_left by simp
qed

theorem xt_left_bend_no_right_steer_witness:
  "0 \<le> fst (xt_Advance left_bend_tracker (heading_x_vehicle 0 0 1) (1 / 100)
              (ChPathSteeringControllerXT () 0))"
proof -
  let ?s = "ChPathSteeringControllerXT () 0 :: unit xt_ctl"
  let ?veh = "heading_x_vehicle 0 0 1"
  let ?tnb = "\<lparr>fpos = sentinel_at (m_dist ?s) ?veh, fxaxis = ChVector 1 0 0,
               fyaxis = ChVector 0 1 0, fzaxis = ChVector 0 0 1\<rparr>"
  have T: "trk_closest_frame left_bend_tracker (xt_tracker ?s) (sentinel_at (m_dist ?s) ?veh) = (?tnb, 1, ())"
    by (simp add: left_bend_tracker_def)
  have bend: "1 / xt_R_threshold ?s < 1"
    by (simp add: ChPathSteeringControllerXT_def ChSteeringController_def base_SetGains_def
        steer_base.defs xt_ctl.defs)
  have left: "vlength (vnormalize (wf_project (fyaxis (veh_frame ?veh))) - vnormalize (wf_project (fyaxis ?tnb))) < 1"
    by (simp add: heading_x_vehicle_def vlength_def)
  show ?thesis
    using xt_left_bend_no_right_steer [OF T bend left] .
qed

text \<open>
  C18: the distance test of \<open>CalcCurvatureCode\<close> on the normalised horizontal
  vectors is an angle test: past the curvature threshold the code is \<open>+1\<close> (left
  bend) exactly when the vehicle's left axis and the direction to the curve centre
  are less than 60 degrees apart, and \<open>-1\<close> otherwise.
\<close>

theorem xt_curvature_code_cone:
  assumes "1 / R < c"
  shows "xt_CalcCurvatureCode c R a b =
           (if 1 / 2 < Vdot (vnormalize (wf_project a)) (vnormalize (wf_project b)) then 1 else -1)"
  using assms by (simp add: xt_CalcCurvatureCode_def Let_def unit_dist_lt_one_iff)

theorem xt_curvature_code_cone_witness:
  "1 / (100000 :: real) < 1 \<and>
   xt_CalcCurvatureCode 1 100000 (ChVector 0 1 0) (ChVector 0 2 0) =
     (if 1 / 2 < Vdot (vnormalize (wf_project (ChVector 0 1 0))) (vnormalize (wf_project (ChVector 0 2 0)))
      then 1 else -1)"
  using xt_curvature_code_cone [of 100000 1 "ChVector 0 1 0" "ChVector 0 2 0"] by simp

text \<open>
  Consequence at standstill: with zero velocity the direction of motion is
  taken as the world X axis. A vehicle at rest, aligned with a path that runs along
  Y, gets the heading error \<open>-pi/2\<close> instead of 0.
\<close>

theorem xt_heading_standstill_aligned:
  "fst (xt_CalcHeadingError 0 (ChVector 0 1 0) (ChVector 0 1 0)) = - (pi / 2)"
  by (simp add: xt_CalcHeadingError_def vnormalize_def vlength_def dbl_min_def wf_project_def
      wf_vertical_def vec_defs Let_def)

text \<open>
  C12: the tangent is flipped when \<open>|a - b| \<ge> 1\<close>, that is from 60 degrees on,
  not from 90 degrees. Moving along X with the path tangent about 67 degrees to
  the left (direction \<open>(5/13, 12/13)\<close>), the heading error comes out as
  \<open>-asin(12/13)\<close>: the sign of a genuine left heading error is reversed.
\<close>

theorem xt_heading_flip_at_60_degrees:
  "fst (xt_CalcHeadingError (ChVector 1 0 0) a (ChVector (5 / 13) (12 / 13) 0)) = - arcsin (12 / 13)"
proof -
  have n1: "vnormalize (ChVector 1 0 0) = ChVector 1 0 0"
    by (simp add: vnormalize_def vlength_def dbl_min_def vec_defs)
  have "vlength (ChVector (5 / 13) (12 / 13) 0) = 1"
    by (simp add: vlength_def power2_eq_square)
  then have n2: "vnormalize (ChVector (5 / 13) (12 / 13) 0) = ChVector (5 / 13) (12 / 13) 0"
    by (simp add: vnormalize_def dbl_min_def vec_defs)
  have far: "\<not> vlength (ChVector 1 0 0 - ChVector (5 / 13) (12 / 13) 0) < 1"
    by (simp add: vlength_def vec_defs power2_eq_square)
  have "arcsin (- (12 / 13)) = - arcsin (12 / 13 :: real)"
    by (rule arcsin_minus) simp_all
  with n1 n2 far show ?thesis
    by (simp add: xt_CalcHeadingError_eq wf_project_def wf_vertical_def vec_defs Let_def)
qed

text \<open>
  C14: the filters are configured once, lazily: the first \<open>Advance\<close> configures
  all three with its step size; every later \<open>Advance\<close> keeps that configuration,
  whatever step it is called with.
\<close>

theorem xt_lazy_filter_config:
  "pt1_step (xt_HeadErrDelay (snd (xt_Advance ops veh h s))) =
     (if xt_filters_initialized s then pt1_step (xt_HeadErrDelay s) else h)
   \<and> pt1_step (xt_AckermannAngleDelay (snd (xt_Advance ops veh h s))) =
     (if xt_filters_initialized s then pt1_step (xt_AckermannAngleDelay s) else h)
   \<and> pdt1_step (xt_PathErrCtl (snd (xt_Advance ops veh h s))) =
     (if xt_filters_initialized s then pdt1_step (xt_PathErrCtl s) else h)
   \<and> xt_filters_initialized (snd (xt_Advance ops veh h s))"
  by (simp add: xt_Advance_filters xt_Advance_initialized xt_init_filters_def
      pt1_Config_def pdt1_Config_def)

end
