(* ===== verification/Path_SR.thy ===== *)
theory Path_SR
  imports Steering_Base
begin

text \<open>
  \<open>ChPathSteeringControllerSR\<close> (part_000, lines 434-616). The path's control
  points are turned once, by \<open>CalcPathPoints\<close>, into segment start points
  \<open>S_l\<close>, segment vectors \<open>R_l\<close> and unit directions \<open>R_lu\<close>; a closed path's
  last segment runs back to the first point. Each \<open>Advance\<close> projects a preview
  point along the arc the current steer angle predicts, moves the segment index
  forward while the preview point lies beyond the current segment, takes the
  signed distance to the segment line as the error and integrates it into the
  steer angle \<open>m_delta\<close>, clamped to \<open>[-delta_max, delta_max]\<close>, above the
  minimum speed \<open>m_umin\<close>. The output is \<open>delta / delta_max\<close>.

  Two behaviours of the source are values of the model. \<open>CalcPathPoints\<close> reads
  out of range on a closed path of no point and an open path of fewer than two
  (\<open>np - 1\<close> and \<open>np - 2\<close> wrap around as \<open>size_t\<close>): the error \<open>DegeneratePath\<close>.
  The index scan on a closed path is a \<open>while\<close> loop that runs until a segment
  holds the preview point; it is modelled with fuel (one unit per segment probed),
  \<open>None\<close> when the fuel runs out, and the lemmas show both that fuel for one lap
  suffices when some segment holds the point and that no fuel suffices otherwise.
  With fuel for one lap the loop refines \<open>sr_scan_spec\<close>: the first segment, in
  ring order from the current index, that holds the point, found by \<open>find\<close>.
\<close>

datatype path_error = DegeneratePath

record sr_ctl = steer_base +
  sr_path :: "vec3 list"
  sr_isClosedPath :: bool
  sr_Klat :: real
  sr_Kug :: real
  sr_Tp :: real
  sr_L :: real
  sr_delta :: real
  sr_delta_max :: real
  sr_umin :: real
  sr_idx_curr :: nat
  S_l :: "vec3 list"
  R_l :: "vec3 list"
  R_lu :: "vec3 list"

section \<open>Path preprocessing\<close>

text \<open>
  The segment vectors of \<open>CalcPathPoints\<close> (lines 488-527): \<open>R_l[i] = S_l[i+1] - S_l[i]\<close>
  for \<open>i < np - 1\<close>, then the last one, which closes the loop or repeats the last
  direction.
\<close>

definition seg_vectors :: "vec3 list \<Rightarrow> vec3 list" where
  "seg_vectors S = map (\<lambda>i. S ! Suc i - S ! i) [0..<length S - 1]"

definition CalcPathPoints ::
  "bool \<Rightarrow> vec3 list \<Rightarrow> path_error + vec3 list \<times> vec3 list \<times> vec3 list" where
  "CalcPathPoints isClosed P =
     (let np = length P
      in if isClosed then
           (if np = 0 then Inl DegeneratePath
            else let R = seg_vectors P @ [P ! 0 - P ! (np - 1)] in Inr (P, R, map vnormalize R))
         else
           (if np < 2 then Inl DegeneratePath
            else let R = seg_vectors P @ [P ! (np - 1) - P ! (np - 2)] in Inr (P, R, map vnormalize R)))"

text \<open>
  The constructors (lines 437-486). The JSON constructor leaves \<open>m_Klat\<close>,
  \<open>m_Kug\<close> and \<open>m_Tp\<close> uninitialised when the document is null: they keep the
  indeterminate values \<open>junk\<close>. Its minimum speed is 1, the other's 2.
\<close>

definition sr_make ::
  "vec3 list \<Rightarrow> bool \<Rightarrow> real \<Rightarrow> real \<Rightarrow> real \<Rightarrow> real \<Rightarrow> real \<Rightarrow> real
   \<Rightarrow> path_error + sr_ctl" where
  "sr_make P isClosed Klat Kug Tp axle_space max_wheel_turn_angle umin =
     (case CalcPathPoints isClosed P of
        Inl e \<Rightarrow> Inl e
      | Inr (S, R, Ru) \<Rightarrow>
          Inr (steer_base.extend ChSteeringController
                 (sr_ctl.fields P isClosed Klat Kug Tp axle_space 0 max_wheel_turn_angle umin 0 S R Ru)))"

definition ChPathSteeringControllerSR ::
  "vec3 list \<Rightarrow> bool \<Rightarrow> real \<Rightarrow> real \<Rightarrow> path_error + sr_ctl" where
  "ChPathSteeringControllerSR P isClosed max_wheel_turn_angle axle_space =
     sr_make P isClosed 0 0 (1 / 2) axle_space max_wheel_turn_angle 2"

record sr_json =
  sj_Klat :: real
  sj_Kug :: real
  sj_Tp :: real

definition ChPathSteeringControllerSR_json ::
  "sr_json option \<Rightarrow> real \<times> real \<times> real \<Rightarrow> vec3 list \<Rightarrow> bool \<Rightarrow> real \<Rightarrow> real
   \<Rightarrow> path_error + sr_ctl" where
  "ChPathSteeringControllerSR_json doc junk P isClosed max_wheel_turn_angle axle_space =
     (case doc of
        None \<Rightarrow> (let (jl, ju, jt) = junk in sr_make P isClosed jl ju jt axle_space max_wheel_turn_angle 1)
      | Some d \<Rightarrow> sr_make P isClosed (sj_Klat d) (sj_Kug d) (sj_Tp d) axle_space max_wheel_turn_angle 1)"

definition sr_Reset :: "vehicle \<Rightarrow> sr_ctl \<Rightarrow> sr_ctl" where
  "sr_Reset veh s = (base_Reset veh s)\<lparr>sr_Klat := 0, sr_Kug := 0\<rparr>"

definition sr_SetGains :: "real \<Rightarrow> real \<Rightarrow> sr_ctl \<Rightarrow> sr_ctl" where
  "sr_SetGains Klat Kug s = s\<lparr>sr_Klat := \<bar>Klat\<bar>, sr_Kug := ChClamp Kug 0 5\<rparr>"

definition sr_SetPreviewTime :: "real \<Rightarrow> sr_ctl \<Rightarrow> sr_ctl" where
  "sr_SetPreviewTime Tp s = s\<lparr>sr_Tp := ChClamp Tp (2 / 10) 4\<rparr>"

section \<open>Advance\<close>

text \<open>
  The preview point (lines 555-571): straight ahead by \<open>ut * Tp\<close>, \<open>ut\<close> the speed
  raised to \<open>m_umin\<close>, and, with a nonzero steer angle, shifted onto the arc of
  radius \<open>R = (L + Kug u^2 / g) / delta\<close> (\<open>Kug\<close> in degrees per g).
\<close>

definition sr_sentinel :: "vehicle \<Rightarrow> sr_ctl \<Rightarrow> vec3" where
  "sr_sentinel veh s =
     (let g = 981 / 100; fr = veh_frame veh; u = veh_speed veh;
          n_g = vnormalize (wf_project (fyaxis fr));
          ut = (if u > sr_umin s then u else sr_umin s);
          factor = ut * sr_Tp s;
          ahead = TransformPointLocalToParent fr (vscale factor wf_forward)
      in if sr_delta s = 0 then ahead
         else let R = (sr_L s + CH_C_DEG_TO_RAD * sr_Kug s * u * u / g) / sr_delta s;
                  theta = u * sr_Tp s / R
              in ahead + vscale R (n_g - rot_axis_angle theta wf_vertical n_g))"

text \<open>Probing segment \<open>i\<close>: \<open>Pt\<close>, the segment length \<open>rt\<close>, the projection \<open>t\<close>.\<close>

definition seg_probe :: "vec3 list \<Rightarrow> vec3 list \<Rightarrow> vec3 list \<Rightarrow> vec3 \<Rightarrow> nat \<Rightarrow> vec3 \<times> real \<times> real" where
  "seg_probe S R Ru sent i = (let Pt = sent - S ! i in (Pt, vlength (R ! i), \<bar>Vdot Pt (Ru ! i)\<bar>))"

definition next_seg :: "nat \<Rightarrow> nat \<Rightarrow> nat" where
  "next_seg n i = (if Suc i = n then 0 else Suc i)"

text \<open>The closed-path scan (lines 577-585), one unit of fuel per probe.\<close>

fun sr_scan_closed ::
  "nat \<Rightarrow> vec3 list \<Rightarrow> vec3 list \<Rightarrow> vec3 list \<Rightarrow> vec3 \<Rightarrow> nat \<Rightarrow> (nat \<times> vec3 \<times> real) option" where
  "sr_scan_closed 0 S R Ru sent i = None"
| "sr_scan_closed (Suc f) S R Ru sent i =
     (let (Pt, rt, t) = seg_probe S R Ru sent i
      in if rt < t then sr_scan_closed f S R Ru sent (next_seg (length S) i)
         else Some (i, Pt, t))"

text \<open>
  What the closed-path scan is meant to compute: segment \<open>j\<close> holds the preview
  point when the projection does not exceed the segment length; the scan's
  answer is the first holding segment in ring order from the current index,
  with its probe. \<open>None\<close> is the case where no segment holds: the \<open>while\<close>
  loop of the code does not return then.
\<close>

definition seg_holds :: "vec3 list \<Rightarrow> vec3 list \<Rightarrow> vec3 list \<Rightarrow> vec3 \<Rightarrow> nat \<Rightarrow> bool" where
  "seg_holds S R Ru sent j \<longleftrightarrow> (let (Pt, rt, t) = seg_probe S R Ru sent j in \<not> rt < t)"

definition ring_order :: "nat \<Rightarrow> nat \<Rightarrow> nat list" where
  "ring_order n i = map (\<lambda>k. (i + k) mod n) [0..<n]"

definition sr_scan_spec ::
  "vec3 list \<Rightarrow> vec3 list \<Rightarrow> vec3 list \<Rightarrow> vec3 \<Rightarrow> nat \<Rightarrow> (nat \<times> vec3 \<times> real) option" where
  "sr_scan_spec S R Ru sent i =
     map_option (\<lambda>j. (j, fst (seg_probe S R Ru sent j), snd (snd (seg_probe S R Ru sent j))))
       (find (seg_holds S R Ru sent) (ring_order (length S) i))"

text \<open>The open-path scan (lines 586-592): at most one step forward, then \<open>break\<close>.\<close>

definition sr_scan_open ::
  "vec3 list \<Rightarrow> vec3 list \<Rightarrow> vec3 list \<Rightarrow> vec3 \<Rightarrow> nat \<Rightarrow> nat \<times> vec3 \<times> real" where
  "sr_scan_open S R Ru sent i =
     (let (Pt, rt, t) = seg_probe S R Ru sent i
      in if rt < t then
           (let j = (if Suc i = length S then length S - 1 else Suc i);
                (Pt', rt', t') = seg_probe S R Ru sent j
            in (j, Pt', t'))
         else (i, Pt, t))"

text \<open>The scan, closed or open path (lines 573-592).\<close>

definition sr_scan :: "nat \<Rightarrow> vec3 \<Rightarrow> sr_ctl \<Rightarrow> (nat \<times> vec3 \<times> real) option" where
  "sr_scan fuel sent s =
     (if sr_isClosedPath s then sr_scan_closed fuel (S_l s) (R_l s) (R_lu s) sent (sr_idx_curr s)
      else Some (sr_scan_open (S_l s) (R_l s) (R_lu s) sent (sr_idx_curr s)))"

text \<open>
  After the scan (lines 594-615): target, data collection, the signed distance to
  the segment line as error, and the steer-angle update above the minimum speed.
\<close>

definition sr_steer :: "vehicle \<Rightarrow> vec3 \<Rightarrow> nat \<times> vec3 \<times> real \<Rightarrow> sr_ctl \<Rightarrow> real \<times> sr_ctl" where
  "sr_steer veh sent hit s =
     (let (idx, Pt, t) = hit;
          s1 = s\<lparr>m_sentinel := sent, sr_idx_curr := idx, m_target := S_l s ! idx + vscale t (R_lu s ! idx)\<rparr>;
          s2 = log_sample (veh_time veh) s1;
          n_lu = Vcross (R_lu s ! idx) wf_vertical;
          s3 = s2\<lparr>m_err := Vdot Pt n_lu\<rparr>;
          s4 = (if sr_umin s3 \<le> veh_speed veh
                then s3\<lparr>sr_delta := ChClamp (sr_delta s3 + sr_Klat s3 * m_err s3)
                                            (- sr_delta_max s3) (sr_delta_max s3)\<rparr>
                else s3)
      in (sr_delta s4 / sr_delta_max s4, s4))"

definition sr_Advance :: "nat \<Rightarrow> vehicle \<Rightarrow> real \<Rightarrow> sr_ctl \<Rightarrow> (real \<times> sr_ctl) option" where
  "sr_Advance fuel veh step s =
     (let sent = sr_sentinel veh s in map_option (\<lambda>hit. sr_steer veh sent hit s) (sr_scan fuel sent s))"

text \<open>
  The invariant of a constructed controller: the three segment lists have one entry
  per path point, the segment index is in range, and the steer angle lies within
  its bound.
\<close>

definition sr_inv :: "sr_ctl \<Rightarrow> bool" where
  "sr_inv s \<longleftrightarrow>
     0 < length (S_l s) \<and> length (R_l s) = length (S_l s) \<and> length (R_lu s) = length (S_l s)
     \<and> sr_idx_curr s < length (S_l s) \<and> 0 \<le> sr_delta_max s \<and> \<bar>sr_delta s\<bar> \<le> sr_delta_max s"

text \<open>A run: \<open>Advance\<close> called on a sequence of (vehicle, step) inputs.\<close>

fun sr_run :: "nat \<Rightarrow> (vehicle \<times> real) list \<Rightarrow> sr_ctl \<Rightarrow> (real list \<times> sr_ctl) option" where
  "sr_run fuel [] s = Some ([], s)"
| "sr_run fuel ((veh, h) # xs) s =
     (case sr_Advance fuel veh h s of
        None \<Rightarrow> None
      | Some (r, s') \<Rightarrow> (case sr_run fuel xs s' of
                          None \<Rightarrow> None
                        | Some (rs, s'') \<Rightarrow> Some (r # rs, s'')))"

text \<open>The unit square, a closed path of four points, for concrete runs.\<close>

definition square_path :: "vec3 list" where
  "square_path = [ChVector 0 0 0, ChVector 1 0 0, ChVector 1 1 0, ChVector 0 1 0]"

definition square_ctl :: sr_ctl where
  "square_ctl = projr (ChPathSteeringControllerSR square_path True (1 / 2) 2)"

section \<open>Lemmas\<close>

subsection \<open>Path preprocessing\<close>

lemma length_seg_vectors [simp]: "length (seg_vectors S) = length S - 1"
  by (simp add: seg_vectors_def)

lemma nth_seg_vectors: "i < length S - 1 \<Longrightarrow> seg_vectors S ! i = S ! Suc i - S ! i"
  by (simp add: seg_vectors_def)

lemma sum_list_telescope:
  "sum_list (map (\<lambda>i. f (Suc i) - f i) [0..<n]) = f n - (f 0 :: 'a :: ab_group_add)"
  by (induction n) simp_all

lemma sum_seg_vectors: "S \<noteq> [] \<Longrightarrow> sum_list (seg_vectors S) = S ! (length S - 1) - S ! 0"
  using sum_list_telescope [of "\<lambda>i. S ! i" "length S - 1"] by (simp add: seg_vectors_def)

lemma CalcPathPoints_Inr:
  assumes "CalcPathPoints c P = Inr (S, R, Ru)"
  shows "S = P" and "length R = length P" and "Ru = map vnormalize R" and "0 < length P"
    and "R = seg_vectors P @ [if c then P ! 0 - P ! (length P - 1) else P ! (length P - 1) - P ! (length P - 2)]"
  using assms by (auto simp: CalcPathPoints_def Let_def split: if_splits)

lemma CalcPathPoints_closed_nth:
  assumes "CalcPathPoints True P = Inr (S, R, Ru)" and "i < length S"
  shows "R ! i = S ! next_seg (length S) i - S ! i"
proof (cases "Suc i = length S")
  case True
  then have "i = length S - 1" by simp
  with True show ?thesis
    using CalcPathPoints_Inr [OF assms(1)] by (simp add: nth_append next_seg_def)
next
  case False
  with assms(2) have i: "i < length S - 1" by simp
  have "next_seg (length S) i = Suc i" using False by (simp add: next_seg_def)
  with i show ?thesis
    using CalcPathPoints_Inr [OF assms(1)] by (simp add: nth_append nth_seg_vectors)
qed

subsection \<open>The segment scan\<close>

lemma next_seg_mod: "i < n \<Longrightarrow> next_seg n i = Suc i mod n"
  by (simp add: next_seg_def)

lemma next_seg_lt: "i < n \<Longrightarrow> next_seg n i < n"
  by (simp add: next_seg_mod)

lemma funpow_next_seg: "i < n \<Longrightarrow> (next_seg n ^^ k) i = (i + k) mod n"
proof (induction k)
  case 0
  then show ?case by simp
next
  case (Suc k)
  have "(i + k) mod n < n" using Suc.prems by simp
  then show ?case
    using Suc by (simp add: next_seg_mod mod_Suc_eq)
qed

text \<open>Every segment is reached from every other within one lap.\<close>

lemma next_seg_reaches:
  assumes "i < n" and "j < n"
  shows "\<exists>k < n. (next_seg n ^^ k) i = j"
proof -
  let ?k = "(j + n - i) mod n"
  have "(i + ?k) mod n = (i + (j + n - i)) mod n"
    by (simp add: mod_add_right_eq)
  also have "\<dots> = j"
    using assms by simp
  finally show ?thesis
    using assms by (intro exI [of _ ?k]) (simp add: funpow_next_seg)
qed

lemma sr_scan_closed_Suc:
  "sr_scan_closed (Suc f) S R Ru sent i =
     (if seg_holds S R Ru sent i then Some (i, fst (seg_probe S R Ru sent i), snd (snd (seg_probe S R Ru sent i)))
      else sr_scan_closed f S R Ru sent (next_seg (length S) i))"
  by (simp add: seg_holds_def seg_probe_def Let_def)

declare sr_scan_closed.simps(2) [simp del]

lemma sr_scan_closed_reaches:
  assumes "seg_holds S R Ru sent ((next_seg (length S) ^^ k) i)" and "k < f"
  shows "\<exists>r. sr_scan_closed f S R Ru sent i = Some r"
  using assms
proof (induction k arbitrary: i f)
  case 0
  then obtain f' where "f = Suc f'" by (cases f) auto
  with "0.prems" show ?case by (simp add: sr_scan_closed_Suc)
next
  case (Suc k)
  then obtain f' where f: "f = Suc f'" and "k < f'" by (cases f) auto
  moreover have "seg_holds S R Ru sent ((next_seg (length S) ^^ k) (next_seg (length S) i))"
    using Suc.prems(1) by (metis comp_apply funpow_Suc_right)
  ultimately have "\<exists>r. sr_scan_closed f' S R Ru sent (next_seg (length S) i) = Some r"
    using Suc.IH by blast
  then show ?case
    by (simp add: f sr_scan_closed_Suc)
qed

lemma sr_scan_closed_none:
  assumes "\<forall>j < length S. \<not> seg_holds S R Ru sent j" and "i < length S"
  shows "sr_scan_closed f S R Ru sent i = None"
  using assms(2)
proof (induction f arbitrary: i)
  case 0
  then show ?case by simp
next
  case (Suc f)
  then show ?case
    using assms(1) next_seg_lt [OF Suc.prems] by (simp add: sr_scan_closed_Suc)
qed

lemma sr_scan_closed_result:
  assumes "sr_scan_closed f S R Ru sent i = Some (j, Pt, t)" and "i < length S"
  shows "j < length S \<and> seg_holds S R Ru sent j \<and> Pt = fst (seg_probe S R Ru sent j)
         \<and> t = snd (snd (seg_probe S R Ru sent j))"
  using assms
proof (induction f arbitrary: i)
  case 0
  then show ?case by simp
next
  case (Suc f)
  then show ?case
    using next_seg_lt [OF Suc.prems(2)] by (auto simp: sr_scan_closed_Suc split: if_splits)
qed

text \<open>
  With enough fuel for \<open>m\<close> probes, the scan either stops at the first holding
  segment among the next \<open>m\<close> in ring order, or has gone \<open>m\<close> segments on.
\<close>

lemma ring_prefix_Suc:
  assumes "i < n"
  shows "map (\<lambda>k. (i + k) mod n) [0..<Suc m] = i # map (\<lambda>k. (next_seg n i + k) mod n) [0..<m]"
proof -
  have "map (\<lambda>k. (i + k) mod n) [0..<Suc m] = i mod n # map (\<lambda>k. (i + Suc k) mod n) [0..<m]"
    by (simp add: map_upt_Suc del: upt_Suc)
  also have "(\<lambda>k. (i + Suc k) mod n) = (\<lambda>k. (next_seg n i + k) mod n)"
    using assms by (simp add: fun_eq_iff next_seg_mod mod_add_left_eq)
  finally show ?thesis using assms by simp
qed

lemma sr_scan_closed_prefix:
  assumes "i < length S" and "m \<le> f"
  shows "sr_scan_closed f S R Ru sent i =
           (case find (seg_holds S R Ru sent) (map (\<lambda>k. (i + k) mod length S) [0..<m]) of
              Some j \<Rightarrow> Some (j, fst (seg_probe S R Ru sent j), snd (snd (seg_probe S R Ru sent j)))
            | None \<Rightarrow> sr_scan_closed (f - m) S R Ru sent ((i + m) mod length S))"
  using assms
proof (induction m arbitrary: i f)
  case 0
  then show ?case by simp
next
  case (Suc m)
  then obtain f' where f: "f = Suc f'" and m: "m \<le> f'" by (cases f) auto
  have nx: "next_seg (length S) i < length S" by (rule next_seg_lt [OF Suc.prems(1)])
  have wrap: "(next_seg (length S) i + m) mod length S = (i + Suc m) mod length S"
    using Suc.prems(1) by (simp add: next_seg_mod mod_add_left_eq)
  have fm: "f - Suc m = f' - m" by (simp add: f)
  show ?case
    unfolding fm wrap [symmetric] ring_prefix_Suc [OF Suc.prems(1)]
    using Suc.IH [OF nx m] by (simp add: f sr_scan_closed_Suc del: upt_Suc)
qed

lemma ring_order_covers:
  assumes "i < n" and "j < n"
  shows "j \<in> set (ring_order n i)"
proof -
  obtain k where "k < n" and "(next_seg n ^^ k) i = j"
    using next_seg_reaches [OF assms] by blast
  then show ?thesis
    using assms(1) by (auto simp: ring_order_def funpow_next_seg)
qed

lemma sr_scan_open_idx:
  "i < length S \<Longrightarrow> fst (sr_scan_open S R Ru sent i) < length S \<and> fst (sr_scan_open S R Ru sent i) \<le> Suc i"
  by (auto simp: sr_scan_open_def seg_probe_def Let_def)

subsection \<open>Advance\<close>

lemma sr_steer_fields [simp]:
  "S_l (snd (sr_steer veh sent (i, Pt, t) s)) = S_l s"
  "R_l (snd (sr_steer veh sent (i, Pt, t) s)) = R_l s"
  "R_lu (snd (sr_steer veh sent (i, Pt, t) s)) = R_lu s"
  "sr_delta_max (snd (sr_steer veh sent (i, Pt, t) s)) = sr_delta_max s"
  "sr_Klat (snd (sr_steer veh sent (i, Pt, t) s)) = sr_Klat s"
  "sr_umin (snd (sr_steer veh sent (i, Pt, t) s)) = sr_umin s"
  "sr_idx_curr (snd (sr_steer veh sent (i, Pt, t) s)) = i"
  "m_sentinel (snd (sr_steer veh sent (i, Pt, t) s)) = sent"
  by (simp_all add: sr_steer_def Let_def log_sample_def)

lemma sr_steer_out:
  "fst (sr_steer veh sent (i, Pt, t) s) = sr_delta (snd (sr_steer veh sent (i, Pt, t) s)) / sr_delta_max s"
  by (simp add: sr_steer_def Let_def log_sample_def)

lemma sr_steer_delta:
  "sr_delta (snd (sr_steer veh sent (i, Pt, t) s)) =
     (if sr_umin s \<le> veh_speed veh
      then ChClamp (sr_delta s + sr_Klat s * Vdot Pt (Vcross (R_lu s ! i) wf_vertical))
                   (- sr_delta_max s) (sr_delta_max s)
      else sr_delta s)"
  by (simp add: sr_steer_def Let_def log_sample_def)

lemma sr_scan_idx:
  assumes "sr_inv s" and "sr_scan f sent s = Some (i, Pt, t)"
  shows "i < length (S_l s)"
proof (cases "sr_isClosedPath s")
  case True
  with assms show ?thesis
    using sr_scan_closed_result [of f "S_l s" "R_l s" "R_lu s" sent "sr_idx_curr s" i Pt t]
    by (simp add: sr_scan_def sr_inv_def)
next
  case False
  with assms show ?thesis
    using sr_scan_open_idx [of "sr_idx_curr s" "S_l s" "R_l s" "R_lu s" sent]
    by (auto simp: sr_scan_def sr_inv_def)
qed

lemma sr_Advance_SomeE:
  assumes "sr_Advance f veh h s = Some (r, s')"
  obtains i Pt t where "sr_scan f (sr_sentinel veh s) s = Some (i, Pt, t)"
    and "(r, s') = sr_steer veh (sr_sentinel veh s) (i, Pt, t) s"
  using assms by (auto simp: sr_Advance_def Let_def)

lemma sr_steer_inv:
  assumes "sr_inv s" and "i < length (S_l s)"
  shows "sr_inv (snd (sr_steer veh sent (i, Pt, t) s))"
proof -
  from assms(1) have "- sr_delta_max s \<le> sr_delta_max s" by (simp add: sr_inv_def)
  then have "\<bar>ChClamp x (- sr_delta_max s) (sr_delta_max s)\<bar> \<le> sr_delta_max s" for x
    using ChClamp_bounds [of "- sr_delta_max s" "sr_delta_max s" x] by (simp add: abs_le_iff)
  with assms show ?thesis
    by (simp add: sr_inv_def sr_steer_delta)
qed

lemma sr_Advance_inv:
  assumes "sr_inv s" and "sr_Advance f veh h s = Some (r, s')"
  shows "sr_inv s' \<and> sr_delta_max s' = sr_delta_max s \<and> r = sr_delta s' / sr_delta_max s'"
proof -
  obtain i Pt t where scan: "sr_scan f (sr_sentinel veh s) s = Some (i, Pt, t)"
    and eq: "(r, s') = sr_steer veh (sr_sentinel veh s) (i, Pt, t) s"
    using assms(2) by (rule sr_Advance_SomeE)
  have "i < length (S_l s)" using sr_scan_idx [OF assms(1) scan] .
  then have "sr_inv (snd (sr_steer veh (sr_sentinel veh s) (i, Pt, t) s))"
    by (rule sr_steer_inv [OF assms(1)])
  then show ?thesis
    using eq by (metis fst_conv snd_conv sr_steer_fields(4) sr_steer_out)
qed

lemma sr_inv_ratio_bounded:
  assumes "sr_inv s" and "0 < sr_delta_max s"
  shows "\<bar>sr_delta s / sr_delta_max s\<bar> \<le> 1"
  using assms by (simp add: sr_inv_def abs_divide)

lemma sr_run_inv:
  assumes "sr_inv s" and "sr_run f xs s = Some (rs, s')"
  shows "sr_inv s' \<and> sr_delta_max s' = sr_delta_max s
         \<and> (\<forall>r \<in> set rs. \<exists>q. sr_inv q \<and> sr_delta_max q = sr_delta_max s \<and> r = sr_delta q / sr_delta_max q)"
  using assms
proof (induction xs arbitrary: s rs)
  case Nil
  then show ?case by simp
next
  case (Cons x xs)
  obtain veh h where x: "x = (veh, h)" by (cases x)
  from Cons.prems(2) obtain r s1 rs' where adv: "sr_Advance f veh h s = Some (r, s1)"
    and run: "sr_run f xs s1 = Some (rs', s')" and rs: "rs = r # rs'"
    by (auto simp: x split: option.splits)
  from sr_Advance_inv [OF Cons.prems(1) adv] have s1: "sr_inv s1" "sr_delta_max s1 = sr_delta_max s"
    and r: "r = sr_delta s1 / sr_delta_max s1" by auto
  from Cons.IH [OF s1(1) run] s1 r show ?case
    by (auto simp: rs)
qed

text \<open>With \<open>m_Klat = 0\<close> every step leaves the steer angle where it is.\<close>

lemma sr_run_Klat_zero:
  assumes "sr_inv s" and "sr_Klat s = 0" and "sr_run f xs s = Some (rs, s')"
  shows "sr_delta s' = sr_delta s \<and> sr_delta_max s' = sr_delta_max s \<and> sr_Klat s' = 0
         \<and> (\<forall>r \<in> set rs. r = sr_delta s / sr_delta_max s)"
  using assms
proof (induction xs arbitrary: s rs)
  case Nil
  then show ?case by simp
next
  case (Cons x xs)
  obtain veh h where x: "x = (veh, h)" by (cases x)
  from Cons.prems(3) obtain r s1 rs' where adv: "sr_Advance f veh h s = Some (r, s1)"
    and run: "sr_run f xs s1 = Some (rs', s')" and rs: "rs = r # rs'"
    by (auto simp: x split: option.splits)
  obtain i Pt t where eq: "(r, s1) = sr_steer veh (sr_sentinel veh s) (i, Pt, t) s"
    using adv by (rule sr_Advance_SomeE)
  have lo: "- sr_delta_max s \<le> sr_delta s" and hi: "sr_delta s \<le> sr_delta_max s"
    using Cons.prems(1) by (auto simp: sr_inv_def)
  have d: "sr_delta s1 = sr_delta s"
    using eq Cons.prems(2) ChClamp_id [OF lo hi]
    by (metis snd_conv sr_steer_delta add.right_neutral mult_zero_left)
  have k: "sr_Klat s1 = 0" and m: "sr_delta_max s1 = sr_delta_max s"
    using eq Cons.prems(2) by (metis snd_conv sr_steer_fields(5), metis snd_conv sr_steer_fields(4))
  have r: "r = sr_delta s / sr_delta_max s"
    using eq d by (metis fst_conv snd_conv sr_steer_out)
  have s1: "sr_inv s1" using sr_Advance_inv [OF Cons.prems(1) adv] by simp
  from Cons.IH [OF s1 k run] d k m r show ?case
    by (simp add: rs)
qed

lemma square_path_points:
  "CalcPathPoints True square_path =
     Inr (square_path, [ChVector 1 0 0, ChVector 0 1 0, ChVector (-1) 0 0, ChVector 0 (-1) 0],
                       [ChVector 1 0 0, ChVector 0 1 0, ChVector (-1) 0 0, ChVector 0 (-1) 0])"
  by (simp add: CalcPathPoints_def square_path_def seg_vectors_def upt_rec vnormalize_def
      vlength_def dbl_min_def vec_defs Let_def)

lemma all_less_four: "(\<forall>j < (4 :: nat). P j) \<longleftrightarrow> P 0 \<and> P 1 \<and> P 2 \<and> P 3"
  by (auto simp: less_Suc_eq numeral_eq_Suc)

lemma square_ctl_eq:
  "square_ctl = steer_base.extend ChSteeringController
     (sr_ctl.fields square_path True 0 0 (1 / 2) 2 0 (1 / 2) 2 0 square_path
        [ChVector 1 0 0, ChVector 0 1 0, ChVector (-1) 0 0, ChVector 0 (-1) 0]
        [ChVector 1 0 0, ChVector 0 1 0, ChVector (-1) 0 0, ChVector 0 (-1) 0])"
  by (simp add: square_ctl_def ChPathSteeringControllerSR_def sr_make_def square_path_points)

lemma square_ctl_fields [simp]:
  "S_l square_ctl = square_path"
  "R_l square_ctl = [ChVector 1 0 0, ChVector 0 1 0, ChVector (-1) 0 0, ChVector 0 (-1) 0]"
  "R_lu square_ctl = [ChVector 1 0 0, ChVector 0 1 0, ChVector (-1) 0 0, ChVector 0 (-1) 0]"
  "sr_isClosedPath square_ctl" "sr_Klat square_ctl = 0" "sr_Kug square_ctl = 0"
  "sr_Tp square_ctl = 1 / 2" "sr_delta square_ctl = 0" "sr_delta_max square_ctl = 1 / 2"
  "sr_umin square_ctl = 2" "sr_idx_curr square_ctl = 0"
  by (simp_all add: square_ctl_eq steer_base.defs sr_ctl.defs)

lemma sr_inv_square_ctl: "sr_inv square_ctl"
  by (simp add: sr_inv_def square_path_def)

lemma sr_sentinel_square_standstill:
  "sr_sentinel (heading_x_vehicle x y 0) square_ctl = ChVector (x + 1) y 0"
  by (simp add: sr_sentinel_def heading_x_vehicle_def transform_forward vec3_eq_iff)

text \<open>
  A vehicle at rest at \<open>(-1/2, 0)\<close> previews \<open>(1/2, 0)\<close>, inside the first segment
  of the square, from any controller on the square with a zero steer angle.
\<close>

lemma sr_Advance_square_inside_any:
  assumes "S_l s = square_path" and "R_l s = R_l square_ctl" and "R_lu s = R_lu square_ctl"
    and "sr_isClosedPath s" and "sr_idx_curr s = 0" and "sr_delta s = 0"
    and "sr_umin s = 2" and "sr_Tp s = 1 / 2"
  shows "\<exists>r s'. sr_Advance (Suc 0) (heading_x_vehicle (- (1 / 2)) 0 0) h s = Some (r, s')"
proof -
  have sent: "sr_sentinel (heading_x_vehicle (- (1 / 2)) 0 0) s = ChVector (1 / 2) 0 0"
    using assms by (simp add: sr_sentinel_def heading_x_vehicle_def transform_forward vec3_eq_iff)
  have "seg_holds square_path (R_l square_ctl) (R_lu square_ctl) (ChVector (1 / 2) 0 0) 0"
    by (simp add: seg_holds_def seg_probe_def square_path_def vlength_def Vdot_def)
  then show ?thesis
    using assms by (simp add: sr_Advance_def sr_scan_def sent sr_scan_closed_Suc Let_def)
qed

lemma sr_Advance_square_inside:
  "\<exists>r s'. sr_Advance (Suc 0) (heading_x_vehicle (- (1 / 2)) 0 0) h square_ctl = Some (r, s')"
  by (rule sr_Advance_square_inside_any) simp_all

section \<open>Properties\<close>

text \<open>
  C15: on a closed path every segment ends where the next begins, the last one at
  the first point: \<open>S_l[i] + R_l[i] = S_l[next i]\<close>, with the same successor the
  index scan uses.
\<close>

theorem sr_closed_path_roundtrip:
  assumes "CalcPathPoints True P = Inr (S, R, Ru)" and "i < length S"
  shows "S ! i + R ! i = S ! next_seg (length S) i"
  using CalcPathPoints_closed_nth [OF assms] by (simp add: algebra_simps)

theorem sr_closed_path_roundtrip_witness:
  "square_path ! 3 + [ChVector 1 0 0, ChVector 0 1 0, ChVector (-1) 0 0, ChVector 0 (-1) 0] ! 3
     = square_path ! next_seg (length square_path) 3"
  using sr_closed_path_roundtrip [OF square_path_points, of 3] by (simp add: square_path_def)

text \<open>The segment vectors of a closed path add up to zero.\<close>

theorem sr_closed_segments_sum_zero:
  assumes "CalcPathPoints True P = Inr (S, R, Ru)"
  shows "sum_list R = 0"
proof -
  have ne: "P \<noteq> []" using CalcPathPoints_Inr(4) [OF assms] by simp
  have "R = seg_vectors P @ [P ! 0 - P ! (length P - 1)]"
    using CalcPathPoints_Inr(5) [OF assms] by simp
  then show ?thesis
    using sum_seg_vectors [OF ne] by simp
qed

theorem sr_closed_segments_sum_zero_witness:
  "sum_list [ChVector 1 0 0, ChVector 0 1 0, ChVector (-1) 0 0, ChVector 0 (-1) (0 :: real)] = 0"
  using sr_closed_segments_sum_zero [OF square_path_points] .

text \<open>
  C4: termination of the closed-path scan. If some segment holds the preview point,
  the \<open>while\<close> loop stops within one lap: fuel for as many probes as the path has
  segments is enough.
\<close>

theorem sr_scan_closed_terminates:
  assumes "i < length S" and "j < length S" and "seg_holds S R Ru sent j" and "length S \<le> f"
  shows "\<exists>r. sr_scan_closed f S R Ru sent i = Some r"
proof -
  obtain k where "k < length S" and "(next_seg (length S) ^^ k) i = j"
    using next_seg_reaches [OF assms(1,2)] by blast
  with assms(3,4) show ?thesis
    using sr_scan_closed_reaches [of S R Ru sent k i f] by simp
qed

theorem sr_scan_closed_terminates_witness:
  "\<exists>r. sr_scan_closed 4 square_path (R_l square_ctl) (R_lu square_ctl) (ChVector (1 / 2) 0 0) 2 = Some r"
proof -
  have "seg_holds square_path (R_l square_ctl) (R_lu square_ctl) (ChVector (1 / 2) 0 0) 0"
    by (simp add: seg_holds_def seg_probe_def square_path_def vlength_def Vdot_def)
  then show ?thesis
    using sr_scan_closed_terminates [of 2 square_path 0 "R_l square_ctl" "R_lu square_ctl"
        "ChVector (1 / 2) 0 0" 4]
    by (simp add: square_path_def)
qed

text \<open>
  C9: refinement of the closed-path scan. With fuel for at least one lap, the
  executable loop computes its specification \<open>sr_scan_spec\<close>: the first segment in
  ring order from the current index that holds the preview point, with its
  probe; and it returns nothing exactly when no segment holds.
\<close>

theorem sr_scan_closed_refines:
  assumes "i < length S" and "length S \<le> f"
  shows "sr_scan_closed f S R Ru sent i = sr_scan_spec S R Ru sent i"
proof (cases "find (seg_holds S R Ru sent) (ring_order (length S) i)")
  case None
  then have "\<forall>j < length S. \<not> seg_holds S R Ru sent j"
    using ring_order_covers [OF assms(1)] by (auto simp: find_None_iff)
  then have "sr_scan_closed (f - length S) S R Ru sent ((i + length S) mod length S) = None"
    using assms(1) by (intro sr_scan_closed_none) auto
  then show ?thesis
    using sr_scan_closed_prefix [OF assms] None by (simp add: sr_scan_spec_def ring_order_def)
next
  case (Some j)
  then show ?thesis
    using sr_scan_closed_prefix [OF assms] by (simp add: sr_scan_spec_def ring_order_def)
qed

theorem sr_scan_closed_refines_witness:
  "2 < length square_path \<and> length square_path \<le> 4
   \<and> sr_scan_closed 4 square_path (R_l square_ctl) (R_lu square_ctl) (ChVector (1 / 2) 0 0) 2
     = sr_scan_spec square_path (R_l square_ctl) (R_lu square_ctl) (ChVector (1 / 2) 0 0) 2"
  using sr_scan_closed_refines [of 2 square_path 4 "R_l square_ctl" "R_lu square_ctl" "ChVector (1 / 2) 0 0"]
  by (simp add: square_path_def)

text \<open>
  C3: non-termination. On the unit square, a vehicle at rest at \<open>(9, 10)\<close> previews
  \<open>(10, 10)\<close>; every segment has a projection longer than itself, so the
  closed-path \<open>while\<close> loop of \<open>Advance\<close> cycles forever: no fuel is enough.
\<close>

theorem sr_Advance_hangs_off_path:
  "sr_Advance fuel (heading_x_vehicle 9 10 0) h square_ctl = None"
proof -
  have L: "length square_path = 4" by (simp add: square_path_def)
  have "\<forall>j < 4. \<not> seg_holds square_path (R_l square_ctl) (R_lu square_ctl) (ChVector 10 10 0) j"
    unfolding all_less_four by (simp add: square_path_def seg_holds_def seg_probe_def vlength_def Vdot_def)
  then have "\<forall>j < length square_path.
          \<not> seg_holds square_path (R_l square_ctl) (R_lu square_ctl) (ChVector 10 10 0) j"
    by (simp only: L)
  then have "sr_scan_closed fuel square_path (R_l square_ctl) (R_lu square_ctl) (ChVector 10 10 0) 0 = None"
    by (rule sr_scan_closed_none) (simp add: square_path_def)
  then show ?thesis
    using sr_sentinel_square_standstill [of 9 10]
    by (simp add: sr_Advance_def sr_scan_def Let_def)
qed

text \<open>
  C5: every \<open>Advance\<close> that returns keeps the invariant: segment lists of equal
  length, index in range, steer angle within \<open>[-delta_max, delta_max]\<close>.
\<close>

theorem sr_Advance_keeps_inv:
  assumes "sr_inv s" and "sr_Advance f veh h s = Some (r, s')"
  shows "sr_inv s'"
  using sr_Advance_inv [OF assms] by simp

theorem sr_Advance_keeps_inv_witness:
  "sr_inv (snd (the (sr_Advance (Suc 0) (heading_x_vehicle (- (1 / 2)) 0 0) (1 / 100) square_ctl)))"
proof -
  obtain r s' where adv: "sr_Advance (Suc 0) (heading_x_vehicle (- (1 / 2)) 0 0) (1 / 100) square_ctl = Some (r, s')"
    using sr_Advance_square_inside by blast
  have "sr_inv s'" using sr_Advance_keeps_inv [OF sr_inv_square_ctl adv] .
  then show ?thesis by (simp add: adv)
qed

text \<open>
  C2: over any run of \<open>Advance\<close> calls from a controller satisfying the invariant
  with a positive \<open>delta_max\<close>, every steering value lies in \<open>[-1, 1]\<close>.
\<close>

theorem sr_run_output_bounded:
  assumes "sr_inv s" and "0 < sr_delta_max s" and "sr_run f xs s = Some (rs, s')"
  shows "\<forall>r \<in> set rs. \<bar>r\<bar> \<le> 1"
  using sr_run_inv [OF assms(1,3)] assms(2) sr_inv_ratio_bounded by fastforce

theorem sr_run_output_bounded_witness:
  "\<bar>hd (fst (the (sr_run (Suc 0) [(heading_x_vehicle (- (1 / 2)) 0 0, 1 / 100)] square_ctl)))\<bar> \<le> 1"
proof -
  obtain r s' where adv: "sr_Advance (Suc 0) (heading_x_vehicle (- (1 / 2)) 0 0) (1 / 100) square_ctl = Some (r, s')"
    using sr_Advance_square_inside by blast
  then have run: "sr_run (Suc 0) [(heading_x_vehicle (- (1 / 2)) 0 0, 1 / 100)] square_ctl = Some ([r], s')"
    by simp
  have "\<forall>r \<in> set [r]. \<bar>r\<bar> \<le> 1"
    using sr_run_output_bounded [OF sr_inv_square_ctl _ run] by simp
  then show ?thesis unfolding run by simp
qed

text \<open>
  C13: \<open>Reset\<close> sets the gains \<open>m_Klat\<close> and \<open>m_Kug\<close> to zero, so after a reset
  the controller never steers again: every later \<open>Advance\<close> returns the steering
  value held before the reset.
\<close>

theorem sr_reset_freezes_steering:
  assumes "sr_inv s" and "sr_run f xs (sr_Reset veh0 s) = Some (rs, s')"
  shows "\<forall>r \<in> set rs. r = sr_delta s / sr_delta_max s"
proof -
  have "sr_inv (sr_Reset veh0 s)" and "sr_Klat (sr_Reset veh0 s) = 0"
    and "sr_delta (sr_Reset veh0 s) = sr_delta s" and "sr_delta_max (sr_Reset veh0 s) = sr_delta_max s"
    using assms(1) by (simp_all add: sr_Reset_def base_Reset_def sr_inv_def)
  then show ?thesis
    using sr_run_Klat_zero [OF _ _ assms(2)] by simp
qed

theorem sr_reset_freezes_steering_witness:
  "hd (fst (the (sr_run (Suc 0) [(heading_x_vehicle (- (1 / 2)) 0 0, 1 / 100)]
                  (sr_Reset (heading_x_vehicle 0 0 0) (sr_SetGains 1 0 square_ctl))))) = 0"
proof -
  let ?s = "sr_SetGains 1 0 square_ctl"
  let ?veh = "heading_x_vehicle (- (1 / 2)) 0 0"
  have inv: "sr_inv ?s" using sr_inv_square_ctl by (simp add: sr_inv_def sr_SetGains_def)
  obtain r s' where adv: "sr_Advance (Suc 0) ?veh (1 / 100) (sr_Reset (heading_x_vehicle 0 0 0) ?s) = Some (r, s')"
    using sr_Advance_square_inside_any [of "sr_Reset (heading_x_vehicle 0 0 0) ?s" "1 / 100"]
    by (auto simp: sr_Reset_def sr_SetGains_def base_Reset_def)
  then have run: "sr_run (Suc 0) [(?veh, 1 / 100)] (sr_Reset (heading_x_vehicle 0 0 0) ?s) = Some ([r], s')"
    by simp
  have "\<forall>q \<in> set [r]. q = sr_delta ?s / sr_delta_max ?s"
    using sr_reset_freezes_steering [OF inv run] .
  then show ?thesis unfolding run by (simp add: sr_SetGains_def)
qed

text \<open>
  C17: with a zero steer angle the preview point lies \<open>max(u, m_umin) * Tp\<close> ahead
  of the chassis, not \<open>u * Tp\<close>: a vehicle at rest previews \<open>m_umin * Tp\<close> ahead.
\<close>

theorem sr_sentinel_straight:
  assumes "sr_delta s = 0"
  shows "sr_sentinel veh s =
           fpos (veh_frame veh) + vscale (max (veh_speed veh) (sr_umin s) * sr_Tp s) (fxaxis (veh_frame veh))"
  using assms by (simp add: sr_sentinel_def transform_forward max_def Let_def)

theorem sr_sentinel_straight_witness:
  "sr_sentinel (heading_x_vehicle 0 0 0) square_ctl = ChVector 0 0 0 + vscale (max 0 2 * (1 / 2)) (ChVector 1 0 0)"
  using sr_sentinel_straight [of square_ctl "heading_x_vehicle 0 0 0"]
  by (simp add: heading_x_vehicle_def)

text \<open>
  Below the minimum speed \<open>m_umin\<close> the steer angle is frozen: \<open>Advance\<close>
  leaves \<open>m_delta\<close> unchanged.
\<close>

theorem sr_frozen_below_umin:
  assumes "veh_speed veh < sr_umin s" and "sr_Advance f veh h s = Some (r, s')"
  shows "sr_delta s' = sr_delta s"
proof -
  obtain i Pt t where "(r, s') = sr_steer veh (sr_sentinel veh s) (i, Pt, t) s"
    using assms(2) by (rule sr_Advance_SomeE)
  then show ?thesis
    using assms(1) sr_steer_delta [of veh "sr_sentinel veh s" i Pt t s] by (metis not_le snd_conv)
qed

theorem sr_frozen_below_umin_witness:
  "sr_delta (snd (the (sr_Advance (Suc 0) (heading_x_vehicle (- (1 / 2)) 0 0) (1 / 100) square_ctl))) = 0"
proof -
  obtain r s' where adv: "sr_Advance (Suc 0) (heading_x_vehicle (- (1 / 2)) 0 0) (1 / 100) square_ctl = Some (r, s')"
    using sr_Advance_square_inside by blast
  have "veh_speed (heading_x_vehicle (- (1 / 2)) 0 0) < sr_umin square_ctl"
    by (simp add: heading_x_vehicle_def)
  from sr_frozen_below_umin [OF this adv] show ?thesis by (simp add: adv)
qed

text \<open>
  C16: the constructor establishes the invariant for any path it accepts and any
  non-negative maximum wheel angle.
\<close>

theorem sr_ctor_inv:
  assumes "ChPathSteeringControllerSR P c m L = Inr s" and "0 \<le> m"
  shows "sr_inv s"
proof -
  obtain S R Ru where pp: "CalcPathPoints c P = Inr (S, R, Ru)" and
    s: "s = steer_base.extend ChSteeringController (sr_ctl.fields P c 0 0 (1 / 2) L 0 m 2 0 S R Ru)"
    using assms(1) by (auto simp: ChPathSteeringControllerSR_def sr_make_def split: sum.splits)
  from CalcPathPoints_Inr [OF pp] assms(2) show ?thesis
    by (simp add: s sr_inv_def steer_base.defs sr_ctl.defs)
qed

theorem sr_ctor_inv_witness: "sr_inv (projr (ChPathSteeringControllerSR square_path True (1 / 2) 2))"
  using sr_ctor_inv [of square_path True "1 / 2" 2]
  by (simp add: ChPathSteeringControllerSR_def sr_make_def square_path_points)

text \<open>The setters saturate: \<open>Klat \<ge> 0\<close>, \<open>Kug \<in> [0, 5]\<close>, \<open>Tp \<in> [0.2, 4]\<close>.\<close>

theorem sr_setters_saturate:
  "0 \<le> sr_Klat (sr_SetGains a b s) \<and> 0 \<le> sr_Kug (sr_SetGains a b s) \<and> sr_Kug (sr_SetGains a b s) \<le> 5
   \<and> 2 / 10 \<le> sr_Tp (sr_SetPreviewTime T s) \<and> sr_Tp (sr_SetPreviewTime T s) \<le> 4"
  by (simp add: sr_SetGains_def sr_SetPreviewTime_def ChClamp_def)

end
