(* ===== verification/Path_Stanley.thy ===== *)
theory Path_Stanley
  imports Steering_Base Ch_Filters
begin

text \<open>
  \<open>ChPathSteeringControllerStanley\<close> (part_000, lines 618-793): the Stanley law
  \<open>delta = heading error + atan(Kp e / u) + Kd e' + Ki \<integral>e\<close> on the lateral error
  \<open>e\<close>, weighted down to zero inside a dead zone around the path, with the
  derivative taken analytically, \<open>e' = -u sin(atan(Kp e / u))\<close>, and the speed
  raised to \<open>m_umin\<close> under the division. The normalised, clamped steering
  value passes through a PT1 reaction-delay filter created on the first
  \<open>Advance\<close>, when the step is known. A countdown of 30 time units is meant to
  reset the integral term against wind-up.

  Fields of the derived class carry the \<open>st_\<close> prefix; the gains are the base
  class's \<open>m_Kp\<close>, \<open>m_Ki\<close>, \<open>m_Kd\<close>, written through Stanley's own
  \<open>SetGains\<close>, which stores their absolute values.
\<close>

record 't st_ctl = steer_base +
  st_delayFilter :: "ChFilterPT1 option"
  st_tracker :: 't
  st_isClosedPath :: bool
  st_delta :: real
  st_delta_max :: real
  st_umin :: real
  st_Treset :: real
  st_deadZone :: real
  st_Tdelay :: real
  st_pcurvature :: real
  st_ptangent :: vec3

definition st_SetGains :: "real \<Rightarrow> real \<Rightarrow> real \<Rightarrow> 't st_ctl \<Rightarrow> 't st_ctl" where
  "st_SetGains Kp Ki Kd s = s\<lparr>m_Kp := \<bar>Kp\<bar>, m_Ki := \<bar>Ki\<bar>, m_Kd := \<bar>Kd\<bar>\<rparr>"

text \<open>
  The constructor (lines 639-658). The path-frame fields are written by every
  \<open>Advance\<close> before they are read, so their initial value is taken as zero.
\<close>

definition ChPathSteeringControllerStanley :: "'t \<Rightarrow> bool \<Rightarrow> real \<Rightarrow> 't st_ctl" where
  "ChPathSteeringControllerStanley t0 isClosed max_wheel_turn_angle =
     st_SetGains 0 0 0
       (steer_base.extend ChSteeringController
          (st_ctl.fields None t0 isClosed 0 max_wheel_turn_angle 1 30 0 (4 / 10) 0 0))"

text \<open>
  The JSON constructor (lines 660-691) stores the gains as read, without the
  absolute value \<open>SetGains\<close> takes; look-ahead and dead zone are optional.
\<close>

record st_json =
  stj_Kp :: real
  stj_Ki :: real
  stj_Kd :: real
  stj_dist :: "real option"
  stj_deadZone :: "real option"

definition ChPathSteeringControllerStanley_json ::
  "st_json option \<Rightarrow> 't \<Rightarrow> bool \<Rightarrow> real \<Rightarrow> 't st_ctl" where
  "ChPathSteeringControllerStanley_json doc t0 isClosed max_wheel_turn_angle =
     (let s = ChPathSteeringControllerStanley t0 isClosed max_wheel_turn_angle
      in case doc of
           None \<Rightarrow> s
         | Some d \<Rightarrow>
             (let s1 = s\<lparr>m_Kp := stj_Kp d, m_Kd := stj_Kd d, m_Ki := stj_Ki d\<rparr>;
                  s2 = (case stj_dist d of None \<Rightarrow> s1 | Some x \<Rightarrow> s1\<lparr>m_dist := x\<rparr>)
              in case stj_deadZone d of None \<Rightarrow> s2 | Some z \<Rightarrow> s2\<lparr>st_deadZone := z\<rparr>))"

definition st_Reset :: "vehicle \<Rightarrow> 't st_ctl \<Rightarrow> 't st_ctl" where
  "st_Reset veh s = base_Reset veh s"

definition st_CalcTargetLocation :: "'t curve_tracker \<Rightarrow> 't st_ctl \<Rightarrow> 't st_ctl" where
  "st_CalcTargetLocation ops s =
     (let (tnb, curv, t') = trk_closest_frame ops (st_tracker s) (m_sentinel s)
      in s\<lparr>st_pcurvature := curv, m_target := fpos tnb, st_ptangent := fxaxis tnb, st_tracker := t'\<rparr>)"

definition st_CalcHeadingError :: "vec3 \<Rightarrow> vec3 \<Rightarrow> real" where
  "st_CalcHeadingError a b =
     (let a' = vnormalize (wf_project a); b' = vnormalize (wf_project b)
      in arcsin (wf_height (Vcross a' b')))"

text \<open>The dead-zone weight of the lateral error (lines 741-743).\<close>

definition st_deadzone_weight :: "real \<Rightarrow> real \<Rightarrow> real" where
  "st_deadzone_weight deadZone err =
     (if deadZone > 0 then ChSineStep \<bar>err\<bar> deadZone 0 (2 * deadZone) 1 else 1)"

text \<open>The delay filter, created on the first \<open>Advance\<close> with its step (lines 705-707).\<close>

definition st_init_filter :: "real \<Rightarrow> 't st_ctl \<Rightarrow> ChFilterPT1" where
  "st_init_filter step s =
     (case st_delayFilter s of None \<Rightarrow> pt1_new step (st_Tdelay s) | Some f \<Rightarrow> f)"

text \<open>
  \<open>Advance\<close> (lines 704-767). The filter is created on the first call; the
  countdown \<open>m_Treset\<close> is decremented by the step, and when it expires it is set
  back to 30 and \<open>m_err\<close> is zeroed.
\<close>

definition st_Advance :: "'t curve_tracker \<Rightarrow> (vehicle, 't st_ctl) advance_fn" where
  "st_Advance ops veh step s =
     (let f0 = st_init_filter step s;
          fr = veh_frame veh;
          u = veh_speed veh;
          s1 = log_sample (veh_time veh)
                 (st_CalcTargetLocation ops (s\<lparr>m_sentinel := sentinel_at (m_dist s) veh\<rparr>));
          e0 = lateral_error veh (m_sentinel s1) (m_target s1);
          err = e0 * st_deadzone_weight (st_deadZone s1) e0;
          uc = ChClamp u (st_umin s1) u;
          err_dot = - u * sin (arctan (m_Kp s1 * err / uc));
          erri = m_erri s1 + (err + m_err s1) * step / 2;
          h_err = st_CalcHeadingError (fxaxis fr) (st_ptangent s1);
          delta = h_err + arctan (m_Kp s1 * err / uc) + m_Kd s1 * err_dot + m_Ki s1 * erri;
          steer = ChClamp (delta / st_delta_max s1) (-1) 1;
          Treset = st_Treset s1 - step;
          s2 = s1\<lparr>m_erri := erri, m_err := err, st_delta := delta, st_Treset := Treset\<rparr>;
          s3 = (if Treset \<le> 0 then s2\<lparr>st_Treset := 30, m_err := 0\<rparr> else s2);
          (out, f1) = pt1_Filter f0 steer
      in (out, s3\<lparr>st_delayFilter := Some f1\<rparr>))"

text \<open>A run of \<open>Advance\<close> calls.\<close>

fun st_run :: "'t curve_tracker \<Rightarrow> (vehicle \<times> real) list \<Rightarrow> 't st_ctl \<Rightarrow> real list \<times> 't st_ctl" where
  "st_run ops [] s = ([], s)"
| "st_run ops ((veh, h) # xs) s =
     (let (r, s') = st_Advance ops veh h s; (rs, s'') = st_run ops xs s' in (r # rs, s''))"

text \<open>
  The delay filter is sound when, once created, it is a bounded PT1 filter, and
  before that the step it will be created with is positive and at most twice the
  delay time constant.
\<close>

definition st_filter_ok :: "real \<Rightarrow> 't st_ctl \<Rightarrow> bool" where
  "st_filter_ok h s =
     (case st_delayFilter s of
        None \<Rightarrow> 0 < h \<and> h \<le> 2 * \<bar>st_Tdelay s\<bar>
      | Some f \<Rightarrow> pt1_bounded f)"


text \<open>A fresh controller on a closed path, with maximum wheel angle 1.\<close>

definition st_fresh :: "unit st_ctl" where
  "st_fresh = ChPathSteeringControllerStanley () True 1"

section \<open>Lemmas\<close>

lemma st_Advance_parts:
  fixes s :: "'t st_ctl" and ops veh and step :: real
  defines "s' \<equiv> snd (st_Advance ops veh step s)"
  shows "fst (st_Advance ops veh step s) =
           fst (pt1_Filter (st_init_filter step s) (ChClamp (st_delta s' / st_delta_max s) (-1) 1))"
    and "st_delayFilter s' =
           Some (snd (pt1_Filter (st_init_filter step s) (ChClamp (st_delta s' / st_delta_max s) (-1) 1)))"
    and "st_delta_max s' = st_delta_max s" "st_Tdelay s' = st_Tdelay s"
  unfolding s'_def
  by (simp_all add: st_Advance_def Let_def st_CalcTargetLocation_def case_prod_beta log_sample_def)

lemma st_init_filter_bounded: "st_filter_ok h s \<Longrightarrow> pt1_bounded (st_init_filter h s)"
  by (auto simp: st_filter_ok_def st_init_filter_def pt1_new_bounded split: option.splits)

lemma st_Advance_bounded:
  assumes "st_filter_ok step s"
  shows "\<bar>fst (st_Advance ops veh step s)\<bar> \<le> 1"
    and "st_filter_ok h (snd (st_Advance ops veh step s))"
proof -
  let ?c = "ChClamp (st_delta (snd (st_Advance ops veh step s)) / st_delta_max s) (-1) 1"
  have c: "\<bar>?c\<bar> \<le> 1"
    using ChClamp_bounds [of "-1" 1] by (simp add: abs_le_iff)
  have f: "pt1_bounded (st_init_filter step s)"
    by (rule st_init_filter_bounded [OF assms])
  show "\<bar>fst (st_Advance ops veh step s)\<bar> \<le> 1"
    unfolding st_Advance_parts(1) by (rule pt1_Filter_bounded [OF f c])
  show "st_filter_ok h (snd (st_Advance ops veh step s))"
    unfolding st_filter_ok_def st_Advance_parts(2) by (simp add: pt1_Filter_keeps_bounded [OF f c])
qed

lemma st_Advance_Treset:
  "st_Treset s \<le> step \<Longrightarrow> st_Treset (snd (st_Advance ops veh step s)) = 30 \<and> m_err (snd (st_Advance ops veh step s)) = 0"
  "step < st_Treset s \<Longrightarrow> st_Treset (snd (st_Advance ops veh step s)) = st_Treset s - step"
  by (simp_all add: st_Advance_def Let_def st_CalcTargetLocation_def case_prod_beta log_sample_def)

lemma st_Advance_erri_Treset:
  "m_erri (snd (st_Advance ops veh step (s\<lparr>st_Treset := T\<rparr>))) = m_erri (snd (st_Advance ops veh step s))"
  by (simp add: st_Advance_def Let_def st_CalcTargetLocation_def case_prod_beta log_sample_def)

lemma st_deadzone_weight_mid: "0 < dz \<Longrightarrow> st_deadzone_weight dz (3 * dz / 2) = 1 / 2"
proof -
  assume dz: "0 < dz"
  have "st_deadzone_weight dz (3 * dz / 2) = 0 + (1 - 0) * ((3 * dz / 2 - dz) / (2 * dz - dz)
          - sin (2 * pi * ((3 * dz / 2 - dz) / (2 * dz - dz))) / (2 * pi))"
    using dz by (simp add: st_deadzone_weight_def ChSineStep_inside)
  also have "(3 * dz / 2 - dz) / (2 * dz - dz) = 1 / 2" using dz by (simp add: field_simps)
  finally show ?thesis by simp
qed

lemma st_CalcHeadingError_self: "st_CalcHeadingError a a = 0"
  by (simp add: st_CalcHeadingError_def Let_def Vcross_def)

lemma st_log_sample_fields [simp]:
  "st_deadZone (log_sample t s) = st_deadZone s" "st_umin (log_sample t s) = st_umin s"
  "st_ptangent (log_sample t s) = st_ptangent s" "st_Treset (log_sample t s) = st_Treset s"
  "st_delta_max (log_sample t s) = st_delta_max s"
  by (simp_all add: log_sample_def)

lemma st_CalcTargetLocation_fields [simp]:
  "m_dist (st_CalcTargetLocation ops s) = m_dist s" "m_sentinel (st_CalcTargetLocation ops s) = m_sentinel s"
  "m_err (st_CalcTargetLocation ops s) = m_err s" "m_erri (st_CalcTargetLocation ops s) = m_erri s"
  "m_Kp (st_CalcTargetLocation ops s) = m_Kp s" "m_Ki (st_CalcTargetLocation ops s) = m_Ki s"
  "m_Kd (st_CalcTargetLocation ops s) = m_Kd s"
  "st_deadZone (st_CalcTargetLocation ops s) = st_deadZone s" "st_umin (st_CalcTargetLocation ops s) = st_umin s"
  "st_Treset (st_CalcTargetLocation ops s) = st_Treset s"
  "st_delta_max (st_CalcTargetLocation ops s) = st_delta_max s"
  "st_ptangent (st_CalcTargetLocation ops s) = fxaxis (fst (trk_closest_frame ops (st_tracker s) (m_sentinel s)))"
  "m_target (st_CalcTargetLocation ops s) = fpos (fst (trk_closest_frame ops (st_tracker s) (m_sentinel s)))"
  by (simp_all add: st_CalcTargetLocation_def case_prod_beta)

lemma st_Advance_delta:
  fixes s :: "'t st_ctl" and ops veh and step :: real
  defines "sent \<equiv> sentinel_at (m_dist s) veh"
  defines "tnb \<equiv> fst (trk_closest_frame ops (st_tracker s) sent)"
  defines "e0 \<equiv> lateral_error veh sent (fpos tnb)"
  defines "err \<equiv> e0 * st_deadzone_weight (st_deadZone s) e0"
  defines "a \<equiv> arctan (m_Kp s * err / max (veh_speed veh) (st_umin s))"
  shows "st_delta (snd (st_Advance ops veh step s)) =
           st_CalcHeadingError (fxaxis (veh_frame veh)) (fxaxis tnb) + a
           + m_Kd s * (- veh_speed veh * sin a) + m_Ki s * (m_erri s + (err + m_err s) * step / 2)"
    and "m_erri (snd (st_Advance ops veh step s)) = m_erri s + (err + m_err s) * step / 2"
  unfolding sent_def tnb_def e0_def err_def a_def
  by (simp_all add: st_Advance_def Let_def case_prod_beta ChClamp_self_upper)

section \<open>Properties\<close>

text \<open>
  C7: the Stanley output always lies in \<open>[-1, 1]\<close> when the maximum wheel angle
  is positive and the delay filter is created with a step of at most twice its
  time constant (\<open>0.8\<close> for the default \<open>m_Tdelay = 0.4\<close>): the steering value
  is clamped before the filter, and the filter keeps bounded inputs bounded,
  over any later steps. (With \<open>m_delta_max = 0\<close>, which the constructor
  accepts, the C++ ratio is NaN and the clamp lets it through.)
\<close>

theorem st_output_bounded:
  "0 < st_delta_max s \<Longrightarrow> st_filter_ok (snd (hd xs)) s \<Longrightarrow> \<forall>r\<in>set (fst (st_run ops xs s)). \<bar>r\<bar> \<le> 1"
proof (induction xs arbitrary: s)
  case Nil
  then show ?case by simp
next
  case (Cons x xs)
  obtain veh h where x: "x = (veh, h)" by (cases x)
  have ok: "st_filter_ok h s" using Cons.prems x by simp
  have "0 < st_delta_max (snd (st_Advance ops veh h s))"
    using Cons.prems(1) by (simp add: st_Advance_parts(3))
  moreover have "st_filter_ok (snd (hd xs)) (snd (st_Advance ops veh h s))"
    by (rule st_Advance_bounded(2) [OF ok])
  ultimately have "\<forall>r\<in>set (fst (st_run ops xs (snd (st_Advance ops veh h s)))). \<bar>r\<bar> \<le> 1"
    by (rule Cons.IH)
  then show ?case
    using st_Advance_bounded(1) [OF ok, of ops veh] x by (simp add: case_prod_beta)
qed

theorem st_output_bounded_witness:
  "0 < st_delta_max st_fresh \<and> st_filter_ok (1 / 100) st_fresh
   \<and> \<bar>hd (fst (st_run x_axis_tracker [(heading_x_vehicle 0 (- 1) 1, 1 / 100)] st_fresh))\<bar> \<le> 1"
  using st_output_bounded [of st_fresh "[(heading_x_vehicle 0 (- 1) 1, 1 / 100)]" x_axis_tracker]
  by (simp add: st_filter_ok_def st_fresh_def st_SetGains_def ChPathSteeringControllerStanley_def
      steer_base.defs st_ctl.defs case_prod_beta)

text \<open>
  C6: the anti-windup countdown, when it expires, zeroes the cached error
  \<open>m_err\<close> and restarts at 30, but leaves the accumulated integral
  \<open>m_erri\<close> exactly as a step without reset would: the integral term is never
  reset.
\<close>

theorem st_reset_keeps_integral:
  assumes "st_Treset s \<le> step"
  shows "m_err (snd (st_Advance ops veh step s)) = 0 \<and> st_Treset (snd (st_Advance ops veh step s)) = 30
         \<and> m_erri (snd (st_Advance ops veh step s)) = m_erri (snd (st_Advance ops veh step (s\<lparr>st_Treset := step + 1\<rparr>)))"
  using st_Advance_Treset(1) [OF assms] by (simp add: st_Advance_erri_Treset)

theorem st_reset_keeps_integral_witness:
  "st_Treset (st_fresh\<lparr>m_erri := 1, st_Treset := 1 / 100\<rparr>) \<le> 1 / 100
   \<and> m_err (snd (st_Advance x_axis_tracker (heading_x_vehicle 0 0 1) (1 / 100)
                  (st_fresh\<lparr>m_erri := 1, st_Treset := 1 / 100\<rparr>))) = 0
   \<and> m_erri (snd (st_Advance x_axis_tracker (heading_x_vehicle 0 0 1) (1 / 100)
                  (st_fresh\<lparr>m_erri := 1, st_Treset := 1 / 100\<rparr>))) = 1"
proof -
  let ?s = "st_fresh\<lparr>m_erri := 1, st_Treset := 1 / 100\<rparr>"
  have "m_erri (snd (st_Advance x_axis_tracker (heading_x_vehicle 0 0 1) (1 / 100) (?s\<lparr>st_Treset := 1 / 100 + 1\<rparr>))) = 1"
    using lateral_error_on_axis [of 0 1 0]
    by (simp add: st_Advance_delta(2) sentinel_heading_x x_axis_tracker_def
        st_fresh_def ChPathSteeringControllerStanley_def ChSteeringController_def st_SetGains_def
        base_SetGains_def steer_base.defs st_ctl.defs)
  then show ?thesis
    using st_reset_keeps_integral [of ?s "1 / 100" x_axis_tracker "heading_x_vehicle 0 0 1"]
    by (simp add: st_fresh_def ChPathSteeringControllerStanley_def)
qed

text \<open>
  The dead-zone weight of the lateral error: zero up to the dead-zone width,
  one from twice the width on, between 0 and 1 everywhere, and one half in the
  middle of the transition (for width 0.05: 0 at 0.05, 1 at 0.10, 1/2 at 0.075).
\<close>

theorem st_deadzone_spec:
  assumes "0 < dz"
  shows "(\<bar>e\<bar> \<le> dz \<longrightarrow> st_deadzone_weight dz e = 0)
       \<and> (2 * dz \<le> \<bar>e\<bar> \<longrightarrow> st_deadzone_weight dz e = 1)
       \<and> 0 \<le> st_deadzone_weight dz e \<and> st_deadzone_weight dz e \<le> 1
       \<and> st_deadzone_weight dz (3 * dz / 2) = 1 / 2"
  using assms ChSineStep_bounds [of dz "2 * dz" 0 1 "\<bar>e\<bar>"] st_deadzone_weight_mid [OF assms]
  by (simp add: st_deadzone_weight_def ChSineStep_below ChSineStep_above)

theorem st_deadzone_spec_witness:
  "0 < (1 / 20 :: real) \<and> st_deadzone_weight (1 / 20) (1 / 20) = 0
   \<and> st_deadzone_weight (1 / 20) (1 / 10) = 1 \<and> st_deadzone_weight (1 / 20) (3 / 40) = 1 / 2"
  using st_deadzone_spec [of "1 / 20" "1 / 20"] st_deadzone_spec [of "1 / 20" "1 / 10"] by simp

text \<open>
  C11: on the straight path along X, with the vehicle parallel to it at offset
  \<open>y\<close> and no dead zone, the control law is \<open>atan(Kp (-y) / max(u, umin))\<close> plus
  the derivative term \<open>Kd (-u sin(\<dots>))\<close> plus the trapezoidal integral term; the
  heading error is zero.
\<close>

theorem st_straight_path_law:
  fixes s :: "unit st_ctl" and x y u h :: real
  assumes "0 < m_dist s" and "st_deadZone s = 0"
  shows "st_delta (snd (st_Advance x_axis_tracker (heading_x_vehicle x y u) h s)) =
           arctan (m_Kp s * (- y) / max \<bar>u\<bar> (st_umin s))
           + m_Kd s * (- \<bar>u\<bar> * sin (arctan (m_Kp s * (- y) / max \<bar>u\<bar> (st_umin s))))
           + m_Ki s * (m_erri s + (- y + m_err s) * h / 2)"
  using lateral_error_heading_x [OF assms(1), of x y u] assms(2)
  by (simp add: st_Advance_delta sentinel_heading_x x_axis_tracker_def st_deadzone_weight_def
      st_CalcHeadingError_self heading_x_vehicle_sel)

theorem st_straight_path_law_witness:
  "0 < m_dist ((st_SetGains 1 0 0 st_fresh)\<lparr>m_dist := 5\<rparr>) \<and> st_deadZone ((st_SetGains 1 0 0 st_fresh)\<lparr>m_dist := 5\<rparr>) = 0
   \<and> st_delta (snd (st_Advance x_axis_tracker (heading_x_vehicle 0 (- 1) 1) (1 / 100)
                 ((st_SetGains 1 0 0 st_fresh)\<lparr>m_dist := 5\<rparr>))) = pi / 4"
  using st_straight_path_law [of "(st_SetGains 1 0 0 st_fresh)\<lparr>m_dist := 5\<rparr>" 0 "- 1" 1 "1 / 100"]
  by (simp add: st_fresh_def st_SetGains_def ChPathSteeringControllerStanley_def ChSteeringController_def
      base_SetGains_def steer_base.defs st_ctl.defs arctan_one)

text \<open>
  C19: the countdown stays in \<open>(0, 30]\<close> under positive steps.
\<close>

theorem st_Treset_invariant:
  assumes "0 < st_Treset s" and "st_Treset s \<le> 30" and "0 < step"
  shows "0 < st_Treset (snd (st_Advance ops veh step s)) \<and> st_Treset (snd (st_Advance ops veh step s)) \<le> 30"
  using assms st_Advance_Treset [where s=s and step=step and ops=ops and veh=veh] by (cases "st_Treset s \<le> step") auto

theorem st_Treset_invariant_witness:
  "0 < st_Treset st_fresh \<and> st_Treset st_fresh \<le> 30 \<and> 0 < (1 / 100 :: real)
   \<and> st_Treset (snd (st_Advance x_axis_tracker (heading_x_vehicle 0 0 1) (1 / 100) st_fresh)) \<le> 30"
  using st_Treset_invariant [of st_fresh "1 / 100" x_axis_tracker "heading_x_vehicle 0 0 1"]
  by (simp add: st_fresh_def st_SetGains_def ChPathSteeringControllerStanley_def steer_base.defs st_ctl.defs)

text \<open>
  The heading error is the arcsine of the height of the cross product of
  two unit vectors, hence always defined and within \<open>[-pi/2, pi/2]\<close>.
\<close>

theorem st_heading_bounded: "\<bar>st_CalcHeadingError a b\<bar> \<le> pi / 2"
  unfolding st_CalcHeadingError_def Let_def by (rule arcsin_unit_cross_bounded) simp_all

end
