(* ===== verification/Track_Assembly.thy ===== *)
theory Track_Assembly
  imports Ch_Math
begin

text \<open>
  \<open>ChTrackAssembly\<close> (src/src/chrono_vehicle/tracked_vehicle/ChTrackAssembly.cpp):
  the base class of a tracked vehicle's track, owning a sprocket with its brake,
  an idler, road-wheel assemblies (suspensions), rollers, and the ring of track
  shoes. The subsystems are modelled as records of the data the assembly reads
  and writes (name, mass, output flag, visualisation type, design location and
  the location \<open>Initialize\<close> gives them); the virtual members of the derived
  classes (\<open>Assemble\<close>, \<open>GetTrackShoe\<close>, \<open>RemoveTrackShoes\<close>) are a parameter
  or a list operation on the shoe vector. A shoe carries its body state, its
  neighbour link set by \<open>Connect\<close>, and its force accumulator as the list of
  loads applied since it was last emptied.
\<close>

datatype VehicleSide = LEFT | RIGHT

datatype VisualizationType = VIS_NONE | VIS_PRIMITIVES | VIS_MESH

datatype ta_error = ShoeIndexOutOfRange | ShoeForcesOutOfRange | StatesSizeMismatch | SuspensionIndexOutOfRange | NonFiniteCOM

record part =
  p_name :: string
  p_mass :: real
  p_output :: bool
  p_vis :: VisualizationType
  p_offset :: vec3
  p_loc :: "vec3 option"
  p_com :: vec3

record body_state =
  bs_pos :: vec3
  bs_rot :: "real \<times> real \<times> real \<times> real"
  bs_lin_vel :: vec3
  bs_ang_vel :: vec3

datatype load = Force vec3 vec3 | Torque vec3

record shoe =
  sh_part :: part
  sh_pitch :: real
  sh_body :: body_state
  sh_next :: "nat option"
  sh_ccw :: bool
  sh_acc :: "load list"

record suspension =
  sus_part :: part
  sus_wheel :: part
  sus_force :: vec3

record terrain_force =
  tf_force :: vec3
  tf_point :: vec3
  tf_moment :: vec3

record track_assembly =
  ta_name :: string
  ta_side :: VehicleSide
  ta_idler_as_cylinder :: bool
  ta_roller_as_cylinder :: bool
  ta_roadwheel_as_cylinder :: bool
  ta_output :: bool
  ta_vis :: VisualizationType
  ta_mass :: real
  ta_rel_loc :: vec3
  ta_sprocket :: part
  ta_axle_torque :: real
  ta_brake :: part
  ta_braking :: real
  ta_idler :: part
  ta_suspensions :: "suspension list"
  ta_rollers :: "part list"
  ta_shoes :: "shoe list"
  ta_xform :: chframe
  ta_com :: chframe

text \<open>
  The constructor (lines 33-38) sets the name, the side and the three collision
  flags; the subsystems are those the derived class creates, and the \<open>ChPart\<close>
  members start with output off, no mass and no location.
\<close>

definition ChTrackAssembly ::
  "string \<Rightarrow> VehicleSide \<Rightarrow> part \<Rightarrow> part \<Rightarrow> part \<Rightarrow> suspension list \<Rightarrow> part list \<Rightarrow> shoe list \<Rightarrow> track_assembly" where
  "ChTrackAssembly name side spr brk idl susp rol shoes =
     \<lparr>ta_name = name, ta_side = side, ta_idler_as_cylinder = True, ta_roller_as_cylinder = True,
      ta_roadwheel_as_cylinder = True, ta_output = False, ta_vis = VIS_NONE, ta_mass = 0, ta_rel_loc = 0,
      ta_sprocket = spr, ta_axle_torque = 0, ta_brake = brk, ta_braking = 0, ta_idler = idl,
      ta_suspensions = susp, ta_rollers = rol, ta_shoes = shoes,
      ta_xform = ChFrame_identity, ta_com = ChFrame_identity\<rparr>"

definition GetNumTrackShoes :: "track_assembly \<Rightarrow> nat" where
  "GetNumTrackShoes ta = length (ta_shoes ta)"

text \<open>\<open>GetTrackShoe(id)\<close> of the derived classes indexes the shoe vector.\<close>

definition GetTrackShoe :: "track_assembly \<Rightarrow> nat \<Rightarrow> ta_error + shoe" where
  "GetTrackShoe ta i = (if i < length (ta_shoes ta) then Inr (ta_shoes ta ! i) else Inl ShoeIndexOutOfRange)"

text \<open>\<open>GetTrackShoeState(id)\<close> (lines 43-52) assembles the four body quantities.\<close>

definition GetTrackShoeState :: "track_assembly \<Rightarrow> nat \<Rightarrow> ta_error + body_state" where
  "GetTrackShoeState ta i =
     (case GetTrackShoe ta i of
        Inl e \<Rightarrow> Inl e
      | Inr sh \<Rightarrow> Inr \<lparr>bs_pos = bs_pos (sh_body sh), bs_rot = bs_rot (sh_body sh),
                       bs_lin_vel = bs_lin_vel (sh_body sh), bs_ang_vel = bs_ang_vel (sh_body sh)\<rparr>)"

text \<open>\<open>GetTrackShoeStates\<close> (lines 57-63): the assertion, then the indexed loop.\<close>

fun shoe_states_loop :: "track_assembly \<Rightarrow> nat list \<Rightarrow> body_state list \<Rightarrow> ta_error + body_state list" where
  "shoe_states_loop ta [] st = Inr st"
| "shoe_states_loop ta (i # is) st =
     (case GetTrackShoeState ta i of Inl e \<Rightarrow> Inl e | Inr b \<Rightarrow> shoe_states_loop ta is (st[i := b]))"

definition GetTrackShoeStates :: "track_assembly \<Rightarrow> body_state list \<Rightarrow> ta_error + body_state list" where
  "GetTrackShoeStates ta states =
     (if length states \<noteq> GetNumTrackShoes ta then Inl StatesSizeMismatch
      else shoe_states_loop ta [0..<GetNumTrackShoes ta] states)"

text \<open>
  \<open>Initialize\<close> (lines 68-106). Each subsystem is placed at the assembly's
  location plus its own design location; the brake is attached at the sprocket.
  Without shoes the shoe vector is cleared; otherwise the derived class's
  \<open>Assemble\<close> positions the shoes and reports the winding direction, and each
  shoe is connected to the next one, the last to the first.
\<close>

definition part_Initialize :: "vec3 \<Rightarrow> part \<Rightarrow> part" where
  "part_Initialize location p = p\<lparr>p_loc := Some (location + p_offset p)\<rparr>"

definition shoe_Connect :: "nat \<Rightarrow> bool \<Rightarrow> shoe \<Rightarrow> shoe" where
  "shoe_Connect next ccw sh = sh\<lparr>sh_next := Some next, sh_ccw := ccw\<rparr>"

definition connect_shoes :: "bool \<Rightarrow> shoe list \<Rightarrow> shoe list" where
  "connect_shoes ccw shoes =
     (let n = length shoes
      in foldl (\<lambda>S i. S[i := shoe_Connect (if i = n - 1 then 0 else i + 1) ccw (S ! i)]) shoes [0..<n])"

definition ta_Initialize ::
  "(shoe list \<Rightarrow> bool \<times> shoe list) \<Rightarrow> vec3 \<Rightarrow> bool \<Rightarrow> track_assembly \<Rightarrow> track_assembly" where
  "ta_Initialize Assemble location create_shoes ta =
     (let spr = part_Initialize location (ta_sprocket ta);
          ta1 = ta\<lparr>ta_rel_loc := location,
                   ta_sprocket := spr,
                   ta_idler := part_Initialize location (ta_idler ta),
                   ta_brake := (ta_brake ta)\<lparr>p_loc := p_loc spr\<rparr>,
                   ta_suspensions := map (\<lambda>s. s\<lparr>sus_part := part_Initialize location (sus_part s)\<rparr>)
                                         (ta_suspensions ta),
                   ta_rollers := map (part_Initialize location) (ta_rollers ta)\<rparr>
      in if \<not> create_shoes then ta1\<lparr>ta_shoes := []\<rparr>
         else (let (ccw, shoes) = Assemble (ta_shoes ta1)
               in ta1\<lparr>ta_shoes := connect_shoes ccw shoes\<rparr>))"

text \<open>
  \<open>InitializeInertiaProperties\<close> (lines 110-125) and \<open>UpdateInertiaProperties\<close>
  (lines 127-151) visit the subsystems in the same order: sprocket, idler, each
  road-wheel assembly (which adds itself, then its road wheel), each roller, each
  shoe by index. \<open>ta_fold_parts add b ta\<close> is that traversal, with \<open>add\<close> the
  subsystem's accumulating call; \<open>ta_parts\<close> lists the subsystems in that order.
\<close>

definition ta_fold_parts :: "(part \<Rightarrow> 'b \<Rightarrow> 'b) \<Rightarrow> 'b \<Rightarrow> track_assembly \<Rightarrow> 'b" where
  "ta_fold_parts add b0 ta =
     (let b1 = add (ta_idler ta) (add (ta_sprocket ta) b0);
          b2 = foldl (\<lambda>b s. add (sus_wheel s) (add (sus_part s) b)) b1 (ta_suspensions ta);
          b3 = foldl (\<lambda>b r. add r b) b2 (ta_rollers ta)
      in foldl (\<lambda>b i. add (sh_part (ta_shoes ta ! i)) b) b3 [0..<GetNumTrackShoes ta])"

definition ta_parts :: "track_assembly \<Rightarrow> part list" where
  "ta_parts ta =
     [ta_sprocket ta, ta_idler ta] @ concat (map (\<lambda>s. [sus_part s, sus_wheel s]) (ta_suspensions ta))
     @ ta_rollers ta @ map sh_part (ta_shoes ta)"

definition part_AddMass :: "part \<Rightarrow> real \<Rightarrow> real" where
  "part_AddMass p m = m + p_mass p"

definition ta_InitializeInertiaProperties :: "track_assembly \<Rightarrow> track_assembly" where
  "ta_InitializeInertiaProperties ta = ta\<lparr>ta_mass := ta_fold_parts part_AddMass 0 ta\<rparr>"

text \<open>
  \<open>ReportTrackLength\<close> (lines 158-162): the pitch of the first shoe times the
  number of shoes. The shoe pointers of the derived classes are never null, so
  the test on \<open>GetTrackShoe(0)\<close> only fails by indexing an empty vector.
\<close>

definition ReportTrackLength :: "track_assembly \<Rightarrow> ta_error + real" where
  "ReportTrackLength ta =
     (case GetTrackShoe ta 0 of Inl e \<Rightarrow> Inl e | Inr sh \<Rightarrow> Inr (sh_pitch sh * GetNumTrackShoes ta))"

text \<open>The visualisation and collision setters (lines 165-206).\<close>

definition set_vis :: "VisualizationType \<Rightarrow> part \<Rightarrow> part" where
  "set_vis v p = p\<lparr>p_vis := v\<rparr>"

definition SetSprocketVisualizationType :: "VisualizationType \<Rightarrow> track_assembly \<Rightarrow> track_assembly" where
  "SetSprocketVisualizationType v ta = ta\<lparr>ta_sprocket := set_vis v (ta_sprocket ta)\<rparr>"

definition SetIdlerVisualizationType :: "VisualizationType \<Rightarrow> track_assembly \<Rightarrow> track_assembly" where
  "SetIdlerVisualizationType v ta = ta\<lparr>ta_idler := set_vis v (ta_idler ta)\<rparr>"

definition SetRoadWheelAssemblyVisualizationType :: "VisualizationType \<Rightarrow> track_assembly \<Rightarrow> track_assembly" where
  "SetRoadWheelAssemblyVisualizationType v ta =
     ta\<lparr>ta_suspensions := map (\<lambda>s. s\<lparr>sus_part := set_vis v (sus_part s)\<rparr>) (ta_suspensions ta)\<rparr>"

definition SetRoadWheelVisualizationType :: "VisualizationType \<Rightarrow> track_assembly \<Rightarrow> track_assembly" where
  "SetRoadWheelVisualizationType v ta =
     ta\<lparr>ta_suspensions := map (\<lambda>s. s\<lparr>sus_wheel := set_vis v (sus_wheel s)\<rparr>) (ta_suspensions ta)\<rparr>"

definition SetRollerVisualizationType :: "VisualizationType \<Rightarrow> track_assembly \<Rightarrow> track_assembly" where
  "SetRollerVisualizationType v ta = ta\<lparr>ta_rollers := map (set_vis v) (ta_rollers ta)\<rparr>"

definition SetTrackShoeVisualizationType :: "VisualizationType \<Rightarrow> track_assembly \<Rightarrow> track_assembly" where
  "SetTrackShoeVisualizationType v ta =
     ta\<lparr>ta_vis := v, ta_shoes := map (\<lambda>sh. sh\<lparr>sh_part := set_vis v (sh_part sh)\<rparr>) (ta_shoes ta)\<rparr>"

definition SetWheelCollisionType :: "bool \<Rightarrow> bool \<Rightarrow> bool \<Rightarrow> track_assembly \<Rightarrow> track_assembly" where
  "SetWheelCollisionType roadwheel_as_cylinder idler_as_cylinder roller_as_cylinder ta =
     ta\<lparr>ta_roadwheel_as_cylinder := roadwheel_as_cylinder, ta_idler_as_cylinder := idler_as_cylinder,
        ta_roller_as_cylinder := roller_as_cylinder\<rparr>"

text \<open>
  \<open>Synchronize\<close> (lines 211-224): the sprocket axle torque is zeroed; each shoe's
  force accumulator is emptied, then receives the terrain force at its point and
  the terrain moment; the brake receives the braking input. The terrain force
  vector is indexed by shoe, so a shorter vector is read out of range.
\<close>

definition shoe_apply_force :: "terrain_force \<Rightarrow> shoe \<Rightarrow> shoe" where
  "shoe_apply_force f sh =
     (let sh1 = sh\<lparr>sh_acc := []\<rparr>;
          sh2 = sh1\<lparr>sh_acc := sh_acc sh1 @ [Force (tf_force f) (tf_point f)]\<rparr>
      in sh2\<lparr>sh_acc := sh_acc sh2 @ [Torque (tf_moment f)]\<rparr>)"

definition ta_Synchronize ::
  "real \<Rightarrow> real \<Rightarrow> terrain_force list \<Rightarrow> track_assembly \<Rightarrow> ta_error + track_assembly" where
  "ta_Synchronize time braking shoe_forces ta =
     (if length shoe_forces < GetNumTrackShoes ta then Inl ShoeForcesOutOfRange
      else (let ta1 = ta\<lparr>ta_axle_torque := 0\<rparr>;
                S = foldl (\<lambda>S i. S[i := shoe_apply_force (shoe_forces ! i) (S ! i)])
                          (ta_shoes ta1) [0..<GetNumTrackShoes ta1]
            in Inr (ta1\<lparr>ta_shoes := S, ta_braking := braking\<rparr>)))"

text \<open>
  \<open>SetOutput\<close> (lines 228-239): the flag goes to the assembly, the sprocket, the
  brake, the idler, every suspension (which passes it to its road wheel), every
  roller, and the first shoe only.
\<close>

definition set_output :: "bool \<Rightarrow> part \<Rightarrow> part" where
  "set_output b p = p\<lparr>p_output := b\<rparr>"

definition sus_SetOutput :: "bool \<Rightarrow> suspension \<Rightarrow> suspension" where
  "sus_SetOutput b s = s\<lparr>sus_part := set_output b (sus_part s), sus_wheel := set_output b (sus_wheel s)\<rparr>"

definition ta_SetOutput :: "bool \<Rightarrow> track_assembly \<Rightarrow> track_assembly" where
  "ta_SetOutput b ta =
     (let S = ta_shoes ta
      in ta\<lparr>ta_output := b, ta_sprocket := set_output b (ta_sprocket ta),
            ta_brake := set_output b (ta_brake ta), ta_idler := set_output b (ta_idler ta),
            ta_suspensions := map (sus_SetOutput b) (ta_suspensions ta),
            ta_rollers := map (set_output b) (ta_rollers ta),
            ta_shoes := (if 0 < length S then S[0 := (S ! 0)\<lparr>sh_part := set_output b (sh_part (S ! 0))\<rparr>] else S)\<rparr>)"

text \<open>
  \<open>ExportComponentList\<close> (lines 243-293): the JSON document, as the list of its
  members in insertion order; a subsystem exports its name.
\<close>

datatype json = JInt int | JStr string | JArr "json list" | JObj "(string \<times> json) list"

definition part_Export :: "part \<Rightarrow> json" where
  "part_Export p = JObj [(''name'', JStr (p_name p))]"

definition ta_ExportComponentList :: "track_assembly \<Rightarrow> (string \<times> json) list" where
  "ta_ExportComponentList ta =
     [(''name'', JStr (ta_name ta)),
      (''number shoes'', JInt (int (GetNumTrackShoes ta))),
      (''sprocket'', part_Export (ta_sprocket ta)),
      (''brake'', part_Export (ta_brake ta)),
      (''idler'', part_Export (ta_idler ta)),
      (''suspensions'', JArr (map (\<lambda>s. part_Export (sus_part s)) (ta_suspensions ta))),
      (''rollers'', JArr (map part_Export (ta_rollers ta)))]
     @ (if 0 < GetNumTrackShoes ta then [(''shoe 0'', part_Export (sh_part (ta_shoes ta ! 0)))] else [])"

text \<open>
  \<open>Output\<close> (lines 297-326): nothing unless output is on; then, for each
  subsystem in order, a section header with its name followed by its own
  output, a suspension followed by its road wheel, and the first shoe only.
\<close>

datatype db_row = WriteSection string | PartOutput part

definition part_Output :: "part \<Rightarrow> db_row list" where
  "part_Output p = [WriteSection (p_name p), PartOutput p]"

definition ta_Output :: "track_assembly \<Rightarrow> db_row list \<Rightarrow> db_row list" where
  "ta_Output ta db =
     (if \<not> ta_output ta then db
      else db @ part_Output (ta_sprocket ta) @ part_Output (ta_brake ta) @ part_Output (ta_idler ta)
              @ concat (map (\<lambda>s. part_Output (sus_part s) @ part_Output (sus_wheel s)) (ta_suspensions ta))
              @ concat (map part_Output (ta_rollers ta))
              @ (if 0 < GetNumTrackShoes ta then part_Output (sh_part (ta_shoes ta ! 0)) else []))"

text \<open>Following the neighbour links of the shoes from shoe \<open>i\<close>, \<open>k\<close> times.\<close>

fun shoe_follow :: "shoe list \<Rightarrow> nat \<Rightarrow> nat \<Rightarrow> nat option" where
  "shoe_follow S 0 i = Some i"
| "shoe_follow S (Suc k) i =
     (if i < length S then (case sh_next (S ! i) of None \<Rightarrow> None | Some j \<Rightarrow> shoe_follow S k j) else None)"


section \<open>Fixtures\<close>

text \<open>A track with a sprocket, a brake, an idler, one road-wheel assembly, one roller and three shoes.\<close>

definition mk_part :: "string \<Rightarrow> real \<Rightarrow> part" where
  "mk_part name m = \<lparr>p_name = name, p_mass = m, p_output = False, p_vis = VIS_NONE, p_offset = 0, p_loc = None, p_com = 0\<rparr>"

definition mk_shoe :: "real \<Rightarrow> shoe" where
  "mk_shoe m = \<lparr>sh_part = mk_part ''shoe'' m, sh_pitch = 1 / 5,
      sh_body = \<lparr>bs_pos = 0, bs_rot = (1, 0, 0, 0), bs_lin_vel = 0, bs_ang_vel = 0\<rparr>,
      sh_next = None, sh_ccw = False, sh_acc = []\<rparr>"

definition demo_track :: track_assembly where
  "demo_track = ChTrackAssembly ''track'' LEFT (mk_part ''sprocket'' 30) (mk_part ''brake'' 0) (mk_part ''idler'' 20)
     [\<lparr>sus_part = mk_part ''susp'' 10, sus_wheel = mk_part ''wheel'' 5, sus_force = 0\<rparr>] [mk_part ''roller'' 2]
     [mk_shoe 1, mk_shoe 1, mk_shoe 1]"

definition demo_forces :: "terrain_force list" where
  "demo_forces = replicate 3 \<lparr>tf_force = ChVector 0 0 1, tf_point = 0, tf_moment = 0\<rparr>"

section \<open>Lemmas\<close>

lemma connect_shoes_length [simp]: "length (connect_shoes ccw S) = length S"
  unfolding connect_shoes_def Let_def
  by (rule foldl_update_all(1) [where g = "\<lambda>i. shoe_Connect (if i = length S - 1 then 0 else i + 1) ccw"])

lemma connect_shoes_nth:
  assumes "i < length S"
  shows "connect_shoes ccw S ! i = shoe_Connect (Suc i mod length S) ccw (S ! i)"
proof -
  have "connect_shoes ccw S ! i = shoe_Connect (if i = length S - 1 then 0 else i + 1) ccw (S ! i)"
    unfolding connect_shoes_def Let_def
    by (rule foldl_update_all(2) [OF assms, where g = "\<lambda>i. shoe_Connect (if i = length S - 1 then 0 else i + 1) ccw"])
  moreover have "(if i = length S - 1 then 0 else i + 1) = Suc i mod length S"
    using assms by (auto simp: mod_Suc)
  ultimately show ?thesis by simp
qed

lemma ta_Initialize_shoes:
  "Assemble (ta_shoes ta) = (ccw, S) \<Longrightarrow> ta_shoes (ta_Initialize Assemble location True ta) = connect_shoes ccw S"
  by (simp add: ta_Initialize_def Let_def)

lemma shoe_follow_ring:
  assumes "\<forall>i < length S. sh_next (S ! i) = Some (Suc i mod length S)" and "i < length S"
  shows "shoe_follow S k i = Some ((i + k) mod length S)"
  using assms(2)
proof (induction k arbitrary: i)
  case 0
  then show ?case by simp
next
  case (Suc k)
  have "0 < length S" using Suc.prems by (cases S) auto
  then have "Suc i mod length S < length S" by simp
  then have "shoe_follow S k (Suc i mod length S) = Some ((Suc i mod length S + k) mod length S)"
    by (rule Suc.IH)
  moreover have "S \<noteq> []" using Suc.prems by auto
  ultimately show ?case
    using assms(1) Suc.prems by (simp add: mod_add_left_eq)
qed

lemma connect_shoes_ring:
  "\<forall>i < length (connect_shoes ccw S). sh_next (connect_shoes ccw S ! i) = Some (Suc i mod length (connect_shoes ccw S))"
proof (intro allI impI)
  fix i
  assume "i < length (connect_shoes ccw S)"
  then have i: "i < length S" by simp
  show "sh_next (connect_shoes ccw S ! i) = Some (Suc i mod length (connect_shoes ccw S))"
    using connect_shoes_nth [OF i, of ccw] by (simp add: shoe_Connect_def)
qed

lemma mod_ring_reaches:
  fixes n i j :: nat
  assumes "i < n" and "j < n"
  shows "(i + (j + n - i) mod n) mod n = j"
proof -
  have "(i + (j + n - i) mod n) mod n = (i + (j + n - i)) mod n" by (simp add: mod_add_right_eq)
  also have "i + (j + n - i) = j + n" using assms by simp
  finally show ?thesis using assms by simp
qed

lemma mod_ring_period:
  fixes n i k :: nat
  assumes "i < n" and "0 < k" and "k < n"
  shows "(i + k) mod n \<noteq> i"
  using assms by (cases "i + k < n") (simp_all add: mod_if, arith)

lemma ta_fold_parts_sum:
  fixes f :: "part \<Rightarrow> 'b::comm_monoid_add"
  shows "ta_fold_parts (\<lambda>p b. b + f p) b0 ta = b0 + sum_list (map f (ta_parts ta))"
proof -
  have shoes: "map (\<lambda>i. f (sh_part (ta_shoes ta ! i))) [0..<length (ta_shoes ta)] = map (\<lambda>sh. f (sh_part sh)) (ta_shoes ta)"
    by (rule nth_equalityI) simp_all
  have sus: "(\<lambda>b s. b + f (sus_part s) + f (sus_wheel s)) = (\<lambda>b s. b + (f (sus_part s) + f (sus_wheel s)))"
    by (simp add: fun_eq_iff add.assoc)
  show ?thesis
    by (simp add: ta_fold_parts_def ta_parts_def Let_def GetNumTrackShoes_def foldl_add_sum sus shoes
        sum_list_map_concat comp_def add.assoc)
qed

lemma ta_mass_parts: "ta_mass (ta_InitializeInertiaProperties ta) = sum_list (map p_mass (ta_parts ta))"
proof -
  have eq: "part_AddMass = (\<lambda>p b. b + p_mass p)" by (simp add: fun_eq_iff part_AddMass_def)
  show ?thesis unfolding ta_InitializeInertiaProperties_def eq by (simp add: ta_fold_parts_sum)
qed

lemma ta_Synchronize_Inr:
  "GetNumTrackShoes ta \<le> length F \<Longrightarrow>
   ta_Synchronize time b F ta = Inr (ta\<lparr>ta_axle_torque := 0,
      ta_shoes := foldl (\<lambda>S i. S[i := shoe_apply_force (F ! i) (S ! i)]) (ta_shoes ta) [0..<length (ta_shoes ta)],
      ta_braking := b\<rparr>)"
  by (simp add: ta_Synchronize_def GetNumTrackShoes_def Let_def)

lemma shoe_apply_force_acc:
  "sh_acc (shoe_apply_force f sh) = [Force (tf_force f) (tf_point f), Torque (tf_moment f)]"
  "shoe_apply_force f (shoe_apply_force f' sh) = shoe_apply_force f sh"
  by (simp_all add: shoe_apply_force_def Let_def)

lemma ta_SetOutput_parts:
  "ta_output (ta_SetOutput b ta) = b"
  "ta_sprocket (ta_SetOutput b ta) = set_output b (ta_sprocket ta)"
  "ta_brake (ta_SetOutput b ta) = set_output b (ta_brake ta)"
  "ta_idler (ta_SetOutput b ta) = set_output b (ta_idler ta)"
  "ta_suspensions (ta_SetOutput b ta) = map (sus_SetOutput b) (ta_suspensions ta)"
  "ta_rollers (ta_SetOutput b ta) = map (set_output b) (ta_rollers ta)"
  "length (ta_shoes (ta_SetOutput b ta)) = length (ta_shoes ta)"
  "0 < length (ta_shoes ta) \<Longrightarrow> sh_part (ta_shoes (ta_SetOutput b ta) ! 0) = set_output b (sh_part (ta_shoes ta ! 0))"
  by (simp_all add: ta_SetOutput_def Let_def)

lemma PartOutput_in_part_Output: "PartOutput p \<in> set (part_Output q) \<longleftrightarrow> p = q"
  by (auto simp: part_Output_def)

lemma ta_Output_length:
  "ta_output ta \<Longrightarrow> length (ta_Output ta db) =
     length db + 6 + 4 * length (ta_suspensions ta) + 2 * length (ta_rollers ta) + (if 0 < GetNumTrackShoes ta then 2 else 0)"
  by (simp add: ta_Output_def part_Output_def length_concat comp_def sum_list_triv)

lemma GetTrackShoeState_in_range:
  "i < length (ta_shoes ta) \<Longrightarrow> GetTrackShoeState ta i = Inr (sh_body (ta_shoes ta ! i))"
  by (simp add: GetTrackShoeState_def GetTrackShoe_def)

lemma shoe_states_loop_in_range:
  "\<forall>i \<in> set is. i < length (ta_shoes ta) \<Longrightarrow>
   shoe_states_loop ta is st = Inr (foldl (\<lambda>st i. st[i := sh_body (ta_shoes ta ! i)]) st is)"
  by (induction "is" arbitrary: st) (simp_all add: GetTrackShoeState_in_range)

section \<open>Properties\<close>

text \<open>
  C20: after \<open>Initialize\<close> with shoes, the neighbour links make the shoes one
  ring: from any shoe, following the links reaches every shoe within \<open>n\<close> steps,
  comes back after exactly \<open>n\<close> steps and not before, and every shoe records the
  winding direction \<open>Assemble\<close> reported.
\<close>

theorem ta_Initialize_shoe_ring:
  assumes "Assemble (ta_shoes ta) = (ccw, S)" and "i < length S" and "j < length S"
  shows "(\<exists>k < length S. shoe_follow (ta_shoes (ta_Initialize Assemble location True ta)) k i = Some j)
       \<and> shoe_follow (ta_shoes (ta_Initialize Assemble location True ta)) (length S) i = Some i
       \<and> (\<forall>k. 0 < k \<and> k < length S \<longrightarrow> shoe_follow (ta_shoes (ta_Initialize Assemble location True ta)) k i \<noteq> Some i)
       \<and> sh_ccw (ta_shoes (ta_Initialize Assemble location True ta) ! i) = ccw"
proof -
  let ?S = "connect_shoes ccw S"
  have f: "shoe_follow ?S k i = Some ((i + k) mod length S)" for k
    using shoe_follow_ring [OF connect_shoes_ring, of i ccw S k] assms(2) by simp
  have n: "0 < length S" using assms(2) by (cases S) auto
  then have "(j + length S - i) mod length S < length S" by simp
  moreover have "shoe_follow ?S ((j + length S - i) mod length S) i = Some j"
    unfolding f by (simp only: mod_ring_reaches [OF assms(2,3)])
  ultimately have "\<exists>k < length S. shoe_follow ?S k i = Some j" by blast
  moreover have "\<forall>k. 0 < k \<and> k < length S \<longrightarrow> shoe_follow ?S k i \<noteq> Some i"
    using f mod_ring_period [OF assms(2)] by simp
  moreover have "S \<noteq> []" using assms(2) by auto
  ultimately show ?thesis
    using f [of "length S"] assms by (simp add: ta_Initialize_shoes connect_shoes_nth shoe_Connect_def)
qed

theorem ta_Initialize_shoe_ring_witness:
  "shoe_follow (ta_shoes (ta_Initialize (\<lambda>S. (True, S)) 0 True demo_track)) 3 2 = Some 2
   \<and> sh_ccw (ta_shoes (ta_Initialize (\<lambda>S. (True, S)) 0 True demo_track) ! 2)"
  using ta_Initialize_shoe_ring [of "\<lambda>S. (True, S)" demo_track True "ta_shoes demo_track" 2 0 0]
  by (simp add: demo_track_def ChTrackAssembly_def numeral_3_eq_3 del: shoe_follow.simps)

text \<open>
  C21: \<open>Synchronize\<close> empties each shoe's force accumulator before applying the
  terrain load, so no load carries over between steps: after a successful call
  each shoe holds exactly its terrain force and moment, and a further call gives
  the same result as on the assembly before the first.
\<close>

theorem ta_Synchronize_no_carry_over:
  assumes "ta_Synchronize time b F ta = Inr ta'"
  shows "ta_Synchronize time2 b2 F2 ta' = ta_Synchronize time2 b2 F2 ta
       \<and> (\<forall>i < GetNumTrackShoes ta'. sh_acc (ta_shoes ta' ! i) = [Force (tf_force (F ! i)) (tf_point (F ! i)), Torque (tf_moment (F ! i))])"
proof -
  have le: "GetNumTrackShoes ta \<le> length F"
    using assms by (auto simp: ta_Synchronize_def split: if_splits)
  let ?g = "\<lambda>F i. shoe_apply_force (F ! i)"
  have ta': "ta' = ta\<lparr>ta_axle_torque := 0,
      ta_shoes := foldl (\<lambda>S i. S[i := ?g F i (S ! i)]) (ta_shoes ta) [0..<length (ta_shoes ta)], ta_braking := b\<rparr>"
    using assms ta_Synchronize_Inr [OF le, of time b] by simp
  have len: "length (ta_shoes ta') = length (ta_shoes ta)"
    unfolding ta' by (simp add: foldl_update_all(1) [where g = "?g F"])
  have nth: "ta_shoes ta' ! i = shoe_apply_force (F ! i) (ta_shoes ta ! i)" if "i < length (ta_shoes ta)" for i
    unfolding ta' using foldl_update_all(2) [OF that, where g = "?g F"] by simp
  let ?L = "\<lambda>S. foldl (\<lambda>S i. S[i := ?g F2 i (S ! i)]) S [0..<length S]"
  have "?L (ta_shoes ta') = ?L (ta_shoes ta)"
  proof (rule nth_equalityI)
    have l1: "length (?L (ta_shoes ta')) = length (ta_shoes ta)"
      using foldl_update_all(1) [where g = "?g F2" and S = "ta_shoes ta'"] len by simp
    have l2: "length (?L (ta_shoes ta)) = length (ta_shoes ta)"
      by (rule foldl_update_all(1) [where g = "?g F2"])
    show "length (?L (ta_shoes ta')) = length (?L (ta_shoes ta))" using l1 l2 by simp
    fix i
    assume "i < length (?L (ta_shoes ta'))"
    then have i: "i < length (ta_shoes ta)" using l1 by simp
    then have i': "i < length (ta_shoes ta')" using len by simp
    show "?L (ta_shoes ta') ! i = ?L (ta_shoes ta) ! i"
      using foldl_update_all(2) [OF i', where g = "?g F2"] foldl_update_all(2) [OF i, where g = "?g F2"] nth [OF i]
      by (simp add: shoe_apply_force_acc(2))
  qed
  then have L: "foldl (\<lambda>S i. S[i := ?g F2 i (S ! i)]) (ta_shoes ta') [0..<length (ta_shoes ta)] = ?L (ta_shoes ta)"
    by (simp only: len)
  have "ta_Synchronize time2 b2 F2 ta' = ta_Synchronize time2 b2 F2 ta"
  proof (cases "length F2 < length (ta_shoes ta)")
    case True
    then show ?thesis by (simp add: ta_Synchronize_def GetNumTrackShoes_def len)
  next
    case False
    then show ?thesis
      by (simp add: ta_Synchronize_def GetNumTrackShoes_def Let_def len L) (simp add: ta')
  qed
  moreover have "\<forall>i < GetNumTrackShoes ta'. sh_acc (ta_shoes ta' ! i) = [Force (tf_force (F ! i)) (tf_point (F ! i)), Torque (tf_moment (F ! i))]"
    by (simp add: GetNumTrackShoes_def len nth shoe_apply_force_acc(1))
  ultimately show ?thesis by blast
qed

theorem ta_Synchronize_no_carry_over_witness:
  "ta_Synchronize 0 0 demo_forces demo_track = Inr (projr (ta_Synchronize 0 0 demo_forces demo_track))
   \<and> ta_Synchronize 1 1 [] (projr (ta_Synchronize 0 0 demo_forces demo_track)) = ta_Synchronize 1 1 [] demo_track"
proof -
  have "ta_Synchronize 0 0 demo_forces demo_track = Inr (projr (ta_Synchronize 0 0 demo_forces demo_track))"
    by (simp add: ta_Synchronize_def demo_forces_def demo_track_def ChTrackAssembly_def GetNumTrackShoes_def)
  then show ?thesis
    using ta_Synchronize_no_carry_over [of 0 0 demo_forces demo_track "projr (ta_Synchronize 0 0 demo_forces demo_track)" 1 1 "[]"]
    by simp
qed

text \<open>
  C24: \<open>SetOutput\<close> and \<open>Output\<close> agree: after \<open>SetOutput(true)\<close> every
  subsystem \<open>Output\<close> writes has its output flag on (the road wheels through
  their suspensions, and only the first shoe, which is the only one written);
  after \<open>SetOutput(false)\<close> nothing is written.
\<close>

theorem ta_Output_after_SetOutput:
  "(PartOutput p \<in> set (ta_Output (ta_SetOutput True ta) db) \<longrightarrow> PartOutput p \<in> set db \<or> p_output p)
   \<and> ta_Output (ta_SetOutput False ta) db = db"
  by (auto simp: ta_Output_def ta_SetOutput_parts GetNumTrackShoes_def PartOutput_in_part_Output
      set_output_def sus_SetOutput_def)

theorem ta_Output_after_SetOutput_witness:
  "PartOutput (set_output True (mk_part ''idler'' 20)) \<in> set (ta_Output (ta_SetOutput True demo_track) [])
   \<and> p_output (set_output True (mk_part ''idler'' 20)) \<and> ta_Output (ta_SetOutput False demo_track) [] = []"
proof -
  have "PartOutput (set_output True (mk_part ''idler'' 20)) \<in> set (ta_Output (ta_SetOutput True demo_track) [])"
    by (simp add: ta_Output_def ta_SetOutput_parts part_Output_def demo_track_def ChTrackAssembly_def)
  then show ?thesis
    using ta_Output_after_SetOutput [of "set_output True (mk_part ''idler'' 20)" demo_track "[]"]
    by (simp add: set_output_def)
qed

text \<open>
  \<open>InitializeInertiaProperties\<close> sets the assembly mass to the sum of
  the masses of the sprocket, the idler, the road-wheel assemblies with their
  wheels, the rollers and the shoes (the brake has no body and adds nothing).
\<close>

theorem ta_mass_is_sum:
  "ta_mass (ta_InitializeInertiaProperties ta) =
     p_mass (ta_sprocket ta) + p_mass (ta_idler ta)
     + (\<Sum>s\<leftarrow>ta_suspensions ta. p_mass (sus_part s) + p_mass (sus_wheel s))
     + (\<Sum>r\<leftarrow>ta_rollers ta. p_mass r)
     + (\<Sum>sh\<leftarrow>ta_shoes ta. p_mass (sh_part sh))"
  by (simp add: ta_mass_parts ta_parts_def sum_list_map_concat comp_def add.assoc)

text \<open>
  C25: \<open>GetTrackShoeStates\<close> fills a vector of the right size with the body
  states of the shoes in order, and refuses one of another size (the
  \<open>assert\<close>).
\<close>

theorem ta_GetTrackShoeStates_map:
  "GetTrackShoeStates ta states =
     (if length states = GetNumTrackShoes ta then Inr (map sh_body (ta_shoes ta)) else Inl StatesSizeMismatch)"
proof (cases "length states = GetNumTrackShoes ta")
  case True
  let ?F = "foldl (\<lambda>st i. st[i := sh_body (ta_shoes ta ! i)]) states [0..<length states]"
  have len: "length states = length (ta_shoes ta)" using True by (simp add: GetNumTrackShoes_def)
  have "?F = map sh_body (ta_shoes ta)"
  proof (rule nth_equalityI)
    show "length ?F = length (map sh_body (ta_shoes ta))"
      using foldl_update_all(1) [where g = "\<lambda>i x. sh_body (ta_shoes ta ! i)" and S = states] len by simp
    fix i assume "i < length ?F"
    then have "i < length states"
      using foldl_update_all(1) [where g = "\<lambda>i x. sh_body (ta_shoes ta ! i)" and S = states] by simp
    then show "?F ! i = map sh_body (ta_shoes ta) ! i"
      using foldl_update_all(2) [where g = "\<lambda>i x. sh_body (ta_shoes ta ! i)" and S = states] len by simp
  qed
  then show ?thesis
    using True len by (simp add: GetTrackShoeStates_def shoe_states_loop_in_range GetNumTrackShoes_def)
next
  case False
  then show ?thesis by (simp add: GetTrackShoeStates_def)
qed

text \<open>
  C26: after \<open>Initialize\<close> without shoes, \<open>ReportTrackLength\<close> indexes the
  empty shoe vector: the null test on \<open>GetTrackShoe(0)\<close> does not guard it. With
  shoes, the track length is the first shoe's pitch times the number of shoes.
\<close>

theorem ta_track_length:
  "ReportTrackLength (ta_Initialize Assemble location False ta) = Inl ShoeIndexOutOfRange
   \<and> (ta_shoes ta \<noteq> [] \<longrightarrow> ReportTrackLength ta = Inr (sh_pitch (hd (ta_shoes ta)) * length (ta_shoes ta)))"
  by (auto simp: ReportTrackLength_def GetTrackShoe_def GetNumTrackShoes_def ta_Initialize_def Let_def hd_conv_nth)

theorem ta_track_length_witness:
  "ReportTrackLength (ta_Initialize (\<lambda>S. (True, S)) 0 False demo_track) = Inl ShoeIndexOutOfRange
   \<and> ta_shoes demo_track \<noteq> [] \<and> ReportTrackLength demo_track = Inr (3 / 5)"
proof -
  have "ta_shoes demo_track \<noteq> []" by (simp add: demo_track_def ChTrackAssembly_def)
  then show ?thesis
    using ta_track_length [of "\<lambda>S. (True, S)" 0 demo_track]
    by (simp add: demo_track_def ChTrackAssembly_def mk_shoe_def)
qed

end
