(* ===== verification/Track_Operations.thy ===== *)
theory Track_Operations
  imports Track_Assembly
begin

text \<open>
  The rest of \<open>ChTrackAssembly\<close>
  (src/src/chrono_vehicle/tracked_vehicle/ChTrackAssembly.cpp):
  \<open>UpdateInertiaProperties\<close>, which places the assembly's frame on its parent
  and computes its centre of mass from the subsystems; \<open>ReportSuspensionForce\<close>;
  \<open>LogConstraintViolations\<close>; and the operations a vehicle calls on an
  initialized assembly, as a datatype with a step function, so that sequences of
  calls can be reasoned about. Every step returns \<open>ta_error + track_assembly\<close>.
\<close>

section \<open>UpdateInertiaProperties\<close>

text \<open>
  \<open>UpdateInertiaProperties\<close> (lines 127-151). The frame \<open>m_xform\<close> is the
  parent's frame moved to the assembly's location \<open>m_rel_loc\<close> with the parent's
  rotation; each subsystem adds its mass times its centre of mass (absolute) to
  \<open>com\<close>, in the order of \<open>InitializeInertiaProperties\<close>; the centre of mass
  frame has the rotation of \<open>m_xform\<close> and the origin \<open>com / GetMass()\<close>,
  expressed in \<open>m_xform\<close>. The code divides by the mass without a test: with a
  zero mass (before \<open>InitializeInertiaProperties\<close>, or with massless
  subsystems) the division gives non-finite coordinates, which the model
  returns as the error \<open>NonFiniteCOM\<close>. The inertia matrix is not modelled.
\<close>

definition part_AddInertiaProperties :: "part \<Rightarrow> vec3 \<Rightarrow> vec3" where
  "part_AddInertiaProperties p com = com + vscale (p_mass p) (p_com p)"

definition ta_UpdateInertiaProperties :: "chframe \<Rightarrow> track_assembly \<Rightarrow> ta_error + track_assembly" where
  "ta_UpdateInertiaProperties parent ta =
     (let xform = frame_child_at parent (ta_rel_loc ta);
          com = ta_fold_parts part_AddInertiaProperties 0 ta
      in if ta_mass ta = 0 then Inl NonFiniteCOM
         else Inr (ta\<lparr>ta_xform := xform,
                      ta_com := xform\<lparr>fpos := TransformPointParentToLocal xform (vscale (1 / ta_mass ta) com)\<rparr>\<rparr>))"

section \<open>ReportSuspensionForce and LogConstraintViolations\<close>

text \<open>
  \<open>ReportSuspensionForce(id)\<close> (lines 154-156) indexes the suspension vector
  without a bound check.
\<close>

definition ReportSuspensionForce :: "track_assembly \<Rightarrow> nat \<Rightarrow> ta_error + vec3" where
  "ReportSuspensionForce ta i =
     (if i < length (ta_suspensions ta) then Inr (sus_force (ta_suspensions ta ! i))
      else Inl SuspensionIndexOutOfRange)"

text \<open>
  \<open>LogConstraintViolations\<close> (lines 331-344): a header line then the
  subsystem's own report, for the sprocket, the idler, each suspension and each
  roller (numbered); the shoes are not reported.
\<close>

datatype log_entry = LogText string | LogIndexed string nat | PartViolations part

definition ta_LogConstraintViolations :: "track_assembly \<Rightarrow> log_entry list" where
  "ta_LogConstraintViolations ta =
     [LogText ''SPROCKET constraint violations'', PartViolations (ta_sprocket ta),
      LogText ''IDLER constraint violations'', PartViolations (ta_idler ta)]
     @ concat (map (\<lambda>i. [LogIndexed ''SUSPENSION'' i, PartViolations (sus_part (ta_suspensions ta ! i))])
                   [0..<length (ta_suspensions ta)])
     @ concat (map (\<lambda>i. [LogIndexed ''ROLLER'' i, PartViolations (ta_rollers ta ! i)])
                   [0..<length (ta_rollers ta)])"

section \<open>Operations on an assembly\<close>

text \<open>
  The calls a tracked vehicle makes on its assemblies after \<open>Initialize\<close>, and
  their sequential composition; an error stops the sequence.
\<close>

datatype ta_op =
    OpSetOutput bool
  | OpSynchronize real real "terrain_force list"
  | OpInitializeInertia
  | OpUpdateInertia chframe
  | OpSetSprocketVis VisualizationType
  | OpSetIdlerVis VisualizationType
  | OpSetRoadWheelAssemblyVis VisualizationType
  | OpSetRoadWheelVis VisualizationType
  | OpSetRollerVis VisualizationType
  | OpSetTrackShoeVis VisualizationType
  | OpSetWheelCollision bool bool bool

fun ta_step :: "ta_op \<Rightarrow> track_assembly \<Rightarrow> ta_error + track_assembly" where
  "ta_step (OpSetOutput b) ta = Inr (ta_SetOutput b ta)"
| "ta_step (OpSynchronize t br F) ta = ta_Synchronize t br F ta"
| "ta_step OpInitializeInertia ta = Inr (ta_InitializeInertiaProperties ta)"
| "ta_step (OpUpdateInertia parent) ta = ta_UpdateInertiaProperties parent ta"
| "ta_step (OpSetSprocketVis v) ta = Inr (SetSprocketVisualizationType v ta)"
| "ta_step (OpSetIdlerVis v) ta = Inr (SetIdlerVisualizationType v ta)"
| "ta_step (OpSetRoadWheelAssemblyVis v) ta = Inr (SetRoadWheelAssemblyVisualizationType v ta)"
| "ta_step (OpSetRoadWheelVis v) ta = Inr (SetRoadWheelVisualizationType v ta)"
| "ta_step (OpSetRollerVis v) ta = Inr (SetRollerVisualizationType v ta)"
| "ta_step (OpSetTrackShoeVis v) ta = Inr (SetTrackShoeVisualizationType v ta)"
| "ta_step (OpSetWheelCollision a b c) ta = Inr (SetWheelCollisionType a b c ta)"

fun ta_run :: "ta_op list \<Rightarrow> track_assembly \<Rightarrow> ta_error + track_assembly" where
  "ta_run [] ta = Inr ta"
| "ta_run (op # ops) ta = (case ta_step op ta of Inl e \<Rightarrow> Inl e | Inr ta' \<Rightarrow> ta_run ops ta')"

text \<open>
  Well-formedness of an assembly: the shoes form one ring, shoe \<open>i\<close> linked to
  shoe \<open>i + 1\<close> and the last to the first (what \<open>Initialize\<close> establishes).
\<close>

definition ta_wf :: "track_assembly \<Rightarrow> bool" where
  "ta_wf ta =
     list_all (\<lambda>i. sh_next (ta_shoes ta ! i) = Some (Suc i mod length (ta_shoes ta))) [0..<length (ta_shoes ta)]"

text \<open>The assembly's mass is the sum of its subsystems' masses.\<close>

definition ta_mass_consistent :: "track_assembly \<Rightarrow> bool" where
  "ta_mass_consistent ta = (ta_mass ta = sum_list (map p_mass (ta_parts ta)))"

section \<open>Lemmas\<close>

text \<open>What every step keeps: the shoes' links, the subsystems' masses, and (but for \<open>InitializeInertiaProperties\<close>) the mass.\<close>

lemma ta_Synchronize_keeps:
  assumes "ta_Synchronize t br F ta = Inr ta'"
  shows "map sh_next (ta_shoes ta') = map sh_next (ta_shoes ta)
       \<and> map p_mass (ta_parts ta') = map p_mass (ta_parts ta) \<and> ta_mass ta' = ta_mass ta"
proof -
  have le: "GetNumTrackShoes ta \<le> length F"
    using assms by (auto simp: ta_Synchronize_def split: if_splits)
  have keep: "sh_next (shoe_apply_force f sh) = sh_next sh" "sh_part (shoe_apply_force f sh) = sh_part sh" for f sh
    by (simp_all add: shoe_apply_force_def Let_def)
  have ta': "ta' = ta\<lparr>ta_axle_torque := 0,
      ta_shoes := foldl (\<lambda>S i. S[i := shoe_apply_force (F ! i) (S ! i)]) (ta_shoes ta) [0..<length (ta_shoes ta)],
      ta_braking := br\<rparr>"
    using assms ta_Synchronize_Inr [OF le, of t br] by simp
  show ?thesis
    unfolding ta'
    using foldl_update_map_keep [where h = sh_next and g = "\<lambda>i. shoe_apply_force (F ! i)" and S = "ta_shoes ta"]
      foldl_update_map_keep [where h = "p_mass \<circ> sh_part" and g = "\<lambda>i. shoe_apply_force (F ! i)" and S = "ta_shoes ta"]
    by (simp add: ta_parts_def keep)
qed

lemma ta_step_keeps:
  assumes "ta_step op ta = Inr ta'"
  shows "map sh_next (ta_shoes ta') = map sh_next (ta_shoes ta)
       \<and> map p_mass (ta_parts ta') = map p_mass (ta_parts ta)
       \<and> (op \<noteq> OpInitializeInertia \<longrightarrow> ta_mass ta' = ta_mass ta)"
proof (cases op)
  case (OpSynchronize t br F)
  then show ?thesis using assms ta_Synchronize_keeps by simp
next
  case (OpSetOutput b)
  then show ?thesis using assms
    by (auto simp: ta_SetOutput_def Let_def ta_parts_def set_output_def sus_SetOutput_def comp_def
        map_update_keep map_concat)
next
  case (OpUpdateInertia parent)
  then show ?thesis using assms
    by (auto simp: ta_UpdateInertiaProperties_def Let_def ta_parts_def split: if_splits)
qed (use assms in \<open>auto simp: ta_InitializeInertiaProperties_def ta_parts_def set_vis_def comp_def
        SetSprocketVisualizationType_def SetIdlerVisualizationType_def SetRoadWheelAssemblyVisualizationType_def
        SetRoadWheelVisualizationType_def SetRollerVisualizationType_def SetTrackShoeVisualizationType_def
        SetWheelCollisionType_def map_concat\<close>)

lemma ta_run_keeps:
  "ta_run ops ta = Inr ta' \<Longrightarrow>
     map sh_next (ta_shoes ta') = map sh_next (ta_shoes ta)
     \<and> map p_mass (ta_parts ta') = map p_mass (ta_parts ta)"
proof (induction ops arbitrary: ta)
  case Nil
  then show ?case by simp
next
  case (Cons op ops)
  then obtain ta1 where s: "ta_step op ta = Inr ta1" and r: "ta_run ops ta1 = Inr ta'"
    by (cases "ta_step op ta") auto
  then show ?case using Cons.IH [OF r] ta_step_keeps [OF s] by simp
qed

lemma ta_wf_same_links:
  assumes "map sh_next (ta_shoes ta') = map sh_next (ta_shoes ta)"
  shows "ta_wf ta' = ta_wf ta"
proof -
  have len: "length (ta_shoes ta') = length (ta_shoes ta)" using map_eq_imp_length_eq [OF assms] .
  have "sh_next (ta_shoes ta' ! i) = sh_next (ta_shoes ta ! i)" if "i < length (ta_shoes ta)" for i
    using nth_map [OF that, of sh_next] nth_map [of i "ta_shoes ta'" sh_next] that len assms by simp
  then show ?thesis by (simp add: ta_wf_def list_all_iff len)
qed

lemma ta_Initialize_wf: "ta_wf (ta_Initialize Assemble location create_shoes ta)"
proof (cases create_shoes)
  case True
  obtain ccw S where a: "Assemble (ta_shoes ta) = (ccw, S)" by (cases "Assemble (ta_shoes ta)")
  show ?thesis
    using True connect_shoes_ring [of ccw S]
    by (simp add: ta_wf_def list_all_iff ta_Initialize_shoes [of Assemble ta ccw S location, OF a])
next
  case False
  then show ?thesis by (simp add: ta_wf_def ta_Initialize_def Let_def)
qed

lemma ta_step_mass_consistent:
  assumes "ta_step op ta = Inr ta'" and "op = OpInitializeInertia \<or> ta_mass_consistent ta"
  shows "ta_mass_consistent ta'"
proof (cases "op = OpInitializeInertia")
  case True
  then have "ta' = ta_InitializeInertiaProperties ta" using assms(1) by simp
  then show ?thesis
    by (simp add: ta_mass_consistent_def ta_mass_parts) (simp add: ta_parts_def ta_InitializeInertiaProperties_def)
next
  case False
  then show ?thesis using assms ta_step_keeps [OF assms(1)] by (simp add: ta_mass_consistent_def)
qed

lemma ta_run_mass_consistent_from:
  "ta_run ops ta = Inr ta' \<Longrightarrow> ta_mass_consistent ta \<Longrightarrow> ta_mass_consistent ta'"
proof (induction ops arbitrary: ta)
  case Nil
  then show ?case by simp
next
  case (Cons op ops)
  then obtain ta1 where s: "ta_step op ta = Inr ta1" and r: "ta_run ops ta1 = Inr ta'"
    by (cases "ta_step op ta") auto
  then show ?case using Cons.IH [OF r] ta_step_mass_consistent [OF s] Cons.prems(2) by blast
qed

text \<open>The accumulated centre of mass is the mass-weighted sum over the subsystems.\<close>

lemma ta_fold_com:
  "ta_fold_parts part_AddInertiaProperties 0 ta = sum_list (map (\<lambda>p. vscale (p_mass p) (p_com p)) (ta_parts ta))"
proof -
  have eq: "part_AddInertiaProperties = (\<lambda>p b. b + vscale (p_mass p) (p_com p))"
    by (simp add: fun_eq_iff part_AddInertiaProperties_def)
  show ?thesis unfolding eq by (simp add: ta_fold_parts_sum)
qed

lemma ta_Initialize_mass [simp]: "ta_mass (ta_Initialize Assemble location create_shoes ta) = ta_mass ta"
  by (simp add: ta_Initialize_def Let_def split: prod.split)

section \<open>Properties\<close>

text \<open>
  C23: once \<open>InitializeInertiaProperties\<close> has run, the assembly's mass stays the
  sum of its subsystems' masses under every later call that succeeds (no call
  changes a subsystem's mass, none but \<open>InitializeInertiaProperties\<close> writes
  \<open>m_mass\<close>).
\<close>

theorem ta_run_mass_consistent:
  assumes "ta_run (OpInitializeInertia # ops) ta = Inr ta'"
  shows "ta_mass_consistent ta'"
proof -
  obtain ta1 where r: "ta_run ops ta1 = Inr ta'" and s: "ta_step OpInitializeInertia ta = Inr ta1"
    using assms by simp
  show ?thesis using ta_run_mass_consistent_from [OF r ta_step_mass_consistent [OF s]] by simp
qed

theorem ta_run_mass_consistent_witness:
  "ta_run [OpInitializeInertia, OpSetOutput True] demo_track
     = Inr (ta_SetOutput True (ta_InitializeInertiaProperties demo_track))
   \<and> ta_mass_consistent (ta_SetOutput True (ta_InitializeInertiaProperties demo_track))"
  using ta_run_mass_consistent [of "[OpSetOutput True]" demo_track "ta_SetOutput True (ta_InitializeInertiaProperties demo_track)"]
  by simp

text \<open>
  C22: \<open>UpdateInertiaProperties\<close> must follow \<open>InitializeInertiaProperties\<close>: on
  an assembly just constructed and initialized the mass is still zero and the
  centre of mass is not finite. After it, when the subsystems' masses do not add
  up to zero and all their centres of mass are at one point \<open>c\<close>, the call
  succeeds, places the assembly frame at its location on the parent, and puts
  the centre of mass at \<open>c\<close> (expressed in that frame).
\<close>

theorem ta_UpdateInertia_order:
  assumes "sum_list (map p_mass (ta_parts ta)) \<noteq> 0" and "\<forall>p \<in> set (ta_parts ta). p_com p = c"
  shows "ta_run [OpUpdateInertia parent] (ta_Initialize Assemble location create_shoes
            (ChTrackAssembly name side spr brk idl susp rol shoes)) = Inl NonFiniteCOM
       \<and> (\<exists>ta'. ta_run [OpInitializeInertia, OpUpdateInertia parent] ta = Inr ta'
               \<and> ta_xform ta' = frame_child_at parent (ta_rel_loc ta)
               \<and> fpos (ta_com ta') = TransformPointParentToLocal (ta_xform ta') c)"
proof -
  let ?M = "sum_list (map p_mass (ta_parts ta))"
  have "map (\<lambda>p. vscale (p_mass p) (p_com p)) (ta_parts ta) = map (\<lambda>p. vscale (p_mass p) c) (ta_parts ta)"
    using assms(2) by simp
  then have com: "ta_fold_parts part_AddInertiaProperties 0 ta = vscale ?M c"
    unfolding ta_fold_com by (simp only: vscale_sum_list)
  have fold_eq: "ta_fold_parts f b (ta_InitializeInertiaProperties ta) = ta_fold_parts f b ta" for f :: "part \<Rightarrow> vec3 \<Rightarrow> vec3" and b
    by (simp add: ta_fold_parts_def ta_InitializeInertiaProperties_def GetNumTrackShoes_def)
  show ?thesis
    using assms(1)
    by (simp add: ta_UpdateInertiaProperties_def ChTrackAssembly_def Let_def ta_mass_parts fold_eq com
        vscale_inverse) (simp add: ta_InitializeInertiaProperties_def)
qed

theorem ta_UpdateInertia_order_witness:
  "ta_run [OpUpdateInertia ChFrame_identity] (ta_Initialize (\<lambda>S. (True, S)) 0 True
      (ChTrackAssembly ''track'' LEFT (mk_part ''sprocket'' 30) (mk_part ''brake'' 0) (mk_part ''idler'' 20) [] [] []))
     = Inl NonFiniteCOM
   \<and> (\<exists>ta'. ta_run [OpInitializeInertia, OpUpdateInertia ChFrame_identity] demo_track = Inr ta'
           \<and> fpos (ta_com ta') = TransformPointParentToLocal (ta_xform ta') 0)"
proof -
  have "sum_list (map p_mass (ta_parts demo_track)) \<noteq> 0" and "\<forall>p \<in> set (ta_parts demo_track). p_com p = 0"
    by (simp_all add: ta_parts_def demo_track_def ChTrackAssembly_def mk_part_def mk_shoe_def)
  then show ?thesis
    using ta_UpdateInertia_order [of demo_track 0 ChFrame_identity "\<lambda>S. (True, S)" 0 True
        "''track''" LEFT "mk_part ''sprocket'' 30" "mk_part ''brake'' 0" "mk_part ''idler'' 20" "[]" "[]" "[]"]
    by blast
qed

end
