(* ===== verification/Sedan_Chassis.thy ===== *)
theory Sedan_Chassis
  imports Ch_Math
begin

text \<open>
  \<open>Sedan_Chassis\<close> (src/src/chrono_models/vehicle/sedan/Sedan_Chassis.cpp): the
  static data of the sedan's chassis body, and the constructor, which fills the
  body inertia matrix from its diagonal and off-diagonal moments and builds the
  visualisation and collision geometry for the requested collision type;
  \<open>CreateContactMaterials\<close> adds one default material. The 3x3 inertia matrix is
  a function of the row and column index; Chrono's geometry structure
  (\<open>ChVehicleGeometry\<close>) is a record of the members the constructor writes.
\<close>

datatype CollisionType = CT_NONE | CT_PRIMITIVES | CT_HULLS | CT_MESH

datatype ChContactMethod = NSC | SMC

type_synonym quat = "real \<times> real \<times> real \<times> real"

type_synonym mat33 = "nat \<Rightarrow> nat \<Rightarrow> real"

record box_shape =
  bx_pos :: vec3
  bx_rot :: quat
  bx_dims :: vec3
  bx_matID :: int

record hull_shape =
  hl_file :: string
  hl_matID :: int

record vehicle_geometry =
  g_has_primitives :: bool
  g_vis_boxes :: "box_shape list"
  g_has_obj :: bool
  g_vis_mesh_file :: string
  g_has_collision :: bool
  g_coll_boxes :: "box_shape list"
  g_coll_hulls :: "hull_shape list"
  g_materials :: "ChContactMethod list"

record sedan_chassis =
  sc_name :: string
  sc_fixed :: bool
  sc_body_inertia :: mat33
  sc_geometry :: vehicle_geometry

text \<open>The static members (lines 33-38).\<close>

definition m_body_mass :: real where "m_body_mass = 1250"

definition m_body_inertiaXX :: vec3 where
  "m_body_inertiaXX = ChVector (2228 / 10) (9441 / 10) (10535 / 10)"

definition m_body_inertiaXY :: vec3 where "m_body_inertiaXY = ChVector 0 0 0"

definition m_body_COM_loc :: vec3 where "m_body_COM_loc = ChVector 0 0 (2 / 10)"

definition m_connector_rear_loc :: vec3 where "m_connector_rear_loc = ChVector (- 25 / 10) 0 (- 1 / 10)"

definition m_driverCsys :: "vec3 \<times> quat" where "m_driverCsys = (ChVector 0 (5 / 10) (12 / 10), (1, 0, 0, 0))"

text \<open>
  The inertia assignments of the constructor (lines 44-53), in order, on the
  matrix the base class left (\<open>M0\<close>).
\<close>

definition set_entry :: "nat \<Rightarrow> nat \<Rightarrow> real \<Rightarrow> mat33 \<Rightarrow> mat33" where
  "set_entry i j v M = M(i := (M i)(j := v))"

definition sedan_inertia :: "vec3 \<Rightarrow> vec3 \<Rightarrow> mat33 \<Rightarrow> mat33" where
  "sedan_inertia XX XY M0 =
     set_entry 2 1 (vz XY) (set_entry 2 0 (vy XY) (set_entry 1 0 (vx XY)
       (set_entry 1 2 (vz XY) (set_entry 0 2 (vy XY) (set_entry 0 1 (vx XY)
         (set_entry 2 2 (vz XX) (set_entry 1 1 (vy XX) (set_entry 0 0 (vx XX) M0))))))))"

text \<open>The geometry part of the constructor (lines 57-78).\<close>

definition sedan_box1 :: box_shape where
  "sedan_box1 = \<lparr>bx_pos = ChVector 0 0 (1 / 10), bx_rot = (1, 0, 0, 0), bx_dims = ChVector 1 (1 / 2) (2 / 10), bx_matID = -1\<rparr>"

definition sedan_geometry :: "CollisionType \<Rightarrow> vehicle_geometry \<Rightarrow> vehicle_geometry" where
  "sedan_geometry ct g =
     (let box1 = sedan_box1;
          g1 = g\<lparr>g_has_primitives := True, g_vis_boxes := g_vis_boxes g @ [box1],
                 g_has_obj := True, g_vis_mesh_file := ''sedan/sedan_chassis_vis.obj'',
                 g_has_collision := (ct \<noteq> CT_NONE)\<rparr>
      in case ct of
           CT_PRIMITIVES \<Rightarrow> g1\<lparr>g_coll_boxes := g_coll_boxes g1 @ [box1\<lparr>bx_matID := 0\<rparr>]\<rparr>
         | CT_HULLS \<Rightarrow> g1\<lparr>g_coll_hulls := g_coll_hulls g1 @ [\<lparr>hl_file = ''sedan/sedan_chassis_col.obj'', hl_matID = 0\<rparr>]\<rparr>
         | _ \<Rightarrow> g1)"

definition empty_geometry :: vehicle_geometry where
  "empty_geometry = \<lparr>g_has_primitives = False, g_vis_boxes = [], g_has_obj = False, g_vis_mesh_file = [],
      g_has_collision = False, g_coll_boxes = [], g_coll_hulls = [], g_materials = []\<rparr>"

definition Sedan_Chassis_ctor :: "string \<Rightarrow> bool \<Rightarrow> CollisionType \<Rightarrow> mat33 \<Rightarrow> sedan_chassis" where
  "Sedan_Chassis_ctor name fixed ct M0 =
     \<lparr>sc_name = name, sc_fixed = fixed,
      sc_body_inertia = sedan_inertia m_body_inertiaXX m_body_inertiaXY M0,
      sc_geometry = sedan_geometry ct empty_geometry\<rparr>"

text \<open>\<open>CreateContactMaterials\<close> (lines 81-86).\<close>

definition CreateContactMaterials :: "ChContactMethod \<Rightarrow> sedan_chassis \<Rightarrow> sedan_chassis" where
  "CreateContactMaterials cm c =
     c\<lparr>sc_geometry := (sc_geometry c)\<lparr>g_materials := g_materials (sc_geometry c) @ [cm]\<rparr>\<rparr>"

section \<open>Lemmas\<close>

lemma nat_less_3_cases: "(i :: nat) < 3 \<longleftrightarrow> i = 0 \<or> i = 1 \<or> i = 2"
  by auto

lemma sedan_inertia_at:
  "sedan_inertia XX XY M0 0 0 = vx XX" "sedan_inertia XX XY M0 1 1 = vy XX" "sedan_inertia XX XY M0 2 2 = vz XX"
  "sedan_inertia XX XY M0 0 1 = vx XY" "sedan_inertia XX XY M0 1 0 = vx XY"
  "sedan_inertia XX XY M0 0 2 = vy XY" "sedan_inertia XX XY M0 2 0 = vy XY"
  "sedan_inertia XX XY M0 1 2 = vz XY" "sedan_inertia XX XY M0 2 1 = vz XY"
  by (simp_all add: sedan_inertia_def set_entry_def)

section \<open>Properties\<close>

text \<open>
  C32: the constructor builds a symmetric inertia matrix, whatever the matrix it
  starts from: the diagonal holds the moments \<open>m_body_inertiaXX\<close>, the entries
  (0,1), (0,2), (1,2) and their mirrors hold the products \<open>m_body_inertiaXY\<close>.
\<close>

theorem sedan_inertia_symmetric:
  assumes "i < 3" and "j < 3"
  shows "sc_body_inertia (Sedan_Chassis_ctor name fixed ct M0) i j = sc_body_inertia (Sedan_Chassis_ctor name fixed ct M0) j i
       \<and> sc_body_inertia (Sedan_Chassis_ctor name fixed ct M0) i i = [vx m_body_inertiaXX, vy m_body_inertiaXX, vz m_body_inertiaXX] ! i"
  using assms unfolding nat_less_3_cases
  by (elim disjE) (simp_all add: Sedan_Chassis_ctor_def sedan_inertia_at sedan_inertia_at [unfolded One_nat_def])

theorem sedan_inertia_symmetric_witness:
  "(2 :: nat) < 3 \<and> (1 :: nat) < 3
   \<and> sc_body_inertia (Sedan_Chassis_ctor ''chassis'' False CT_NONE (\<lambda>i j. 7)) 2 1
     = sc_body_inertia (Sedan_Chassis_ctor ''chassis'' False CT_NONE (\<lambda>i j. 7)) 1 2
   \<and> sc_body_inertia (Sedan_Chassis_ctor ''chassis'' False CT_NONE (\<lambda>i j. 7)) 2 2 = 10535 / 10"
  using sedan_inertia_symmetric [of 2 1 "''chassis''" False CT_NONE "\<lambda>i j. 7"]
  by (simp add: m_body_inertiaXX_def)

text \<open>
  C33: the chassis declares collision for every type but \<open>NONE\<close>, yet only
  \<open>PRIMITIVES\<close> and \<open>HULLS\<close> get a collision shape: with \<open>MESH\<close> the chassis
  has collision enabled and no collision geometry at all.
\<close>

theorem sedan_collision_shapes:
  "g_has_collision (sc_geometry (Sedan_Chassis_ctor name fixed ct M0)) = (ct \<noteq> CT_NONE)
   \<and> ((g_coll_boxes (sc_geometry (Sedan_Chassis_ctor name fixed ct M0)) = []
        \<and> g_coll_hulls (sc_geometry (Sedan_Chassis_ctor name fixed ct M0)) = [])
       = (ct = CT_NONE \<or> ct = CT_MESH))"
  by (cases ct) (simp_all add: Sedan_Chassis_ctor_def sedan_geometry_def empty_geometry_def Let_def)

end
