(* ===== verification/Ch_Ellipsoid.thy ===== *)
theory Ch_Ellipsoid
  imports Ch_Math
begin

text \<open>
  \<open>ChEllipsoid\<close> (src/src/chrono/geometry/ChEllipsoid.h): the ellipsoid of the
  geometry library, holding its semi-axes \<open>rad\<close>. The header defines the
  constructors and the inline virtual members; \<open>GetBoundingBox\<close>,
  \<open>CovarianceMatrix\<close> and the archive methods are only declared there. The
  geometry type tag is the \<open>GeometryType\<close> enumeration of \<open>ChGeometry\<close>.
\<close>

datatype GeometryType =
    GT_NONE | GT_SPHERE | GT_ELLIPSOID | GT_BOX | GT_CYLINDER | GT_TRIANGLE | GT_CAPSULE | GT_CONE
  | GT_LINE | GT_ROUNDED_BOX | GT_ROUNDED_CYLINDER | GT_TRIANGLEMESH

record ChEllipsoid =
  rad :: vec3

definition ChEllipsoid_default :: ChEllipsoid where
  "ChEllipsoid_default = \<lparr>rad = 0\<rparr>"

text \<open>\<open>ChEllipsoid(mc, mrad) : rad(mrad) {}\<close>: the centre argument is not stored.\<close>

definition ChEllipsoid_mk :: "vec3 \<Rightarrow> vec3 \<Rightarrow> ChEllipsoid" where
  "ChEllipsoid_mk mc mrad = \<lparr>rad = mrad\<rparr>"

definition Clone :: "ChEllipsoid \<Rightarrow> ChEllipsoid" where
  "Clone e = e"

definition GetClassType :: "ChEllipsoid \<Rightarrow> GeometryType" where
  "GetClassType e = GT_SPHERE"

definition Baricenter :: "ChEllipsoid \<Rightarrow> vec3" where
  "Baricenter e = 0"

definition GetManifoldDimension :: "ChEllipsoid \<Rightarrow> nat" where
  "GetManifoldDimension e = 3"

end
