(* ===== verification/Demo_UJoint.thy ===== *)
theory Demo_UJoint
  imports Ch_Math
begin

text \<open>
  \<open>demo_IRR_ujoint\<close> (src/src/demos/irrlicht/demo_IRR_ujoint.cpp, \<open>main\<close>): two
  shafts of half-length \<open>hl = 2\<close>, the second bent by \<open>pi/6\<close> about the world X
  axis, joined by a universal joint at the origin; the first is driven about its
  axis by a motor at its base, the second turns in a cylindrical joint at its
  base. The model is the scene the program builds (bodies and links as records,
  a rotation as the angle and axis it is built from, \<open>Q_from_AngX\<close> as
  \<open>(angle, X)\<close>) and the simulation loop's logging cadence; the dynamics, the
  visualisation assets and the window are not modelled (the angular velocities
  are a parameter of the loop).
\<close>

type_synonym rotation = "real \<times> vec3"

definition rot_apply :: "rotation \<Rightarrow> vec3 \<Rightarrow> vec3" where
  "rot_apply r v = rot_axis_angle (fst r) (snd r) v"

definition QUNIT :: rotation where
  "QUNIT = (0, ChVector 1 0 0)"

definition Q_from_AngX :: "real \<Rightarrow> rotation" where
  "Q_from_AngX a = (a, ChVector 1 0 0)"

record demo_body =
  db_id :: int
  db_fixed :: bool
  db_collide :: bool
  db_mass :: real
  db_inertiaXX :: vec3
  db_pos :: vec3
  db_rot :: rotation

datatype demo_link =
    MotorRotationAngle nat nat vec3 rotation
  | LinkLockCylindrical nat nat vec3 rotation
  | LinkUniversal nat nat vec3 rotation

record demo_system =
  ds_G_acc :: vec3
  ds_bodies :: "demo_body list"
  ds_links :: "demo_link list"

definition demo_hl :: real where "demo_hl = 2"

definition demo_angle :: real where "demo_angle = pi / 6"

text \<open>The bodies (lines 59-124); a new \<open>ChBody\<close> has unit mass at the origin.\<close>

definition new_body :: demo_body where
  "new_body = \<lparr>db_id = 0, db_fixed = False, db_collide = True, db_mass = 1, db_inertiaXX = ChVector 1 1 1,
                db_pos = 0, db_rot = QUNIT\<rparr>"

definition demo_ground :: demo_body where
  "demo_ground = new_body\<lparr>db_id := -1, db_fixed := True, db_collide := False\<rparr>"

definition demo_shaft :: "int \<Rightarrow> vec3 \<Rightarrow> rotation \<Rightarrow> demo_body" where
  "demo_shaft ident pos rot =
     new_body\<lparr>db_id := ident, db_fixed := False, db_collide := False, db_mass := 1,
              db_inertiaXX := ChVector 1 1 (2 / 10), db_pos := pos, db_rot := rot\<rparr>"

text \<open>
  The scene of \<open>main\<close> (lines 41-172): gravity off; ground, shaft 1 and shaft 2
  added in this order (indices 0, 1, 2); the motor, the cylindrical joint and the
  universal joint added in this order.
\<close>

definition demo_scene :: "real \<Rightarrow> real \<Rightarrow> demo_system" where
  "demo_scene hl angle =
     (let cosa = cos angle; sina = sin angle; rot = Q_from_AngX angle;
          shaft_1 = demo_shaft 1 (ChVector 0 0 (- hl)) QUNIT;
          shaft_2 = demo_shaft 1 (ChVector 0 (- hl * sina) (hl * cosa)) rot
      in \<lparr>ds_G_acc = ChVector 0 0 0,
          ds_bodies = [demo_ground, shaft_1, shaft_2],
          ds_links = [MotorRotationAngle 0 1 (ChVector 0 0 (- hl)) QUNIT,
                      LinkLockCylindrical 0 2 (ChVector 0 (- hl * sina) (hl * cosa)) rot,
                      LinkUniversal 1 2 (ChVector 0 0 0) rot]\<rparr>)"

text \<open>
  The simulation loop (lines 191-205): frame \<open>k\<close> logs the time and the two
  shaft speeds when \<open>k\<close> is a multiple of 20, then advances the time by the step
  0.005. \<open>n\<close> is the number of frames the window stays open.
\<close>

definition demo_timestep :: real where "demo_timestep = 5 / 1000"

fun demo_loop :: "(nat \<Rightarrow> real \<times> real) \<Rightarrow> nat \<Rightarrow> nat \<Rightarrow> real \<Rightarrow> (real \<times> real \<times> real) list" where
  "demo_loop omega 0 frame t = []"
| "demo_loop omega (Suc n) frame t =
     (if frame mod 20 = 0 then [(t, fst (omega frame), snd (omega frame))] else [])
     @ demo_loop omega n (Suc frame) (t + demo_timestep)"

text \<open>A joint's position, and the tip of a shaft of half-length \<open>hl\<close> along its local Z axis.\<close>

definition link_pos :: "demo_link \<Rightarrow> vec3" where
  "link_pos l = (case l of MotorRotationAngle _ _ p _ \<Rightarrow> p | LinkLockCylindrical _ _ p _ \<Rightarrow> p | LinkUniversal _ _ p _ \<Rightarrow> p)"

definition shaft_end :: "real \<Rightarrow> demo_body \<Rightarrow> vec3" where
  "shaft_end z b = db_pos b + rot_apply (db_rot b) (ChVector 0 0 z)"

section \<open>Lemmas\<close>

lemma rot_x_apply:
  "rot_apply (Q_from_AngX a) (ChVector x y z) = ChVector x (cos a * y - sin a * z) (sin a * y + cos a * z)"
  by (simp add: rot_apply_def Q_from_AngX_def rot_axis_angle_def vec3_eq_iff Vcross_def Vdot_def vec_defs algebra_simps)

lemma rot_unit_apply: "rot_apply QUNIT v = v"
  by (simp add: rot_apply_def QUNIT_def rot_axis_angle_def vec3_eq_iff Vcross_def Vdot_def vec_defs)

lemma demo_loop_rows:
  "demo_loop omega n frame t =
     map (\<lambda>k. (t + real (k - frame) * demo_timestep, fst (omega k), snd (omega k)))
         (filter (\<lambda>k. k mod 20 = 0) [frame..<frame + n])"
proof (induction n arbitrary: frame t)
  case 0
  then show ?case by simp
next
  case (Suc n)
  have upt: "[frame..<frame + Suc n] = frame # [Suc frame..<Suc frame + n]"
    by (simp add: upt_rec)
  have cong: "map (\<lambda>k. (t + demo_timestep + real (k - Suc frame) * demo_timestep, fst (omega k), snd (omega k)))
                (filter (\<lambda>k. k mod 20 = 0) [Suc frame..<Suc frame + n])
            = map (\<lambda>k. (t + real (k - frame) * demo_timestep, fst (omega k), snd (omega k)))
                (filter (\<lambda>k. k mod 20 = 0) [Suc frame..<Suc frame + n])"
    by (rule map_cong) (auto simp: of_nat_diff algebra_simps)
  show ?case
    unfolding demo_loop.simps(2) Suc.IH [of "Suc frame" "t + demo_timestep"] upt cong
    by simp
qed

lemma filter_mult20:
  "filter (\<lambda>k. k mod 20 = 0) [0..<n] = map (\<lambda>j. 20 * j) [0..<(n + 19) div 20]"
proof (induction n)
  case 0
  then show ?case by simp
next
  case (Suc n)
  have step: "filter (\<lambda>k. k mod 20 = 0) [0..<Suc n] = filter (\<lambda>k. k mod 20 = 0) [0..<n] @ filter (\<lambda>k. k mod 20 = 0) [n]"
    by simp
  show ?case
  proof (cases "n mod 20 = 0")
    case True
    then obtain q where q: "n = 20 * q" by auto
    have d1: "(Suc n + 19) div 20 = Suc q" using q by simp
    have d0: "(n + 19) div 20 = q" using q by simp
    have "filter (\<lambda>k. k mod 20 = 0) [0..<Suc n] = map (\<lambda>j. 20 * j) [0..<q] @ [20 * q]"
      unfolding step Suc.IH d0 using True q by simp
    then show ?thesis unfolding d1 by simp
  next
    case False
    have "(n + 19) mod 20 \<noteq> 19" using False by presburger
    then have d: "(Suc n + 19) div 20 = (n + 19) div 20"
      by (simp add: div_add1_eq [of "n + 19" 1 20, simplified])
    show ?thesis unfolding step Suc.IH d using False by simp
  qed
qed

section \<open>Properties\<close>

text \<open>
  The loop logs one row every 20 frames: after \<open>n\<close> frames it has written
  \<open>ceil(n/20)\<close> rows, the \<open>k\<close>-th at simulated time \<open>k/10\<close>.
\<close>

theorem demo_loop_cadence:
  "length (demo_loop omega n 0 0) = (n + 19) div 20
   \<and> map fst (demo_loop omega n 0 0) = map (\<lambda>k. real k / 10) [0..<(n + 19) div 20]"
proof -
  have rows: "demo_loop omega n 0 0 = map (\<lambda>k. (real k * demo_timestep, fst (omega k), snd (omega k))) (map (\<lambda>j. 20 * j) [0..<(n + 19) div 20])"
    unfolding demo_loop_rows filter_mult20 [symmetric] by simp
  show ?thesis
    unfolding rows by (simp add: comp_def demo_timestep_def)
qed

end
