(* ===== verification/CMake_Config.thy ===== *)
theory CMake_Config
  imports Main
begin

text \<open>
  The two CMake scripts of the repository: the Python parser module's
  configuration (src/src/chrono_pyparser/CMakeLists.txt) and the demos'
  configuration (the CMake part of src/src/demos/irrlicht/demo_IRR_ujoint.cpp,
  from line 213, which is the demos directory's \<open>CMakeLists.txt\<close>). A script
  is a function on the configuration state, one command after the other, with
  CMake's own semantics written out: a variable's value is a string, a list is
  its elements joined by \<open>;\<close> and split again when expanded unquoted;
  \<open>if(<variable>)\<close> holds when the variable is defined to a value that is not
  a false constant; \<open>option\<close> sets a cache entry only when the variable is not
  defined yet; \<open>set(... PARENT_SCOPE)\<close> writes the calling directory's scope;
  \<open>return()\<close> ends the script; \<open>find_package\<close> is the result of the finder,
  a parameter, and a failed \<open>REQUIRED\<close> search is a fatal error.
\<close>

section \<open>Values\<close>

definition upper_char :: "char \<Rightarrow> char" where
  "upper_char c = (if (97 :: nat) \<le> of_char c \<and> of_char c \<le> (122 :: nat) then char_of (of_char c - (32 :: nat)) else c)"

definition cmake_upper :: "string \<Rightarrow> string" where
  "cmake_upper s = map upper_char s"

definition ends_with :: "string \<Rightarrow> string \<Rightarrow> bool" where
  "ends_with s t = (length t \<le> length s \<and> drop (length s - length t) s = t)"

text \<open>CMake's false constants, compared case-insensitively.\<close>

definition cmake_false_const :: "string \<Rightarrow> bool" where
  "cmake_false_const v =
     (cmake_upper v \<in> set [''0'', ''OFF'', ''NO'', ''FALSE'', ''N'', ''IGNORE'', ''NOTFOUND'', '''']
      \<or> ends_with (cmake_upper v) ''-NOTFOUND'')"

text \<open>A list value: the elements joined by \<open>;\<close>; unquoted expansion splits it and drops empty elements.\<close>

fun cm_join :: "string list \<Rightarrow> string" where
  "cm_join [] = []"
| "cm_join [x] = x"
| "cm_join (x # xs) = x @ '';'' @ cm_join xs"

fun cm_split_acc :: "string \<Rightarrow> string \<Rightarrow> string list" where
  "cm_split_acc cur [] = (if cur = [] then [] else [rev cur])"
| "cm_split_acc cur (c # cs) =
     (if c = CHR '';'' then (if cur = [] then [] else [rev cur]) @ cm_split_acc [] cs
      else cm_split_acc (c # cur) cs)"

definition cm_split :: "string \<Rightarrow> string list" where
  "cm_split s = cm_split_acc [] s"

text \<open>\<open>get_filename_component(... PATH)\<close>: the directory part of a path.\<close>

definition cm_dirname :: "string \<Rightarrow> string" where
  "cm_dirname p = rev (drop 1 (dropWhile (\<lambda>c. c \<noteq> CHR ''/'') (rev p)))"

text \<open>The decimal form of an index, as \<open>list(FIND)\<close> writes it.\<close>

fun nat_digits :: "nat \<Rightarrow> string" where
  "nat_digits n = (if n < 10 then [char_of (48 + n)] else nat_digits (n div 10) @ [char_of (48 + n mod 10)])"

declare nat_digits.simps [simp del]

section \<open>Configuration state\<close>

record cm_target =
  tg_name :: string
  tg_type :: string
  tg_sources :: "string list"
  tg_link_flags :: string
  tg_defs :: "string list"
  tg_links :: "string list"
  tg_deps :: "string list"

datatype cm_install =
    InstallTargets string string string string
  | InstallFiles "string list" string

record cmake_state =
  cm_vars :: "string \<Rightarrow> string option"
  cm_cache :: "string \<Rightarrow> string option"
  cm_parent :: "string \<Rightarrow> string option"
  cm_advanced :: "string \<Rightarrow> bool option"
  cm_messages :: "string list"
  cm_include_dirs :: "string list"
  cm_subdirs :: "string list"
  cm_targets :: "cm_target list"
  cm_installs :: "cm_install list"

datatype cm_error = FatalNotFound string

definition cm_defined :: "cmake_state \<Rightarrow> string \<Rightarrow> bool" where
  "cm_defined st x = (cm_vars st x \<noteq> None \<or> cm_cache st x \<noteq> None)"

text \<open>\<open>${x}\<close>: the normal variable, else the cache entry, else empty.\<close>

definition cm_get :: "cmake_state \<Rightarrow> string \<Rightarrow> string" where
  "cm_get st x = (case cm_vars st x of Some v \<Rightarrow> v | None \<Rightarrow> (case cm_cache st x of Some v \<Rightarrow> v | None \<Rightarrow> []))"

definition cm_if_var :: "cmake_state \<Rightarrow> string \<Rightarrow> bool" where
  "cm_if_var st x = (cm_defined st x \<and> \<not> cmake_false_const (cm_get st x))"

definition cm_set :: "string \<Rightarrow> string \<Rightarrow> cmake_state \<Rightarrow> cmake_state" where
  "cm_set x v st = st\<lparr>cm_vars := (cm_vars st)(x \<mapsto> v)\<rparr>"

definition cm_set_parent :: "string \<Rightarrow> string \<Rightarrow> cmake_state \<Rightarrow> cmake_state" where
  "cm_set_parent x v st = st\<lparr>cm_parent := (cm_parent st)(x \<mapsto> v)\<rparr>"

definition cm_option :: "string \<Rightarrow> string \<Rightarrow> cmake_state \<Rightarrow> cmake_state" where
  "cm_option x dflt st = (if cm_defined st x then st else st\<lparr>cm_cache := (cm_cache st)(x \<mapsto> dflt)\<rparr>)"

definition cm_mark_advanced :: "bool \<Rightarrow> string \<Rightarrow> cmake_state \<Rightarrow> cmake_state" where
  "cm_mark_advanced b x st = st\<lparr>cm_advanced := (cm_advanced st)(x \<mapsto> b)\<rparr>"

definition cm_message :: "string \<Rightarrow> cmake_state \<Rightarrow> cmake_state" where
  "cm_message s st = st\<lparr>cm_messages := cm_messages st @ [s]\<rparr>"

definition cm_add_subdirectory :: "string \<Rightarrow> cmake_state \<Rightarrow> cmake_state" where
  "cm_add_subdirectory d st = st\<lparr>cm_subdirs := cm_subdirs st @ [d]\<rparr>"

definition cm_list_find :: "string \<Rightarrow> string \<Rightarrow> string \<Rightarrow> cmake_state \<Rightarrow> cmake_state" where
  "cm_list_find lst item out st =
     (let xs = cm_split (cm_get st lst)
      in cm_set out (if item \<in> set xs then nat_digits (length (takeWhile (\<lambda>y. y \<noteq> item) xs)) else ''-1'') st)"

definition cm_update_target :: "string \<Rightarrow> (cm_target \<Rightarrow> cm_target) \<Rightarrow> cmake_state \<Rightarrow> cmake_state" where
  "cm_update_target name f st = st\<lparr>cm_targets := map (\<lambda>t. if tg_name t = name then f t else t) (cm_targets st)\<rparr>"

text \<open>
  \<open>add_subdirectory\<close> runs the child's script in a scope that starts as a copy
  of the caller's variables; what the child sets stays there, except what it sets
  with \<open>PARENT_SCOPE\<close>. The cache, the targets, the installs, the messages and
  the list of configured directories are global; include directories are a
  property of the directory and do not flow back.
\<close>

definition cm_scope :: "(cmake_state \<Rightarrow> cm_error + cmake_state) \<Rightarrow> cmake_state \<Rightarrow> cm_error + cmake_state" where
  "cm_scope f st =
     (case f (st\<lparr>cm_parent := Map.empty\<rparr>) of
        Inl e \<Rightarrow> Inl e
      | Inr r \<Rightarrow> Inr (r\<lparr>cm_vars := cm_vars st ++ cm_parent r, cm_parent := cm_parent st,
                        cm_include_dirs := cm_include_dirs st\<rparr>))"

section \<open>The Python parser module (chrono_pyparser/CMakeLists.txt)\<close>

text \<open>
  \<open>find_package(PythonInterp REQUIRED)\<close> and
  \<open>find_package(PythonLibs ${PYTHON_VERSION_STRING} EXACT)\<close> (lines 40-41):
  the finder's answers are parameters, the interpreter (executable and version)
  and, for a version, the libraries (include directory and library files).
  Without an interpreter the configuration stops; without the libraries the
  variables hold the finder's \<open>-NOTFOUND\<close> values.
\<close>

record py_interp =
  py_executable :: string
  py_version :: string

definition find_python ::
  "py_interp option \<Rightarrow> (string \<Rightarrow> (string \<times> string list) option) \<Rightarrow> cmake_state \<Rightarrow> cm_error + cmake_state" where
  "find_python interp libs st =
     (case interp of
        None \<Rightarrow> Inl (FatalNotFound ''PythonInterp'')
      | Some r \<Rightarrow>
          (let st1 = cm_set ''PYTHON_VERSION_STRING'' (py_version r) (cm_set ''PYTHON_EXECUTABLE'' (py_executable r) st)
           in case libs (cm_get st1 ''PYTHON_VERSION_STRING'') of
                None \<Rightarrow> Inr (cm_set ''PYTHON_LIBRARIES'' ''PYTHON_LIBRARY-NOTFOUND''
                              (cm_set ''PYTHON_INCLUDE_DIR'' ''PYTHON_INCLUDE_DIR-NOTFOUND'' st1))
              | Some (inc, ls) \<Rightarrow> Inr (cm_set ''PYTHON_LIBRARIES'' (cm_join ls) (cm_set ''PYTHON_INCLUDE_DIR'' inc st1))))"

text \<open>Lines 15-31: the banner, the package name, the install-path override, the debug switch.\<close>

definition pyparser_header :: "cmake_state \<Rightarrow> cmake_state" where
  "pyparser_header st =
     (let st1 = cm_mark_advanced False ''SWIG_EXECUTABLE'' (cm_message ''==== Chrono Pyparser module ===='' st);
          st2 = cm_set ''CHPY_PACKAGENAME'' ''pychrono'' st1;
          st3 = (if cm_defined st2 ''CH_INSTALL_PYTHON_PACKAGE''
                 then cm_set ''CH_INSTALL_PYTHON'' (cm_get st2 ''CH_INSTALL_PYTHON_PACKAGE'')
                        (cm_message ''Override the CH_INSTALL_PYTHON with CH_INSTALL_PYTHON_PACKAGE'' st2)
                 else st2)
      in cm_set ''DBG_SCRIPT'' ''false'' st3)"

text \<open>Lines 43-56: the Python paths, the debug output, and their export to the parent scope.\<close>

definition pyparser_python_vars :: "cmake_state \<Rightarrow> cmake_state" where
  "pyparser_python_vars st =
     (let st1 = cm_set ''CH_PYTHONDIR'' (cm_dirname (cm_get st ''PYTHON_EXECUTABLE'')) st;
          st2 = cm_set ''CH_PYTHONINC'' (cm_get st1 ''PYTHON_INCLUDE_DIR'') st1;
          st3 = cm_set ''CH_PYTHONLIB'' (cm_get st2 ''PYTHON_LIBRARIES'') st2;
          st4 = (if cm_if_var st3 ''DBG_SCRIPT''
                 then cm_message (''CH_PYTHONLIB:   '' @ cm_get st3 ''CH_PYTHONLIB'')
                        (cm_message (''CH_PYTHONINC:   '' @ cm_get st3 ''CH_PYTHONINC'')
                          (cm_message (''CH_PYTHONDIR:   '' @ cm_get st3 ''CH_PYTHONDIR'') st3))
                 else st3)
      in cm_set_parent ''CH_PYTHONLIB'' (cm_get st4 ''CH_PYTHONLIB'')
           (cm_set_parent ''CH_PYTHONINC'' (cm_get st4 ''CH_PYTHONINC'')
             (cm_set_parent ''CH_PYTHONDIR'' (cm_get st4 ''CH_PYTHONDIR'') st4)))"

text \<open>
  Lines 62-97: the source lists, the include directory, the shared library
  target with its link flags, compile definitions, link libraries and
  dependency, and the install rules. \<open>source_group\<close> only arranges the files
  in an IDE and is not modelled.
\<close>

definition pyparser_library :: "cmake_state \<Rightarrow> cmake_state" where
  "pyparser_library st =
     (let lib = ''ChronoEngine_pyparser'';
          st1 = cm_message ''...add Chrono PYPARSER library'' st;
          st2 = cm_set ''ChronoEngine_PYPARSER_SOURCES'' (cm_join [''ChPython.cpp'']) st1;
          st3 = cm_set ''ChronoEngine_PYPARSER_HEADERS'' (cm_join [''ChApiPyParser.h'', ''ChPython.h'', ''ChSwigutils.h'']) st2;
          st4 = st3\<lparr>cm_include_dirs := cm_include_dirs st3 @ cm_split (cm_get st3 ''CH_PYTHONINC'')\<rparr>;
          st5 = st4\<lparr>cm_targets := cm_targets st4 @
                  [\<lparr>tg_name = lib, tg_type = ''SHARED'',
                    tg_sources = cm_split (cm_get st4 ''ChronoEngine_PYPARSER_SOURCES'')
                                 @ cm_split (cm_get st4 ''ChronoEngine_PYPARSER_HEADERS''),
                    tg_link_flags = [], tg_defs = [], tg_links = [], tg_deps = []\<rparr>]\<rparr>;
          st6 = cm_update_target lib (\<lambda>t. t\<lparr>tg_link_flags := cm_get st5 ''CH_LINKERFLAG_SHARED''\<rparr>) st5;
          st7 = cm_update_target lib (\<lambda>t. t\<lparr>tg_defs := tg_defs t @ [''CH_API_COMPILE_PYPARSER'']\<rparr>) st6;
          st8 = cm_update_target lib (\<lambda>t. t\<lparr>tg_defs := tg_defs t @ [''CH_IGNORE_DEPRECATED'']\<rparr>) st7;
          st9 = cm_update_target lib (\<lambda>t. t\<lparr>tg_links := tg_links t @ cm_split (cm_get st8 ''CH_PYTHONLIB'') @ [''ChronoEngine'']\<rparr>) st8;
          st10 = cm_update_target lib (\<lambda>t. t\<lparr>tg_deps := tg_deps t @ [''ChronoEngine'']\<rparr>) st9;
          st11 = st10\<lparr>cm_installs := cm_installs st10 @ [InstallTargets lib ''bin'' ''lib'' ''lib'']\<rparr>
      in st11\<lparr>cm_installs := cm_installs st11 @
           [InstallFiles (cm_split (cm_get st11 ''ChronoEngine_PYPARSER_HEADERS'')) ''include/chrono_pyparser'']\<rparr>)"

text \<open>The whole script (lines 7-97): the option, the early \<open>return()\<close>, then the sections in order.\<close>

definition pyparser_configure ::
  "py_interp option \<Rightarrow> (string \<Rightarrow> (string \<times> string list) option) \<Rightarrow> cmake_state \<Rightarrow> cm_error + cmake_state" where
  "pyparser_configure interp libs st =
     (let st1 = cm_option ''ENABLE_MODULE_PYTHON'' ''OFF'' st
      in if \<not> cm_if_var st1 ''ENABLE_MODULE_PYTHON'' then Inr (cm_mark_advanced True ''SWIG_EXECUTABLE'' st1)
         else (let st2 = cm_set ''Python_ADDITIONAL_VERSIONS'' ''3.4'' (cm_message ''...find Python'' (pyparser_header st1))
               in case find_python interp libs st2 of
                    Inl e \<Rightarrow> Inl e
                  | Inr st3 \<Rightarrow> Inr (pyparser_library (pyparser_python_vars st3))))"

section \<open>The demos (demos/CMakeLists.txt)\<close>

text \<open>
  Lines 217-233: the RPATH settings. The install RPATH is set to
  \<open>${CMAKE_INSTALL_PREFIX}/lib\<close>, then the prefix's \<open>lib\<close> is looked up among the
  platform's implicit link directories and, when it is not one of them, the same
  value is set again.
\<close>

definition demos_rpath :: "cmake_state \<Rightarrow> cmake_state" where
  "demos_rpath st =
     (let st1 = cm_set ''CMAKE_BUILD_WITH_INSTALL_RPATH'' ''FALSE'' (cm_set ''CMAKE_SKIP_BUILD_RPATH'' ''FALSE'' st);
          st2 = cm_set ''CMAKE_INSTALL_RPATH'' (cm_get st1 ''CMAKE_INSTALL_PREFIX'' @ ''/lib'') st1;
          st3 = cm_set ''CMAKE_INSTALL_RPATH_USE_LINK_PATH'' ''TRUE'' st2;
          st4 = cm_list_find ''CMAKE_PLATFORM_IMPLICIT_LINK_DIRECTORIES'' (cm_get st3 ''CMAKE_INSTALL_PREFIX'' @ ''/lib'')
                  ''isSystemDir'' st3
      in if cm_get st4 ''isSystemDir'' = ''-1''
         then cm_set ''CMAKE_INSTALL_RPATH'' (cm_get st4 ''CMAKE_INSTALL_PREFIX'' @ ''/lib'') st4
         else st4)"

text \<open>Lines 241-244: application bundles on macOS.\<close>

definition demos_bundle :: "cmake_state \<Rightarrow> cmake_state" where
  "demos_bundle st =
     (if cm_if_var st ''APPLE''
      then cm_set ''MACOSX_BUNDLE_INFO_PLIST'' (cm_get st ''PROJECT_SOURCE_DIR'' @ ''/cmake/MacOSXBundleInfo.plist.in'')
             (cm_set ''CMAKE_MACOSX_BUNDLE'' ''ON'' st)
      else st)"

text \<open>
  One demo group (e.g. lines 252-256): the option with its default, marked
  advanced, and the subdirectory when the option holds; a module's group
  (e.g. lines 270-276) is that block under the module's \<open>ENABLE_MODULE_\<close> flag.
\<close>

definition demo_block :: "string \<Rightarrow> string \<Rightarrow> string \<Rightarrow> cmake_state \<Rightarrow> cmake_state" where
  "demo_block opt dflt sub st =
     (let st1 = cm_mark_advanced True opt (cm_option opt dflt st)
      in if cm_if_var st1 opt then cm_add_subdirectory sub st1 else st1)"

definition module_demo_block :: "string \<times> string \<times> string \<Rightarrow> cmake_state \<Rightarrow> cmake_state" where
  "module_demo_block mod_opt_sub st =
     (case mod_opt_sub of (m, opt, sub) \<Rightarrow> if cm_if_var st m then demo_block opt ''TRUE'' sub st else st)"

text \<open>The module groups of lines 270-396, in the order of the file.\<close>

definition demo_modules :: "(string \<times> string \<times> string) list" where
  "demo_modules =
     [(''ENABLE_MODULE_COSIMULATION'', ''BUILD_DEMOS_COSIMULATION'', ''cosimulation''),
      (''ENABLE_MODULE_IRRLICHT'', ''BUILD_DEMOS_IRRLICHT'', ''irrlicht''),
      (''ENABLE_MODULE_MATLAB'', ''BUILD_DEMOS_MATLAB'', ''matlab''),
      (''ENABLE_MODULE_MUMPS'', ''BUILD_DEMOS_MUMPS'', ''mumps''),
      (''ENABLE_MODULE_CASCADE'', ''BUILD_DEMOS_CASCADE'', ''cascade''),
      (''ENABLE_MODULE_PYTHON'', ''BUILD_DEMOS_PYTHON'', ''pyparser''),
      (''ENABLE_MODULE_GPU'', ''BUILD_DEMOS_GPU'', ''gpu''),
      (''ENABLE_MODULE_POSTPROCESS'', ''BUILD_DEMOS_POSTPROCESS'', ''postprocess''),
      (''ENABLE_MODULE_MULTICORE'', ''BUILD_DEMOS_MULTICORE'', ''multicore''),
      (''ENABLE_MODULE_OPENGL'', ''BUILD_DEMOS_OPENGL'', ''opengl''),
      (''ENABLE_MODULE_VEHICLE'', ''BUILD_DEMOS_VEHICLE'', ''vehicle''),
      (''ENABLE_MODULE_FSI'', ''BUILD_DEMOS_FSI'', ''fsi''),
      (''ENABLE_MODULE_DISTRIBUTED'', ''BUILD_DEMOS_DISTRIBUTED'', ''distributed''),
      (''ENABLE_MODULE_SENSOR'', ''BUILD_DEMOS_SENSOR'', ''sensor''),
      (''ENABLE_MODULE_SYNCHRONO'', ''BUILD_DEMOS_SYNCHRONO'', ''synchrono''),
      (''ENABLE_MODULE_MODAL'', ''BUILD_DEMOS_MODAL'', ''modal'')]"

text \<open>The whole script (lines 213-397).\<close>

definition demos_configure :: "cmake_state \<Rightarrow> cmake_state" where
  "demos_configure st =
     (let st1 = demos_bundle (demos_rpath st);
          st2 = cm_message [] (cm_message ''==== Demo programs ===='' (cm_message [] st1));
          st3 = demo_block ''BUILD_DEMOS_ROBOT'' ''ON'' ''robot''
                  (demo_block ''BUILD_DEMOS_FEA'' ''TRUE'' ''fea'' (demo_block ''BUILD_DEMOS_BASE'' ''TRUE'' ''core'' st2))
      in foldl (\<lambda>s b. module_demo_block b s) st3 demo_modules)"

text \<open>A demo option holds when it is not defined yet (its default is true) or is set to a true value.\<close>

definition demo_on :: "cmake_state \<Rightarrow> string \<Rightarrow> bool" where
  "demo_on st opt = (\<not> cm_defined st opt \<or> cm_if_var st opt)"

section \<open>Lemmas\<close>

named_theorems cm_ops "the configuration commands, unfolded"

declare cm_set_def [cm_ops] cm_set_parent_def [cm_ops] cm_option_def [cm_ops] cm_mark_advanced_def [cm_ops]
  cm_message_def [cm_ops] cm_add_subdirectory_def [cm_ops] cm_update_target_def [cm_ops]

lemma cm_get_set [simp]: "cm_get (cm_set y v st) x = (if x = y then v else cm_get st x)"
  by (simp add: cm_get_def cm_set_def split: option.split)

lemma cm_vars_set [simp]: "cm_vars (cm_set y v st) = (cm_vars st)(y \<mapsto> v)"
  by (simp add: cm_set_def)

lemma cm_defined_set [simp]: "cm_defined (cm_set y v st) x = (x = y \<or> cm_defined st x)"
  by (auto simp: cm_defined_def cm_set_def)

lemma cm_if_var_set_other [simp]: "x \<noteq> y \<Longrightarrow> cm_if_var (cm_set y v st) x = cm_if_var st x"
  by (simp add: cm_if_var_def)

text \<open>Commands that leave the variables alone.\<close>

lemma cm_vars_cache_keep [simp]:
  "cm_vars (cm_message s st) = cm_vars st" "cm_cache (cm_message s st) = cm_cache st"
  "cm_vars (cm_mark_advanced b y st) = cm_vars st" "cm_cache (cm_mark_advanced b y st) = cm_cache st"
  "cm_vars (cm_add_subdirectory d st) = cm_vars st" "cm_cache (cm_add_subdirectory d st) = cm_cache st"
  "cm_vars (cm_set_parent y v st) = cm_vars st" "cm_cache (cm_set_parent y v st) = cm_cache st"
  "cm_vars (cm_update_target n f st) = cm_vars st" "cm_cache (cm_update_target n f st) = cm_cache st"
  "cm_cache (cm_set y v st) = cm_cache st"
  by (simp_all add: cm_ops)

lemma cm_get_defined_cong:
  "cm_vars st' = cm_vars st \<Longrightarrow> cm_cache st' = cm_cache st \<Longrightarrow>
   cm_get st' = cm_get st \<and> cm_defined st' = cm_defined st \<and> cm_if_var st' = cm_if_var st"
  by (simp add: fun_eq_iff cm_get_def cm_defined_def cm_if_var_def split: option.split)

lemma cm_option_get:
  "cm_get (cm_option y d st) x = (if x = y \<and> \<not> cm_defined st y then d else cm_get st x)"
  "cm_defined (cm_option y d st) x = (x = y \<or> cm_defined st x)"
  by (auto simp: cm_option_def cm_get_def cm_defined_def split: option.split)

lemma cm_option_vars [simp]: "cm_vars (cm_option y d st) = cm_vars st" "cm_parent (cm_option y d st) = cm_parent st"
  by (simp_all add: cm_option_def)

lemma cm_option_if_var_other: "x \<noteq> y \<Longrightarrow> cm_if_var (cm_option y d st) x = cm_if_var st x"
  by (simp add: cm_if_var_def cm_option_get)

lemma cm_option_if_var_self:
  "cm_if_var (cm_option y d st) y = (if cm_defined st y then cm_if_var st y else \<not> cmake_false_const d)"
  by (simp add: cm_if_var_def cm_option_get)

lemma cmake_true_consts: "\<not> cmake_false_const ''TRUE''" "\<not> cmake_false_const ''ON''" "cmake_false_const ''OFF''"
  by (simp_all add: cmake_false_const_def cmake_upper_def upper_char_def ends_with_def)

lemma cm_view_keep [simp]:
  "cm_get (cm_message s st) = cm_get st" "cm_defined (cm_message s st) = cm_defined st" "cm_if_var (cm_message s st) = cm_if_var st"
  "cm_get (cm_mark_advanced b y st) = cm_get st" "cm_defined (cm_mark_advanced b y st) = cm_defined st"
  "cm_if_var (cm_mark_advanced b y st) = cm_if_var st"
  "cm_get (cm_add_subdirectory d st) = cm_get st" "cm_defined (cm_add_subdirectory d st) = cm_defined st"
  "cm_if_var (cm_add_subdirectory d st) = cm_if_var st"
  "cm_get (cm_set_parent y v st) = cm_get st" "cm_defined (cm_set_parent y v st) = cm_defined st"
  "cm_if_var (cm_set_parent y v st) = cm_if_var st"
  "cm_get (cm_update_target n f st) = cm_get st" "cm_defined (cm_update_target n f st) = cm_defined st"
  "cm_if_var (cm_update_target n f st) = cm_if_var st"
  using cm_get_defined_cong [of "cm_message s st" st] cm_get_defined_cong [of "cm_mark_advanced b y st" st]
    cm_get_defined_cong [of "cm_add_subdirectory d st" st] cm_get_defined_cong [of "cm_set_parent y v st" st]
    cm_get_defined_cong [of "cm_update_target n f st" st]
  by simp_all

lemma cm_subdirs_ops [simp]:
  "cm_subdirs (cm_add_subdirectory d st) = cm_subdirs st @ [d]" "cm_subdirs (cm_mark_advanced b y st) = cm_subdirs st"
  "cm_subdirs (cm_option y v st) = cm_subdirs st" "cm_subdirs (cm_message s st) = cm_subdirs st"
  "cm_subdirs (cm_set y v st) = cm_subdirs st"
  by (simp_all add: cm_ops)

lemma demo_block_subdirs:
  "\<not> cmake_false_const dflt \<Longrightarrow>
   cm_subdirs (demo_block opt dflt sub st) = cm_subdirs st @ (if demo_on st opt then [sub] else [])"
  by (simp add: demo_block_def Let_def cm_option_if_var_self demo_on_def)

lemma demo_block_other:
  assumes "x \<noteq> opt"
  shows "cm_if_var (demo_block opt dflt sub st) x = cm_if_var st x"
    and "demo_on (demo_block opt dflt sub st) x = demo_on st x"
  using assms by (simp_all add: demo_block_def Let_def cm_option_if_var_other cm_option_get demo_on_def)

lemma module_demo_block_facts:
  assumes "b = (m, opt, sub)"
  shows "cm_subdirs (module_demo_block b st) = cm_subdirs st @ (if cm_if_var st m \<and> demo_on st opt then [sub] else [])"
    and "x \<noteq> opt \<Longrightarrow> cm_if_var (module_demo_block b st) x = cm_if_var st x"
    and "x \<noteq> opt \<Longrightarrow> demo_on (module_demo_block b st) x = demo_on st x"
  using assms by (simp_all add: module_demo_block_def demo_block_subdirs demo_block_other cmake_true_consts)

lemma module_demo_fold:
  assumes "distinct (map (fst \<circ> snd) ms)" and "\<forall>b \<in> set ms. \<forall>b' \<in> set ms. fst b \<noteq> fst (snd b')"
  shows "cm_subdirs (foldl (\<lambda>s b. module_demo_block b s) st ms)
           = cm_subdirs st @ map (snd \<circ> snd) (filter (\<lambda>(m, opt, sub). cm_if_var st m \<and> demo_on st opt) ms)"
  using assms
proof (induction ms arbitrary: st)
  case Nil
  then show ?case by simp
next
  case (Cons b ms)
  obtain m opt sub where b: "b = (m, opt, sub)" by (cases b) auto
  let ?st' = "module_demo_block b st"
  have "filter (\<lambda>(m, opt, sub). cm_if_var ?st' m \<and> demo_on ?st' opt) ms
          = filter (\<lambda>(m, opt, sub). cm_if_var st m \<and> demo_on st opt) ms"
  proof (rule filter_cong [OF refl])
    fix c assume c: "c \<in> set ms"
    obtain m2 opt2 sub2 where c2: "c = (m2, opt2, sub2)" by (cases c) auto
    have "m2 \<noteq> opt" using Cons.prems(2) c b c2 by fastforce
    moreover have "opt2 \<noteq> opt" using Cons.prems(1) c b c2 by force
    ultimately show "(case c of (m, opt, sub) \<Rightarrow> cm_if_var ?st' m \<and> demo_on ?st' opt)
                   = (case c of (m, opt, sub) \<Rightarrow> cm_if_var st m \<and> demo_on st opt)"
      using c2 module_demo_block_facts(2,3) [OF b] by simp
  qed
  moreover have "cm_subdirs (foldl (\<lambda>s b. module_demo_block b s) ?st' ms)
      = cm_subdirs ?st' @ map (snd \<circ> snd) (filter (\<lambda>(m, opt, sub). cm_if_var ?st' m \<and> demo_on ?st' opt) ms)"
    using Cons.prems by (intro Cons.IH) auto
  ultimately show ?case by (simp add: module_demo_block_facts(1) [OF refl] b)
qed

text \<open>The variables the RPATH and bundle sections and the three base demo groups write.\<close>

lemma demos_prefix_frame:
  assumes "x \<notin> set [''CMAKE_SKIP_BUILD_RPATH'', ''CMAKE_BUILD_WITH_INSTALL_RPATH'', ''CMAKE_INSTALL_RPATH'',
                    ''CMAKE_INSTALL_RPATH_USE_LINK_PATH'', ''isSystemDir'', ''CMAKE_MACOSX_BUNDLE'', ''MACOSX_BUNDLE_INFO_PLIST'']"
  shows "cm_if_var (demos_bundle (demos_rpath st)) x = cm_if_var st x"
    and "demo_on (demos_bundle (demos_rpath st)) x = demo_on st x"
  using assms
  by (simp_all add: demos_rpath_def demos_bundle_def cm_list_find_def Let_def cm_if_var_def demo_on_def)

lemma demos_prefix_subdirs: "cm_subdirs (demos_bundle (demos_rpath st)) = cm_subdirs st"
  by (simp add: demos_rpath_def demos_bundle_def cm_list_find_def Let_def)

lemma demo_modules_names:
  "distinct (map (fst \<circ> snd) demo_modules)"
  "\<forall>b \<in> set demo_modules. \<forall>b' \<in> set demo_modules. fst b \<noteq> fst (snd b')"
  "\<forall>b \<in> set demo_modules. \<forall>x \<in> {fst b, fst (snd b)}.
     x \<notin> set [''CMAKE_SKIP_BUILD_RPATH'', ''CMAKE_BUILD_WITH_INSTALL_RPATH'', ''CMAKE_INSTALL_RPATH'',
                ''CMAKE_INSTALL_RPATH_USE_LINK_PATH'', ''isSystemDir'', ''CMAKE_MACOSX_BUNDLE'', ''MACOSX_BUNDLE_INFO_PLIST'',
                ''BUILD_DEMOS_BASE'', ''BUILD_DEMOS_FEA'', ''BUILD_DEMOS_ROBOT'']"
  by (simp_all add: demo_modules_def)

lemma demos_configure_subdirs:
  "cm_subdirs (demos_configure st) = cm_subdirs st
     @ map snd (filter (\<lambda>(opt, sub). demo_on st opt)
                 [(''BUILD_DEMOS_BASE'', ''core''), (''BUILD_DEMOS_FEA'', ''fea''), (''BUILD_DEMOS_ROBOT'', ''robot'')])
     @ map (snd \<circ> snd) (filter (\<lambda>(m, opt, sub). cm_if_var st m \<and> demo_on st opt) demo_modules)"
proof -
  define st2 where "st2 = cm_message [] (cm_message ''==== Demo programs ===='' (cm_message [] (demos_bundle (demos_rpath st))))"
  define st3 where "st3 = demo_block ''BUILD_DEMOS_ROBOT'' ''ON'' ''robot''
                  (demo_block ''BUILD_DEMOS_FEA'' ''TRUE'' ''fea'' (demo_block ''BUILD_DEMOS_BASE'' ''TRUE'' ''core'' st2))"
  have pre: "cm_if_var st2 x = cm_if_var st x \<and> demo_on st2 x = demo_on st x"
    if "x \<notin> set [''CMAKE_SKIP_BUILD_RPATH'', ''CMAKE_BUILD_WITH_INSTALL_RPATH'', ''CMAKE_INSTALL_RPATH'',
                    ''CMAKE_INSTALL_RPATH_USE_LINK_PATH'', ''isSystemDir'', ''CMAKE_MACOSX_BUNDLE'', ''MACOSX_BUNDLE_INFO_PLIST'']" for x
    using demos_prefix_frame [OF that, of st] by (simp add: st2_def demo_on_def)
  have sub2: "cm_subdirs st2 = cm_subdirs st"
    by (simp add: st2_def demos_prefix_subdirs)
  have a: "demo_on st2 ''BUILD_DEMOS_BASE'' = demo_on st ''BUILD_DEMOS_BASE''"
       "demo_on st2 ''BUILD_DEMOS_FEA'' = demo_on st ''BUILD_DEMOS_FEA''"
       "demo_on st2 ''BUILD_DEMOS_ROBOT'' = demo_on st ''BUILD_DEMOS_ROBOT''"
    by (simp_all add: pre)
  have sub3: "cm_subdirs st3 = cm_subdirs st
     @ map snd (filter (\<lambda>(opt, sub). demo_on st opt)
                 [(''BUILD_DEMOS_BASE'', ''core''), (''BUILD_DEMOS_FEA'', ''fea''), (''BUILD_DEMOS_ROBOT'', ''robot'')])"
    by (simp add: st3_def demo_block_subdirs cmake_true_consts demo_block_other a sub2)
  have keep3: "cm_if_var st3 x = cm_if_var st x \<and> demo_on st3 x = demo_on st x"
    if x: "x \<notin> set [''CMAKE_SKIP_BUILD_RPATH'', ''CMAKE_BUILD_WITH_INSTALL_RPATH'', ''CMAKE_INSTALL_RPATH'',
                ''CMAKE_INSTALL_RPATH_USE_LINK_PATH'', ''isSystemDir'', ''CMAKE_MACOSX_BUNDLE'', ''MACOSX_BUNDLE_INFO_PLIST'',
                ''BUILD_DEMOS_BASE'', ''BUILD_DEMOS_FEA'', ''BUILD_DEMOS_ROBOT'']" for x
  proof -
    have ne: "x \<noteq> ''BUILD_DEMOS_BASE''" "x \<noteq> ''BUILD_DEMOS_FEA''" "x \<noteq> ''BUILD_DEMOS_ROBOT''" using x by auto
    have "x \<notin> set [''CMAKE_SKIP_BUILD_RPATH'', ''CMAKE_BUILD_WITH_INSTALL_RPATH'', ''CMAKE_INSTALL_RPATH'',
                    ''CMAKE_INSTALL_RPATH_USE_LINK_PATH'', ''isSystemDir'', ''CMAKE_MACOSX_BUNDLE'', ''MACOSX_BUNDLE_INFO_PLIST'']"
      using x by auto
    then have p: "cm_if_var st2 x = cm_if_var st x \<and> demo_on st2 x = demo_on st x" by (rule pre)
    show ?thesis
      unfolding st3_def
      by (simp only: demo_block_other [OF ne(1)] demo_block_other [OF ne(2)] demo_block_other [OF ne(3)] p)
  qed
  have "filter (\<lambda>(m, opt, sub). cm_if_var st3 m \<and> demo_on st3 opt) demo_modules
      = filter (\<lambda>(m, opt, sub). cm_if_var st m \<and> demo_on st opt) demo_modules"
  proof (rule filter_cong [OF refl])
    fix b assume b: "b \<in> set demo_modules"
    obtain m opt sub where e: "b = (m, opt, sub)" by (cases b) auto
    have "m \<in> {fst b, fst (snd b)}" "opt \<in> {fst b, fst (snd b)}" using e by simp_all
    then have "cm_if_var st3 m = cm_if_var st m" "demo_on st3 opt = demo_on st opt"
      using demo_modules_names(3) b keep3 by blast+
    then show "(case b of (m, opt, sub) \<Rightarrow> cm_if_var st3 m \<and> demo_on st3 opt)
             = (case b of (m, opt, sub) \<Rightarrow> cm_if_var st m \<and> demo_on st opt)"
      using e by simp
  qed
  moreover have "demos_configure st = foldl (\<lambda>s b. module_demo_block b s) st3 demo_modules"
    unfolding demos_configure_def st3_def st2_def Let_def by (rule refl)
  ultimately show ?thesis
    using module_demo_fold [OF demo_modules_names(1,2), of st3] sub3 by simp
qed

text \<open>Joining a list and splitting it again gives the list back, when no element is empty or holds a \<open>;\<close>.\<close>

lemma cm_split_acc_append:
  "CHR '';'' \<notin> set s \<Longrightarrow> cm_split_acc cur (s @ r) = cm_split_acc (rev s @ cur) r"
  by (induction s arbitrary: cur) auto

lemma cm_split_join:
  assumes "\<forall>x \<in> set xs. x \<noteq> [] \<and> CHR '';'' \<notin> set x"
  shows "cm_split (cm_join xs) = xs"
  using assms
proof (induction xs rule: cm_join.induct)
  case 1
  then show ?case by (simp add: cm_split_def)
next
  case (2 x)
  then show ?case using cm_split_acc_append [of x "[]" "[]"] by (simp add: cm_split_def)
next
  case (3 x y ys)
  have "cm_split_acc [] (x @ '';'' @ cm_join (y # ys)) = [x] @ cm_split_acc [] (cm_join (y # ys))"
    using 3(2) cm_split_acc_append [of x "[]" "'';'' @ cm_join (y # ys)"] by simp
  then show ?case using 3 by (simp add: cm_split_def)
qed

lemma nat_digits_not_minus: "CHR ''-'' \<notin> set (nat_digits n)"
proof (induction n rule: nat_digits.induct)
  case (1 n)
  have d: "char_of (48 + k) \<noteq> CHR ''-''" if "k < 10" for k :: nat
  proof -
    have o: "of_char (char_of (48 + k) :: char) = (48 + k :: nat)" using that by (simp add: of_char_of)
    show ?thesis
    proof
      assume "char_of (48 + k) = CHR ''-''"
      then have "of_char (CHR ''-'') = (48 + k :: nat)" using o by simp
      then show False by simp
    qed
  qed
  show ?case
  proof (cases "n < 10")
    case True
    then show ?thesis using d [OF True] by (subst nat_digits.simps) simp
  next
    case False
    then show ?thesis using 1 d [of "n mod 10"] by (subst nat_digits.simps) simp
  qed
qed

lemma demo_block_vars: "cm_vars (demo_block opt dflt sub st) = cm_vars st"
  by (simp add: demo_block_def Let_def cm_option_def cm_ops)

lemma demos_configure_vars: "cm_vars (demos_configure st) = cm_vars (demos_bundle (demos_rpath st))"
proof -
  have "cm_vars (foldl (\<lambda>s b. module_demo_block b s) s0 ms) = cm_vars s0" for s0 ms
    by (induction ms arbitrary: s0) (simp_all add: module_demo_block_def demo_block_vars split: prod.split)
  then show ?thesis by (simp add: demos_configure_def Let_def demo_block_vars)
qed

lemma cm_get_vars: "cm_vars st x = Some v \<Longrightarrow> cm_get st x = v"
  by (simp add: cm_get_def)

lemma demos_rpath_vars:
  "cm_vars (demos_configure st) ''CMAKE_INSTALL_RPATH'' = Some (cm_get st ''CMAKE_INSTALL_PREFIX'' @ ''/lib'')"
  "cm_vars (demos_configure st) ''isSystemDir'' =
     Some (let xs = cm_split (cm_get st ''CMAKE_PLATFORM_IMPLICIT_LINK_DIRECTORIES'');
               item = cm_get st ''CMAKE_INSTALL_PREFIX'' @ ''/lib''
           in if item \<in> set xs then nat_digits (length (takeWhile (\<lambda>y. y \<noteq> item) xs)) else ''-1'')"
  by (simp_all add: demos_configure_vars demos_rpath_def demos_bundle_def cm_list_find_def Let_def)

lemma cm_if_var_option_off:
  "cm_if_var (cm_option x ''OFF'' st) x = cm_if_var st x"
  by (simp add: cm_option_if_var_self cmake_true_consts) (simp add: cm_if_var_def)

lemma cm_targets_ops [simp]:
  "cm_targets (cm_set y v st) = cm_targets st" "cm_targets (cm_set_parent y v st) = cm_targets st"
  "cm_targets (cm_message s st) = cm_targets st" "cm_targets (cm_mark_advanced b y st) = cm_targets st"
  "cm_targets (cm_option y v st) = cm_targets st"
  "cm_parent (cm_set y v st) = cm_parent st" "cm_parent (cm_message s st) = cm_parent st"
  "cm_parent (cm_mark_advanced b y st) = cm_parent st" "cm_parent (cm_option y v st) = cm_parent st"
  "cm_parent (cm_set_parent y v st) = (cm_parent st)(y \<mapsto> v)"
  "cm_messages (cm_set y v st) = cm_messages st" "cm_messages (cm_set_parent y v st) = cm_messages st"
  "cm_messages (cm_message s st) = cm_messages st @ [s]"
  by (simp_all add: cm_ops)

lemma cm_update_target_targets [simp]:
  "cm_targets (cm_update_target n f st) = map (\<lambda>t. if tg_name t = n then f t else t) (cm_targets st)"
  "cm_parent (cm_update_target n f st) = cm_parent st"
  by (simp_all add: cm_update_target_def)

lemma cm_view_parent [simp]:
  "cm_get (st\<lparr>cm_parent := p\<rparr>) = cm_get st" "cm_defined (st\<lparr>cm_parent := p\<rparr>) = cm_defined st"
  "cm_if_var (st\<lparr>cm_parent := p\<rparr>) = cm_if_var st"
  using cm_get_defined_cong [of "st\<lparr>cm_parent := p\<rparr>" st] by simp_all

lemma cm_view_fields [simp]:
  "cm_get (st\<lparr>cm_include_dirs := i\<rparr>) = cm_get st" "cm_get (st\<lparr>cm_targets := ts\<rparr>) = cm_get st"
  "cm_get (st\<lparr>cm_installs := is\<rparr>) = cm_get st"
  by (simp_all add: cm_get_def fun_eq_iff split: option.split)

text \<open>The interpreter found: the variables \<open>find_python\<close> leaves for the rest of the script.\<close>

lemma find_python_Some:
  "find_python (Some r) libs st = Inr (case libs (py_version r) of
       None \<Rightarrow> cm_set ''PYTHON_LIBRARIES'' ''PYTHON_LIBRARY-NOTFOUND''
                 (cm_set ''PYTHON_INCLUDE_DIR'' ''PYTHON_INCLUDE_DIR-NOTFOUND''
                   (cm_set ''PYTHON_VERSION_STRING'' (py_version r) (cm_set ''PYTHON_EXECUTABLE'' (py_executable r) st)))
     | Some (inc, ls) \<Rightarrow> cm_set ''PYTHON_LIBRARIES'' (cm_join ls) (cm_set ''PYTHON_INCLUDE_DIR'' inc
                 (cm_set ''PYTHON_VERSION_STRING'' (py_version r) (cm_set ''PYTHON_EXECUTABLE'' (py_executable r) st))))"
  by (simp add: find_python_def Let_def split: option.split)

lemma pyparser_library_result:
  assumes "\<forall>t \<in> set (cm_targets st). tg_name t \<noteq> ''ChronoEngine_pyparser''"
  shows "cm_targets (pyparser_library st) = cm_targets st @
           [\<lparr>tg_name = ''ChronoEngine_pyparser'', tg_type = ''SHARED'',
             tg_sources = [''ChPython.cpp'', ''ChApiPyParser.h'', ''ChPython.h'', ''ChSwigutils.h''],
             tg_link_flags = cm_get st ''CH_LINKERFLAG_SHARED'',
             tg_defs = [''CH_API_COMPILE_PYPARSER'', ''CH_IGNORE_DEPRECATED''],
             tg_links = cm_split (cm_get st ''CH_PYTHONLIB'') @ [''ChronoEngine''],
             tg_deps = [''ChronoEngine'']\<rparr>]"
    and "cm_parent (pyparser_library st) = cm_parent st"
  using assms
  by (simp_all add: pyparser_library_def Let_def cm_split_def) (auto intro!: map_idI)

lemma pyparser_header_facts:
  "x \<notin> {''CHPY_PACKAGENAME'', ''CH_INSTALL_PYTHON'', ''DBG_SCRIPT''} \<Longrightarrow> cm_get (pyparser_header st) x = cm_get st x"
  "cm_vars (pyparser_header st) ''DBG_SCRIPT'' = Some ''false''"
  "cm_targets (pyparser_header st) = cm_targets st" "cm_parent (pyparser_header st) = cm_parent st"
  by (simp_all add: pyparser_header_def Let_def)

lemma pyparser_python_vars_facts:
  assumes "cm_vars st ''DBG_SCRIPT'' = Some ''false''"
  shows "cm_targets (pyparser_python_vars st) = cm_targets st"
    and "cm_parent (pyparser_python_vars st) = (cm_parent st)
           (''CH_PYTHONDIR'' \<mapsto> cm_dirname (cm_get st ''PYTHON_EXECUTABLE''),
            ''CH_PYTHONINC'' \<mapsto> cm_get st ''PYTHON_INCLUDE_DIR'',
            ''CH_PYTHONLIB'' \<mapsto> cm_get st ''PYTHON_LIBRARIES'')"
    and "cm_messages (pyparser_python_vars st) = cm_messages st"
    and "cm_get (pyparser_python_vars st) ''CH_PYTHONLIB'' = cm_get st ''PYTHON_LIBRARIES''"
    and "x \<notin> {''CH_PYTHONDIR'', ''CH_PYTHONINC'', ''CH_PYTHONLIB''} \<Longrightarrow> cm_get (pyparser_python_vars st) x = cm_get st x"
proof -
  have "\<not> cm_if_var st ''DBG_SCRIPT''"
    using assms by (simp add: cm_if_var_def cm_get_def cmake_false_const_def cmake_upper_def upper_char_def
        char_of_def bit_simps)
  then show "cm_targets (pyparser_python_vars st) = cm_targets st"
    and "cm_parent (pyparser_python_vars st) = (cm_parent st)
           (''CH_PYTHONDIR'' \<mapsto> cm_dirname (cm_get st ''PYTHON_EXECUTABLE''),
            ''CH_PYTHONINC'' \<mapsto> cm_get st ''PYTHON_INCLUDE_DIR'',
            ''CH_PYTHONLIB'' \<mapsto> cm_get st ''PYTHON_LIBRARIES'')"
    and "cm_messages (pyparser_python_vars st) = cm_messages st"
    and "cm_get (pyparser_python_vars st) ''CH_PYTHONLIB'' = cm_get st ''PYTHON_LIBRARIES''"
    and "x \<notin> {''CH_PYTHONDIR'', ''CH_PYTHONINC'', ''CH_PYTHONLIB''} \<Longrightarrow> cm_get (pyparser_python_vars st) x = cm_get st x"
    by (simp_all add: pyparser_python_vars_def Let_def)
qed

lemma pyparser_enabled:
  assumes "cm_if_var st ''ENABLE_MODULE_PYTHON''"
  shows "pyparser_configure interp libs st =
     (case find_python interp libs (cm_set ''Python_ADDITIONAL_VERSIONS'' ''3.4'' (cm_message ''...find Python''
             (pyparser_header (cm_option ''ENABLE_MODULE_PYTHON'' ''OFF'' st)))) of
        Inl e \<Rightarrow> Inl e
      | Inr st3 \<Rightarrow> Inr (pyparser_library (pyparser_python_vars st3)))"
  using assms by (simp add: pyparser_configure_def Let_def cm_if_var_option_off)

text \<open>
  With the module enabled and an interpreter found, the script adds the library
  target (linking the value \<open>PYTHON_LIBRARIES\<close> holds, found or not) and exports
  the Python paths to the parent scope.
\<close>

lemma pyparser_found:
  assumes "cm_if_var st ''ENABLE_MODULE_PYTHON''"
    and "\<forall>t \<in> set (cm_targets st). tg_name t \<noteq> ''ChronoEngine_pyparser''"
    and "(inc, lib) = (case libs (py_version r) of None \<Rightarrow> (''PYTHON_INCLUDE_DIR-NOTFOUND'', ''PYTHON_LIBRARY-NOTFOUND'')
                                               | Some (i, ls) \<Rightarrow> (i, cm_join ls))"
  shows "\<exists>st'. pyparser_configure (Some r) libs st = Inr st'
     \<and> cm_targets st' = cm_targets st @
         [\<lparr>tg_name = ''ChronoEngine_pyparser'', tg_type = ''SHARED'',
           tg_sources = [''ChPython.cpp'', ''ChApiPyParser.h'', ''ChPython.h'', ''ChSwigutils.h''],
           tg_link_flags = cm_get st ''CH_LINKERFLAG_SHARED'',
           tg_defs = [''CH_API_COMPILE_PYPARSER'', ''CH_IGNORE_DEPRECATED''],
           tg_links = cm_split lib @ [''ChronoEngine''], tg_deps = [''ChronoEngine'']\<rparr>]
     \<and> cm_parent st' = (cm_parent st)(''CH_PYTHONDIR'' \<mapsto> cm_dirname (py_executable r),
                          ''CH_PYTHONINC'' \<mapsto> inc, ''CH_PYTHONLIB'' \<mapsto> lib)"
proof -
  define s2 where "s2 = cm_set ''Python_ADDITIONAL_VERSIONS'' ''3.4'' (cm_message ''...find Python''
             (pyparser_header (cm_option ''ENABLE_MODULE_PYTHON'' ''OFF'' st)))"
  define s3 where "s3 = cm_set ''PYTHON_LIBRARIES'' lib (cm_set ''PYTHON_INCLUDE_DIR'' inc
                 (cm_set ''PYTHON_VERSION_STRING'' (py_version r) (cm_set ''PYTHON_EXECUTABLE'' (py_executable r) s2)))"
  have conf: "pyparser_configure (Some r) libs st = Inr (pyparser_library (pyparser_python_vars s3))"
    using assms(3) by (auto simp: pyparser_enabled [OF assms(1)] find_python_Some s2_def s3_def split: option.splits)
  have dbg: "cm_vars s3 ''DBG_SCRIPT'' = Some ''false''"
    by (simp add: s3_def s2_def pyparser_header_facts(2))
  have tg: "cm_targets s3 = cm_targets st" and par: "cm_parent s3 = cm_parent st"
    by (simp_all add: s3_def s2_def pyparser_header_facts(3,4))
  have lf: "cm_get s3 ''CH_LINKERFLAG_SHARED'' = cm_get st ''CH_LINKERFLAG_SHARED''"
    by (simp add: s3_def s2_def pyparser_header_facts(1) cm_option_get)
  have fresh: "\<forall>t \<in> set (cm_targets (pyparser_python_vars s3)). tg_name t \<noteq> ''ChronoEngine_pyparser''"
    using assms(2) by (simp add: pyparser_python_vars_facts(1) [OF dbg] tg)
  show ?thesis
    unfolding conf
    using pyparser_library_result [OF fresh]
    by (simp add: pyparser_python_vars_facts [OF dbg] tg par lf) (simp add: s3_def)
qed

text \<open>What each script leaves to the other: the Python script adds no directory, the demos add no target.\<close>

lemma pyparser_configure_subdirs:
  assumes "pyparser_configure i l st = Inr r"
  shows "cm_subdirs r = cm_subdirs st"
proof -
  have s: "cm_subdirs (cm_set_parent y v s) = cm_subdirs s" "cm_subdirs (cm_update_target n f s) = cm_subdirs s"
    for y v s n f by (simp_all add: cm_ops)
  have h: "cm_subdirs (pyparser_header s) = cm_subdirs s" for s
    by (simp add: pyparser_header_def Let_def split: if_split)
  have p: "cm_subdirs (pyparser_python_vars s) = cm_subdirs s" for s
    by (simp add: pyparser_python_vars_def Let_def s split: if_split)
  have lib: "cm_subdirs (pyparser_library s) = cm_subdirs s" for s
    by (simp add: pyparser_library_def Let_def s)
  have f: "find_python i' l s = Inr s' \<Longrightarrow> cm_subdirs s' = cm_subdirs s" for i' s s'
    by (auto simp: find_python_def Let_def split: option.splits)
  show ?thesis
    using assms
    by (auto simp: pyparser_configure_def Let_def h p lib dest!: f split: if_splits sum.splits)
qed

lemma pyparser_configure_cache:
  assumes "pyparser_configure i l st = Inr r"
  shows "cm_cache r = cm_cache (cm_option ''ENABLE_MODULE_PYTHON'' ''OFF'' st)"
proof -
  have s: "cm_cache (cm_set_parent y v s) = cm_cache s" "cm_cache (cm_update_target n f s) = cm_cache s"
    for y v s n f by (simp_all add: cm_ops)
  have h: "cm_cache (pyparser_header s) = cm_cache s" for s
    by (simp add: pyparser_header_def Let_def split: if_split)
  have p: "cm_cache (pyparser_python_vars s) = cm_cache s" for s
    by (simp add: pyparser_python_vars_def Let_def s split: if_split)
  have lib: "cm_cache (pyparser_library s) = cm_cache s" for s
    by (simp add: pyparser_library_def Let_def s)
  have f: "find_python i' l s = Inr s' \<Longrightarrow> cm_cache s' = cm_cache s" for i' s s'
    by (auto simp: find_python_def Let_def split: option.splits)
  show ?thesis
    using assms
    by (auto simp: pyparser_configure_def Let_def h p lib dest!: f split: if_splits sum.splits)
qed

lemma demos_configure_targets: "cm_targets (demos_configure st) = cm_targets st"
proof -
  have b: "cm_targets (demo_block opt dflt sub s) = cm_targets s" for opt dflt sub s
    by (simp add: demo_block_def Let_def cm_ops)
  have "cm_targets (foldl (\<lambda>s b. module_demo_block b s) s0 ms) = cm_targets s0" for s0 ms
    by (induction ms arbitrary: s0) (simp_all add: module_demo_block_def b split: prod.split)
  then show ?thesis
    by (simp add: demos_configure_def Let_def b demos_rpath_def demos_bundle_def cm_list_find_def)
qed

lemma pyparser_disabled:
  "\<not> cm_if_var st ''ENABLE_MODULE_PYTHON'' \<Longrightarrow>
   pyparser_configure i l st = Inr (cm_mark_advanced True ''SWIG_EXECUTABLE'' (cm_option ''ENABLE_MODULE_PYTHON'' ''OFF'' st))"
  by (simp add: pyparser_configure_def Let_def cm_if_var_option_off)

lemma pyparser_demo_needs_flag:
  "''pyparser'' \<in> set (cm_subdirs (demos_configure s)) \<Longrightarrow> ''pyparser'' \<notin> set (cm_subdirs s) \<Longrightarrow>
   cm_if_var s ''ENABLE_MODULE_PYTHON''"
  by (auto simp: demos_configure_subdirs demo_modules_def set_filter simp del: filter.simps)

lemma map_filter_mem: "x \<in> set xs \<Longrightarrow> P x \<Longrightarrow> f x \<in> set (map f (filter P xs))"
  by auto

section \<open>Fixtures\<close>

text \<open>A first configuration: nothing defined but the cache entries given.\<close>

definition cm_fresh :: "(string \<Rightarrow> string option) \<Rightarrow> cmake_state" where
  "cm_fresh cache = \<lparr>cm_vars = Map.empty, cm_cache = cache, cm_parent = Map.empty, cm_advanced = Map.empty,
     cm_messages = [], cm_include_dirs = [], cm_subdirs = [], cm_targets = [], cm_installs = []\<rparr>"

definition demo_python :: py_interp where
  "demo_python = \<lparr>py_executable = ''/usr/bin/python3'', py_version = ''3.8''\<rparr>"

section \<open>Properties\<close>

text \<open>
  C30: the install RPATH of the demos is \<open>${CMAKE_INSTALL_PREFIX}/lib\<close> whether
  or not that directory is one of the platform's implicit link directories: the
  lookup detects a system directory, but the value was already set before the
  test, so the comment's "only if it's not a system directory" does not hold.
\<close>

theorem demos_install_rpath:
  "cm_get (demos_configure st) ''CMAKE_INSTALL_RPATH'' = cm_get st ''CMAKE_INSTALL_PREFIX'' @ ''/lib''
   \<and> (cm_get (demos_configure st) ''isSystemDir'' = ''-1'')
       = (cm_get st ''CMAKE_INSTALL_PREFIX'' @ ''/lib''
            \<notin> set (cm_split (cm_get st ''CMAKE_PLATFORM_IMPLICIT_LINK_DIRECTORIES'')))"
proof -
  have "nat_digits n \<noteq> ''-1''" for n
    using nat_digits_not_minus [of n] by auto
  then show ?thesis
    by (simp add: cm_get_vars [OF demos_rpath_vars(1)] cm_get_vars [OF demos_rpath_vars(2)] Let_def)
qed

text \<open>
  C29: the demo directories configured are, in order, the base, FEA and robot
  demos unless their option is set false, then the demos of every module whose
  \<open>ENABLE_MODULE_\<close> flag holds and whose \<open>BUILD_DEMOS_\<close> option is not set
  false; nothing else is added.
\<close>

theorem demos_configure_dirs:
  "cm_subdirs (demos_configure st) = cm_subdirs st
     @ map snd (filter (\<lambda>(opt, sub). demo_on st opt)
                 [(''BUILD_DEMOS_BASE'', ''core''), (''BUILD_DEMOS_FEA'', ''fea''), (''BUILD_DEMOS_ROBOT'', ''robot'')])
     @ map (snd \<circ> snd) (filter (\<lambda>(m, opt, sub). cm_if_var st m \<and> demo_on st opt) demo_modules)"
  by (rule demos_configure_subdirs)

theorem demos_install_rpath_witness:
  "cm_get (demos_configure (cm_fresh [''CMAKE_INSTALL_PREFIX'' \<mapsto> ''/usr'',
       ''CMAKE_PLATFORM_IMPLICIT_LINK_DIRECTORIES'' \<mapsto> ''/lib;/usr/lib''])) ''CMAKE_INSTALL_RPATH'' = ''/usr/lib''
   \<and> cm_get (demos_configure (cm_fresh [''CMAKE_INSTALL_PREFIX'' \<mapsto> ''/usr'',
       ''CMAKE_PLATFORM_IMPLICIT_LINK_DIRECTORIES'' \<mapsto> ''/lib;/usr/lib''])) ''isSystemDir'' \<noteq> ''-1''"
  using demos_install_rpath [of "cm_fresh [''CMAKE_INSTALL_PREFIX'' \<mapsto> ''/usr'',
       ''CMAKE_PLATFORM_IMPLICIT_LINK_DIRECTORIES'' \<mapsto> ''/lib;/usr/lib'']"]
  by (simp add: cm_fresh_def cm_get_def cm_split_def)

text \<open>
  C27: with the Python module enabled, an interpreter found and its libraries
  found, the Python parser script adds the one shared library target
  \<open>ChronoEngine_pyparser\<close>, linked to the Python libraries then
  \<open>ChronoEngine\<close>, and exports the interpreter's directory, the include
  directory and the libraries to the parent scope.
\<close>

theorem pyparser_builds_library:
  assumes "cm_if_var st ''ENABLE_MODULE_PYTHON''" and "libs (py_version r) = Some (inc, ls)"
    and "\<forall>x \<in> set ls. x \<noteq> [] \<and> CHR '';'' \<notin> set x"
    and "\<forall>t \<in> set (cm_targets st). tg_name t \<noteq> ''ChronoEngine_pyparser''"
  shows "\<exists>st'. pyparser_configure (Some r) libs st = Inr st'
     \<and> map tg_name (cm_targets st') = map tg_name (cm_targets st) @ [''ChronoEngine_pyparser'']
     \<and> tg_links (last (cm_targets st')) = ls @ [''ChronoEngine'']
     \<and> cm_parent st' ''CH_PYTHONDIR'' = Some (cm_dirname (py_executable r))
     \<and> cm_parent st' ''CH_PYTHONINC'' = Some inc \<and> cm_parent st' ''CH_PYTHONLIB'' = Some (cm_join ls)"
proof -
  have "(inc, cm_join ls) = (case libs (py_version r) of None \<Rightarrow> (''PYTHON_INCLUDE_DIR-NOTFOUND'', ''PYTHON_LIBRARY-NOTFOUND'')
                                               | Some (i, ls) \<Rightarrow> (i, cm_join ls))"
    using assms(2) by simp
  from pyparser_found [where st = st and libs = libs and r = r and inc = inc and lib = "cm_join ls", OF assms(1,4) this] show ?thesis
    by (auto simp: cm_split_join [OF assms(3)])
qed

theorem pyparser_builds_library_witness:
  "\<exists>st'. pyparser_configure (Some demo_python) (\<lambda>v. Some (''/usr/include/python3.8'', [''/usr/lib/libpython3.8.so'']))
            (cm_fresh [''ENABLE_MODULE_PYTHON'' \<mapsto> ''ON'']) = Inr st'
     \<and> tg_links (last (cm_targets st')) = [''/usr/lib/libpython3.8.so'', ''ChronoEngine'']
     \<and> cm_parent st' ''CH_PYTHONDIR'' = Some ''/usr/bin''"
proof -
  have e: "cm_if_var (cm_fresh [''ENABLE_MODULE_PYTHON'' \<mapsto> ''ON'']) ''ENABLE_MODULE_PYTHON''"
    by (simp add: cm_fresh_def cm_if_var_def cm_defined_def cm_get_def cmake_true_consts)
  show ?thesis
    using pyparser_builds_library [OF e, of "\<lambda>v. Some (''/usr/include/python3.8'', [''/usr/lib/libpython3.8.so''])"
        demo_python "''/usr/include/python3.8''" "[''/usr/lib/libpython3.8.so'']"]
    by (auto simp: cm_fresh_def demo_python_def cm_dirname_def)
qed

text \<open>
  C28: the Python parser script's error paths: with the module disabled it only
  records the option and hides \<open>SWIG_EXECUTABLE\<close>; without an interpreter the
  configuration stops; without the libraries it still adds the library target,
  linked to the finder's \<open>PYTHON_LIBRARY-NOTFOUND\<close>, because the script never
  tests whether \<open>PythonLibs\<close> was found.
\<close>

theorem pyparser_configure_errors:
  "(\<not> cm_if_var st ''ENABLE_MODULE_PYTHON'' \<longrightarrow>
      pyparser_configure i l st = Inr (cm_mark_advanced True ''SWIG_EXECUTABLE'' (cm_option ''ENABLE_MODULE_PYTHON'' ''OFF'' st)))
   \<and> (cm_if_var st ''ENABLE_MODULE_PYTHON'' \<longrightarrow> pyparser_configure None l st = Inl (FatalNotFound ''PythonInterp''))
   \<and> (cm_if_var st ''ENABLE_MODULE_PYTHON'' \<and> l (py_version r) = None
        \<and> (\<forall>t \<in> set (cm_targets st). tg_name t \<noteq> ''ChronoEngine_pyparser'') \<longrightarrow>
      (\<exists>st'. pyparser_configure (Some r) l st = Inr st'
             \<and> tg_links (last (cm_targets st')) = [''PYTHON_LIBRARY-NOTFOUND'', ''ChronoEngine'']))"
proof (intro conjI impI)
  assume "\<not> cm_if_var st ''ENABLE_MODULE_PYTHON''"
  then show "pyparser_configure i l st = Inr (cm_mark_advanced True ''SWIG_EXECUTABLE'' (cm_option ''ENABLE_MODULE_PYTHON'' ''OFF'' st))"
    by (rule pyparser_disabled)
next
  assume "cm_if_var st ''ENABLE_MODULE_PYTHON''"
  then show "pyparser_configure None l st = Inl (FatalNotFound ''PythonInterp'')"
    by (simp add: pyparser_enabled find_python_def)
next
  assume a: "cm_if_var st ''ENABLE_MODULE_PYTHON'' \<and> l (py_version r) = None
        \<and> (\<forall>t \<in> set (cm_targets st). tg_name t \<noteq> ''ChronoEngine_pyparser'')"
  then have "(''PYTHON_INCLUDE_DIR-NOTFOUND'', ''PYTHON_LIBRARY-NOTFOUND'') =
     (case l (py_version r) of None \<Rightarrow> (''PYTHON_INCLUDE_DIR-NOTFOUND'', ''PYTHON_LIBRARY-NOTFOUND'')
                            | Some (i, ls) \<Rightarrow> (i, cm_join ls))"
    by simp
  from pyparser_found [where st = st and libs = l and r = r and inc = "''PYTHON_INCLUDE_DIR-NOTFOUND''"
      and lib = "''PYTHON_LIBRARY-NOTFOUND''",
      OF conjunct1 [OF a] conjunct2 [OF conjunct2 [OF a]] this]
  show "\<exists>st'. pyparser_configure (Some r) l st = Inr st'
             \<and> tg_links (last (cm_targets st')) = [''PYTHON_LIBRARY-NOTFOUND'', ''ChronoEngine'']"
    by (auto simp: cm_split_def)
qed

theorem pyparser_configure_errors_witness:
  "pyparser_configure None (\<lambda>v. None) (cm_fresh Map.empty)
     = Inr (cm_mark_advanced True ''SWIG_EXECUTABLE'' (cm_option ''ENABLE_MODULE_PYTHON'' ''OFF'' (cm_fresh Map.empty)))
   \<and> pyparser_configure None (\<lambda>v. None) (cm_fresh [''ENABLE_MODULE_PYTHON'' \<mapsto> ''ON'']) = Inl (FatalNotFound ''PythonInterp'')
   \<and> (\<exists>st'. pyparser_configure (Some demo_python) (\<lambda>v. None) (cm_fresh [''ENABLE_MODULE_PYTHON'' \<mapsto> ''ON'']) = Inr st'
           \<and> tg_links (last (cm_targets st')) = [''PYTHON_LIBRARY-NOTFOUND'', ''ChronoEngine''])"
proof -
  have d: "\<not> cm_if_var (cm_fresh Map.empty) ''ENABLE_MODULE_PYTHON''"
    by (simp add: cm_fresh_def cm_if_var_def cm_defined_def)
  have e: "cm_if_var (cm_fresh [''ENABLE_MODULE_PYTHON'' \<mapsto> ''ON'']) ''ENABLE_MODULE_PYTHON''"
    by (simp add: cm_fresh_def cm_if_var_def cm_defined_def cm_get_def cmake_true_consts)
  show ?thesis
    using pyparser_configure_errors [of "cm_fresh Map.empty" None "\<lambda>v. None" demo_python]
      pyparser_configure_errors [of "cm_fresh [''ENABLE_MODULE_PYTHON'' \<mapsto> ''ON'']" None "\<lambda>v. None" demo_python] d e
    by (simp add: cm_fresh_def)
qed

end
