(* ===== verification/Spec2Isabelle.thy ===== *)
theory Spec2Isabelle
  imports Path_PID Path_XT Path_SR Path_Stanley Track_Assembly Track_Operations Sedan_Chassis Ch_Ellipsoid Demo_UJoint
    CMake_Config
begin

text \<open>
  A verification development for the parts of Project Chrono in this repository:
  the vehicle module's path-steering controllers (src/unnamed/part_000, which is
  \<open>ChSteeringController.cpp\<close>), the tracked vehicle's track assembly
  (src/src/chrono_vehicle/tracked_vehicle/ChTrackAssembly.cpp), the sedan
  chassis (src/src/chrono_models/vehicle/sedan/Sedan_Chassis.cpp), the ellipsoid
  geometry (src/src/chrono/geometry/ChEllipsoid.h), the universal-joint demo
  (src/src/demos/irrlicht/demo_IRR_ujoint.cpp, whose second part is the demos'
  CMake script) and the Python parser module's CMake script
  (src/src/chrono_pyparser/CMakeLists.txt). It is a shallow embedding:
  classes are records, an object's method is a function from the record (and
  its arguments) to the record, errors and out-of-range reads are the left
  values of a sum type, and \<open>double\<close> is \<open>real\<close>, so rounding is not modelled.

  \<^bold>\<open>Theories.\<close>
  \<^item> \<open>Steering_Prelude\<close>: the shared named collections (\<open>vec_defs\<close>,
    \<open>range_rules\<close>), the type of a controller step, and lemmas on reals,
    trigonometry and indexed list loops (\<open>foldl_update_all\<close>,
    \<open>foldl_add_sum\<close>) that the components use.
  \<^item> \<open>Ch_Vector\<close>, \<open>Ch_Math\<close> and \<open>Ch_Filters\<close>: Chrono's vector type (an
    instance of \<open>ab_group_add\<close>), its operations, frames, scalar helpers
    and the PT1/PDT1 filters. These files are not part of the repository: the
    filters, the scalar helpers and the rotation are modelled from their
    documented behaviour; the vector and frame operations are the auxiliary
    algebra of the model (a \<open>ChVector\<close> is a triple of reals, a \<open>ChFrame\<close>
    an origin and three axes) and stand for no code of the repository.
  \<^item> \<open>Steering_Base\<close>: \<open>ChSteeringController\<close> (constructors, \<open>Reset\<close>,
    \<open>Advance\<close> with its sentinel, lateral error and PID law, data collection).
    The vehicle and the path tracker are interfaces (a snapshot record and a
    record of tracker operations over an abstract state); the derived
    controllers extend the base record, so the base's operations are the
    inherited methods.
  \<^item> \<open>Path_PID\<close>, \<open>Path_XT\<close>, \<open>Path_SR\<close>, \<open>Path_Stanley\<close>: the four derived
    controllers, each with its constructors, setters, \<open>Reset\<close>,
    \<open>CalcTargetLocation\<close> and \<open>Advance\<close>, and \<open>run\<close> functions folding
    \<open>Advance\<close> over a sequence of vehicle snapshots and steps.
  \<^item> \<open>Track_Assembly\<close>: \<open>ChTrackAssembly\<close>'s state, constructor, shoe
    access, \<open>Initialize\<close> with the shoe ring, \<open>InitializeInertiaProperties\<close>,
    the setters, \<open>Synchronize\<close>, \<open>SetOutput\<close>, \<open>ExportComponentList\<close> and
    \<open>Output\<close>. \<open>Track_Operations\<close> adds \<open>UpdateInertiaProperties\<close>,
    \<open>ReportSuspensionForce\<close> and \<open>LogConstraintViolations\<close>, and the calls a
    vehicle makes on an assembly as the datatype \<open>ta_op\<close> with the step
    function \<open>ta_step\<close> and the sequence \<open>ta_run\<close>.
  \<^item> \<open>Sedan_Chassis\<close>, \<open>Ch_Ellipsoid\<close>, \<open>Demo_UJoint\<close>: the chassis
    constructor, the ellipsoid's inline members, the demo's scene and loop.
  \<^item> \<open>CMake_Config\<close>: the two CMake scripts as functions on a configuration
    state (normal variables, cache, parent scope, targets, installs, messages,
    configured directories) with CMake's semantics of \<open>if\<close>, \<open>option\<close>,
    lists, \<open>PARENT_SCOPE\<close> and \<open>add_subdirectory\<close> scopes written out;
    \<open>find_package\<close> results are parameters. This theory composes them in the
    order of the top-level script (\<open>chrono_configure\<close>).

  \<^bold>\<open>What is shown.\<close> Bounds on every steering value the XT controller
  returns, and on every value the SR and Stanley controllers return when their
  maximum wheel angle is positive (for Stanley also when the delay filter's step
  is at most twice its time constant); invariants kept by every \<open>Advance\<close> (SR
  segment index and steer angle, Stanley countdown, XT filter configuration);
  the functional law of the PID, SR and Stanley controllers on a straight path,
  which shows the PID output unclamped; the XT heading error's sign flip from 60
  degrees and its curvature code as a cone test; the SR scan loop's termination
  within one lap, its non-termination off the path and its refinement of a
  first-match specification over the ring of segments; the chaining of the
  closed path's segments. For the track assembly: the shoe ring that
  \<open>Initialize\<close> builds, the mass as the sum of the subsystems' masses and its
  invariance under every later call, the order in which the inertia updates
  must run, the absence of carried-over loads in \<open>Synchronize\<close>, the shoe states
  in order, the unguarded track length, and the agreement of \<open>SetOutput\<close> and
  \<open>Output\<close>. For the sedan chassis: its symmetric inertia and the collision
  flag without a shape for meshes. For the build: which demo directories are
  configured, the install RPATH (whose system-directory test has no effect),
  the library target and exports of the Python parser script and its error
  paths (a missing interpreter stops the configuration, missing libraries do
  not), and, across the two scripts, that the Python demos are only configured
  together with the library they use. The ellipsoid and the demo's scene are
  modelled as definitions only: their members are constants or ignore an
  argument, which the findings record.

  \<^bold>\<open>Fuel.\<close> The only loop of the sources that may not end is the SR closed-path
  scan (\<open>while\<close> over the segment index with wrap-around). \<open>sr_scan_closed\<close>
  takes fuel, one unit per segment probed, and \<open>sr_Advance\<close> and \<open>sr_run\<close> pass
  the fuel on from their caller. The number of segments is enough: within one
  lap every segment is probed once, so if any holds the preview point the scan
  returns with that fuel (\<open>sr_scan_closed_terminates\<close>) and computes the
  first-match specification (\<open>sr_scan_closed_refines\<close>); if none does, the C++
  loop never ends, which the model shows as \<open>None\<close> for every amount of fuel
  (\<open>sr_Advance_hangs_off_path\<close>). The run lemmas hold for any fuel, since
  they speak only of the calls that return.

  \<^bold>\<open>Not modelled.\<close> Floating-point rounding, and with it two behaviours
  of the code that rounding or IEEE division decides: XT's standstill test
  \<open>speed < 1\<close> on a velocity just normalised (true for about a third of the
  directions in double, never over the reals), and the steering ratio
  \<open>m_delta / m_delta_max\<close> of the SR and Stanley controllers, which is NaN for a
  zero maximum wheel angle where real division gives 0; the bounds on those
  ratios are therefore stated for a positive \<open>m_delta_max\<close> only; the multibody dynamics and the
  subsystems' own physics (the road-wheel, sprocket and shoe bodies, forces
  reported by the suspensions, constraint violations); the composite inertia
  matrix of \<open>UpdateInertiaProperties\<close>; the file and console I/O beyond the
  sequence of records written; the JSON parser (a document is a record of the
  members read); the Irrlicht window and visual assets; in the CMake scripts,
  \<open>source_group\<close> (IDE folders only) and the scripts of the demo
  subdirectories, which are not in the repository.
  \<open>ChVehicle\<close>, \<open>ChBezierCurveTracker\<close>, \<open>ChFrame\<close> and the filters are not
  under src/ and appear only through the interfaces and definitions above.
\<close>

section \<open>The configuration of the build\<close>

text \<open>
  The top-level CMake script (not under src/) configures the Python parser
  module before the demos, each in its own directory scope
  (\<open>add_subdirectory\<close>): the two scripts of \<open>CMake_Config\<close> share the cache,
  the targets and the configured directories.
\<close>

definition chrono_configure ::
  "py_interp option \<Rightarrow> (string \<Rightarrow> (string \<times> string list) option) \<Rightarrow> cmake_state \<Rightarrow> cm_error + cmake_state" where
  "chrono_configure interp libs st =
     (case cm_scope (pyparser_configure interp libs) st of
        Inl e \<Rightarrow> Inl e
      | Inr st1 \<Rightarrow> cm_scope (\<lambda>s. Inr (demos_configure s)) st1)"

section \<open>Properties across components\<close>

text \<open>
  C31: the two build scripts agree: whenever the configuration adds the Python
  demos, it has also added the Python parser library they use, because both
  read the same \<open>ENABLE_MODULE_PYTHON\<close> entry of the cache and the parser
  script stops the configuration when it finds no interpreter.
\<close>

theorem chrono_pyparser_demos_need_library:
  assumes "chrono_configure interp libs st = Inr st'"
    and "''pyparser'' \<in> set (cm_subdirs st')" and "''pyparser'' \<notin> set (cm_subdirs st)"
    and "\<forall>t \<in> set (cm_targets st). tg_name t \<noteq> ''ChronoEngine_pyparser''"
  shows "\<exists>t \<in> set (cm_targets st'). tg_name t = ''ChronoEngine_pyparser''"
proof -
  let ?c = "st\<lparr>cm_parent := Map.empty\<rparr>"
  obtain r where r: "pyparser_configure interp libs ?c = Inr r"
    using assms(1) by (cases "pyparser_configure interp libs ?c") (auto simp: chrono_configure_def cm_scope_def)
  define st1 where "st1 = r\<lparr>cm_vars := cm_vars st ++ cm_parent r, cm_parent := cm_parent st, cm_include_dirs := cm_include_dirs st\<rparr>"
  have st': "st' = (demos_configure (st1\<lparr>cm_parent := Map.empty\<rparr>))\<lparr>cm_vars := cm_vars st1 ++ cm_parent (demos_configure (st1\<lparr>cm_parent := Map.empty\<rparr>)),
                 cm_parent := cm_parent st1, cm_include_dirs := cm_include_dirs st1\<rparr>"
    using assms(1) r by (simp add: chrono_configure_def cm_scope_def st1_def)
  have en: "cm_if_var st ''ENABLE_MODULE_PYTHON''"
  proof (rule ccontr)
    assume n: "\<not> cm_if_var st ''ENABLE_MODULE_PYTHON''"
    have nc: "\<not> cm_if_var ?c ''ENABLE_MODULE_PYTHON''"
      using n by simp
    have rr: "r = cm_mark_advanced True ''SWIG_EXECUTABLE'' (cm_option ''ENABLE_MODULE_PYTHON'' ''OFF'' ?c)"
      using r pyparser_disabled [OF nc, of interp libs] by simp
    have "cm_vars (st1\<lparr>cm_parent := Map.empty\<rparr>) = cm_vars (cm_option ''ENABLE_MODULE_PYTHON'' ''OFF'' ?c)"
      and "cm_cache (st1\<lparr>cm_parent := Map.empty\<rparr>) = cm_cache (cm_option ''ENABLE_MODULE_PYTHON'' ''OFF'' ?c)"
      by (simp_all add: st1_def rr)
    then have "cm_if_var (st1\<lparr>cm_parent := Map.empty\<rparr>) = cm_if_var (cm_option ''ENABLE_MODULE_PYTHON'' ''OFF'' ?c)"
      using cm_get_defined_cong by blast
    then have "\<not> cm_if_var (st1\<lparr>cm_parent := Map.empty\<rparr>) ''ENABLE_MODULE_PYTHON''"
      using nc by (simp add: cm_if_var_option_off)
    moreover have "''pyparser'' \<notin> set (cm_subdirs (st1\<lparr>cm_parent := Map.empty\<rparr>))"
      using assms(3) pyparser_configure_subdirs [OF r] by (simp add: st1_def)
    moreover have "''pyparser'' \<in> set (cm_subdirs (demos_configure (st1\<lparr>cm_parent := Map.empty\<rparr>)))"
      using assms(2) by (simp add: st')
    ultimately show False using pyparser_demo_needs_flag by blast
  qed
  have enc: "cm_if_var ?c ''ENABLE_MODULE_PYTHON''"
    using en by simp
  obtain rp where rp: "interp = Some rp"
    using r enc by (cases interp) (simp_all add: pyparser_enabled find_python_def)
  obtain inc lib where il: "(inc, lib) = (case libs (py_version rp) of None \<Rightarrow> (''PYTHON_INCLUDE_DIR-NOTFOUND'', ''PYTHON_LIBRARY-NOTFOUND'')
                                               | Some (i, ls) \<Rightarrow> (i, cm_join ls))"
    by (metis surj_pair)
  have "\<forall>t \<in> set (cm_targets ?c). tg_name t \<noteq> ''ChronoEngine_pyparser''" using assms(4) by simp
  from pyparser_found [where st = ?c and libs = libs and r = rp and inc = inc and lib = lib, OF enc this il]
  have "\<exists>t \<in> set (cm_targets r). tg_name t = ''ChronoEngine_pyparser''"
    using r rp by auto
  then show ?thesis by (simp add: st' st1_def demos_configure_targets)
qed

theorem chrono_pyparser_demos_need_library_witness:
  "\<exists>st'. chrono_configure (Some demo_python) (\<lambda>v. None) (cm_fresh [''ENABLE_MODULE_PYTHON'' \<mapsto> ''ON'']) = Inr st'
     \<and> ''pyparser'' \<in> set (cm_subdirs st')
     \<and> (\<exists>t \<in> set (cm_targets st'). tg_name t = ''ChronoEngine_pyparser'')"
proof -
  let ?s = "cm_fresh [''ENABLE_MODULE_PYTHON'' \<mapsto> ''ON'']"
  have en: "cm_if_var ?s ''ENABLE_MODULE_PYTHON''"
    by (simp add: cm_fresh_def cm_if_var_def cm_defined_def cm_get_def cmake_true_consts)
  have c: "?s\<lparr>cm_parent := Map.empty\<rparr> = ?s" by (simp add: cm_fresh_def)
  have il: "(''PYTHON_INCLUDE_DIR-NOTFOUND'', ''PYTHON_LIBRARY-NOTFOUND'') = (case (\<lambda>v. None :: (string \<times> string list) option) (py_version demo_python) of
      None \<Rightarrow> (''PYTHON_INCLUDE_DIR-NOTFOUND'', ''PYTHON_LIBRARY-NOTFOUND'') | Some (i, ls) \<Rightarrow> (i, cm_join ls))" by simp
  obtain r where r: "pyparser_configure (Some demo_python) (\<lambda>v. None) ?s = Inr r"
    and par: "cm_parent r = (cm_parent ?s)(''CH_PYTHONDIR'' \<mapsto> cm_dirname (py_executable demo_python),
                          ''CH_PYTHONINC'' \<mapsto> ''PYTHON_INCLUDE_DIR-NOTFOUND'', ''CH_PYTHONLIB'' \<mapsto> ''PYTHON_LIBRARY-NOTFOUND'')"
    using pyparser_found [where st = ?s and libs = "\<lambda>v. None" and r = demo_python
        and inc = "''PYTHON_INCLUDE_DIR-NOTFOUND''" and lib = "''PYTHON_LIBRARY-NOTFOUND''", OF en _ il]
    by (auto simp: cm_fresh_def)
  define st1 where "st1 = r\<lparr>cm_vars := cm_vars ?s ++ cm_parent r, cm_parent := cm_parent ?s, cm_include_dirs := cm_include_dirs ?s\<rparr>"
  let ?d = "demos_configure (st1\<lparr>cm_parent := Map.empty\<rparr>)"
  have ch: "chrono_configure (Some demo_python) (\<lambda>v. None) ?s
      = Inr (?d\<lparr>cm_vars := cm_vars st1 ++ cm_parent ?d, cm_parent := cm_parent st1, cm_include_dirs := cm_include_dirs st1\<rparr>)"
    by (simp add: chrono_configure_def cm_scope_def c r st1_def)
  have v: "cm_vars (st1\<lparr>cm_parent := Map.empty\<rparr>) ''ENABLE_MODULE_PYTHON'' = None"
    "cm_vars (st1\<lparr>cm_parent := Map.empty\<rparr>) ''BUILD_DEMOS_PYTHON'' = None"
    by (simp_all add: st1_def par cm_fresh_def map_add_def)
  have k: "cm_cache (st1\<lparr>cm_parent := Map.empty\<rparr>) = [''ENABLE_MODULE_PYTHON'' \<mapsto> ''ON'']"
    using pyparser_configure_cache [OF r] by (simp add: st1_def cm_option_def cm_fresh_def cm_defined_def)
  have "cm_if_var (st1\<lparr>cm_parent := Map.empty\<rparr>) ''ENABLE_MODULE_PYTHON''
        \<and> demo_on (st1\<lparr>cm_parent := Map.empty\<rparr>) ''BUILD_DEMOS_PYTHON''"
    using v k by (simp add: cm_if_var_def cm_defined_def cm_get_def demo_on_def cmake_true_consts)
  moreover have mem: "(''ENABLE_MODULE_PYTHON'', ''BUILD_DEMOS_PYTHON'', ''pyparser'') \<in> set demo_modules"
    by (simp add: demo_modules_def)
  ultimately have "''pyparser'' \<in> set (cm_subdirs ?d)"
    unfolding demos_configure_subdirs
    using map_filter_mem [OF mem, where
        P = "\<lambda>(m, opt, sub). cm_if_var (st1\<lparr>cm_parent := Map.empty\<rparr>) m \<and> demo_on (st1\<lparr>cm_parent := Map.empty\<rparr>) opt"
        and f = "snd \<circ> snd"]
    by simp
  then show ?thesis
    using ch chrono_pyparser_demos_need_library [OF ch] by (simp add: cm_fresh_def)
qed

end
